theory Spec2Isabelle
  imports Complex_Main "HOL-Library.Signed_Division" "HOL-Library.Sublist"
begin

section \<open>Data of the benchmark drivers\<close>

text \<open>
  The drivers of \<^verbatim>\<open>benchmarking.hpp\<close> (\<^verbatim>\<open>sealedColumn\<close>, \<^verbatim>\<open>terzaghi\<close>,
  \<^verbatim>\<open>mandel\<close>, \<^verbatim>\<open>convergence\<close>, \<^verbatim>\<open>stripfoot\<close>, \<^verbatim>\<open>terzaghiDouble\<close>,
  \<^verbatim>\<open>stripfootDouble\<close>, \<^verbatim>\<open>sealedDouble\<close>, \<^verbatim>\<open>storageDouble\<close>,
  \<^verbatim>\<open>leakingDouble\<close>) and the two \<^verbatim>\<open>main\<close> functions are embedded.
  A C++ \<^verbatim>\<open>double\<close> is a \<open>real\<close> (rounding is not modelled; in HOL \<open>x / 0 = 0\<close>
  where the C++ division gives an infinity or a NaN), an \<^verbatim>\<open>int\<close> is an \<open>int\<close>
  (no property below reaches the wrap-around), a \<^verbatim>\<open>vector<vector<double>>\<close> is a
  \<open>real list list\<close>.
\<close>

type_synonym field = "real list list"

record poroelasticProperties =
  pairName :: string
  shearModulus :: real
  bulkModulus :: real
  porosity :: real
  permeability :: real
  macroPorosity :: real
  macroPermeability :: real
  solidBulkModulus :: real
  solidDensity :: real
  fluidBulkModulus :: real
  fluidViscosity :: real
  fluidDensity :: real

text \<open>
  The classes \<^verbatim>\<open>gridDesign\<close>, \<^verbatim>\<open>problemParameters\<close>,
  \<^verbatim>\<open>problemDoubleParameters\<close>, \<^verbatim>\<open>coefficientsAssembly\<close>,
  \<^verbatim>\<open>independentTermsAssembly\<close>, \<^verbatim>\<open>linearSystemSolver\<close> and
  \<^verbatim>\<open>dataProcessing\<close> are included by the drivers and are not part of the sources
  at hand. The public members the drivers read are record fields; constructors and
  methods are parameters of the drivers (the records \<open>problemSetup\<close>, \<open>coefficientsAssembly\<close>,
  \<open>independentTermsAssembly\<close>, \<open>linearSystemSolver\<close> below).
\<close>

record gridDesign =
  numberOfActiveUDisplacementFV :: int
  numberOfActiveVDisplacementFV :: int
  numberOfActiveGeneralFV :: int
  grid_dx :: real
  grid_dy :: real
  grid_dt :: real
  grid_h :: real
  uDisplacementFVIndex :: "int list list"
  vDisplacementFVIndex :: "int list list"
  generalFVIndex :: "int list list"
  uDisplacementFVCoordinates :: "int list list"
  vDisplacementFVCoordinates :: "int list list"
  generalFVCoordinates :: "int list list"
  horizontalFacesStatus :: "int list list"
  verticalFacesStatus :: "int list list"
  grid_uDisplacementField :: field
  grid_vDisplacementField :: field
  grid_pressureField :: field

record problemParameters =
  pp_Q :: real
  pp_alpha :: real
  pp_M :: real
  pp_c :: real
  pp_dt_vv :: real
  pp_dt_carlos :: real
  pp_P0 :: real
  pp_uDisplacementField :: field
  pp_vDisplacementField :: field
  pp_pressureField :: field

record problemDoubleParameters =
  pd_psiPore :: real
  pd_psiFrac :: real
  pd_alpha :: real
  pd_S11 :: real
  pd_S12 :: real
  pd_S22 :: real
  pd_consolCoef :: real
  pd_vDisplacementField :: field
  pd_pressurePoreField :: field
  pd_pressureFracField :: field

text \<open>
  Constructors and methods of \<^verbatim>\<open>gridDesign\<close>, \<^verbatim>\<open>problemParameters\<close> and
  \<^verbatim>\<open>problemDoubleParameters\<close>. Where a driver hands over the index maps, coordinate
  tables and face tables it took from the grid, the parameter receives the grid itself.
\<close>

record problemSetup =
  new_gridDesign :: "int \<Rightarrow> int \<Rightarrow> int \<Rightarrow> real \<Rightarrow> real \<Rightarrow> real \<Rightarrow> string \<Rightarrow> real list list
    \<Rightarrow> gridDesign"
  new_problemParameters :: "real list \<Rightarrow> field \<Rightarrow> field \<Rightarrow> field \<Rightarrow> gridDesign \<Rightarrow> real
    \<Rightarrow> problemParameters"
  applySealedColumnInitialConditions :: "problemParameters \<Rightarrow> problemParameters"
  applyTerzaghiInitialConditions :: "problemParameters \<Rightarrow> problemParameters"
  applyMandelInitialConditions :: "problemParameters \<Rightarrow> problemParameters"
  new_problemDoubleParameters :: "real list \<Rightarrow> gridDesign \<Rightarrow> problemDoubleParameters"
  applyDoublePoreInitialConditions :: "real \<Rightarrow> real \<Rightarrow> field \<Rightarrow> field \<Rightarrow> field
    \<Rightarrow> problemDoubleParameters \<Rightarrow> problemDoubleParameters"
  computeLeakTerm :: "problemDoubleParameters \<Rightarrow> int \<Rightarrow> real"

text \<open>The object \<^verbatim>\<open>myCoefficients\<close> has the abstract type \<open>'c\<close>.\<close>

record 'c coefficientsAssembly =
  new_coefficientsAssembly :: "int list list \<Rightarrow> gridDesign \<Rightarrow> string \<Rightarrow> string \<Rightarrow> 'c"
  assemblyCoefficientsMatrix :: "real list \<Rightarrow> 'c \<Rightarrow> 'c"
  assemblyMandelCoefficientsMatrix :: "real list \<Rightarrow> 'c \<Rightarrow> 'c"
  assemblySparseMatrix :: "'c \<Rightarrow> 'c"
  assemblyDoublePorosityMatrix :: "real list \<Rightarrow> 'c \<Rightarrow> 'c"
  cm_addStripfootBC :: "int \<Rightarrow> real \<Rightarrow> real \<Rightarrow> 'c \<Rightarrow> 'c"
  cm_addMacroStripfootBC :: "int \<Rightarrow> real \<Rightarrow> real \<Rightarrow> 'c \<Rightarrow> 'c"

text \<open>The object \<^verbatim>\<open>myIndependentTerms\<close> has the abstract type \<open>'r\<close>.\<close>

record 'r independentTermsAssembly =
  new_independentTermsAssembly :: "int list list \<Rightarrow> real list list \<Rightarrow> gridDesign \<Rightarrow> string
    \<Rightarrow> string \<Rightarrow> 'r"
  increaseMandelIndependentTermsArray :: "'r \<Rightarrow> 'r"
  increaseMacroIndependentTermsArray :: "'r \<Rightarrow> 'r"
  assemblyIndependentTermsArray :: "real list \<Rightarrow> field \<Rightarrow> field \<Rightarrow> field \<Rightarrow> int \<Rightarrow> 'r \<Rightarrow> 'r"
  assemblyMandelIndependentTermsArray :: "real \<Rightarrow> real \<Rightarrow> 'r \<Rightarrow> 'r"
  assemblyMacroIndependentTermsArray :: "real list \<Rightarrow> field \<Rightarrow> field \<Rightarrow> field \<Rightarrow> field
    \<Rightarrow> int \<Rightarrow> real list \<Rightarrow> 'r \<Rightarrow> 'r"
  it_addStripfootBC :: "int \<Rightarrow> real \<Rightarrow> real \<Rightarrow> 'r \<Rightarrow> 'r"
  it_addMacroStripfootBC :: "int \<Rightarrow> real \<Rightarrow> real \<Rightarrow> 'r \<Rightarrow> 'r"
  it_independentTermsArray :: "'r \<Rightarrow> real list"

text \<open>
  The object \<^verbatim>\<open>myLinearSystemSolver\<close> has the abstract type \<open>'s\<close>. A method that
  returns a \<^verbatim>\<open>PetscErrorCode\<close> returns the code and the new state of the object.
\<close>

record ('c, 's) linearSystemSolver =
  new_linearSystemSolver :: "'c \<Rightarrow> field \<Rightarrow> field \<Rightarrow> field \<Rightarrow> gridDesign \<Rightarrow> int \<Rightarrow> 's"
  createMacroPressureField :: "field \<Rightarrow> 's \<Rightarrow> 's"
  coefficientsMatrixLUFactorization :: "'s \<Rightarrow> int \<times> 's"
  createPETScArrays :: "'s \<Rightarrow> int \<times> 's"
  zeroPETScArrays :: "'s \<Rightarrow> int \<times> 's"
  setRHSValue :: "real list \<Rightarrow> 's \<Rightarrow> int \<times> 's"
  solveLinearSystem :: "'s \<Rightarrow> int \<times> 's"
  setFieldValue :: "int \<Rightarrow> 's \<Rightarrow> int \<times> 's"
  setMacroFieldValue :: "int \<Rightarrow> 's \<Rightarrow> int \<times> 's"
  ls_uField :: "'s \<Rightarrow> field"
  ls_vField :: "'s \<Rightarrow> field"
  ls_pField :: "'s \<Rightarrow> field"
  ls_pMField :: "'s \<Rightarrow> field"

record ('c, 'r, 's) collaborators =
  GP :: problemSetup
  CA :: "'c coefficientsAssembly"
  IT :: "'r independentTermsAssembly"
  LS :: "('c, 's) linearSystemSolver"

section \<open>Calls made by a driver\<close>

text \<open>
  A run records, in order, every constructor and method of a collaborator that the driver
  invokes, with the scalar arguments and boundary tables it passes, and the two copying
  blocks of the time loop (\<^verbatim>\<open>// Passing independent terms array\<close>,
  \<^verbatim>\<open>// Passing solutions\<close>). The record is not a variable of the program.
\<close>

datatype call =
    GridDesign int int int real real real string "real list list"
  | ProblemParameters "real list" real
  | ApplySealedColumnInitialConditions
  | ApplyTerzaghiInitialConditions
  | ApplyMandelInitialConditions
  | ProblemDoubleParameters "real list"
  | ApplyDoublePoreInitialConditions real real
  | ComputeLeakTerm int
  | CoefficientsAssembly "int list list" string string
  | AssemblyCoefficientsMatrix "real list"
  | AssemblyMandelCoefficientsMatrix "real list"
  | AssemblySparseMatrix
  | AssemblyDoublePorosityMatrix "real list"
  | CoefficientsAddStripfootBC int real real
  | CoefficientsAddMacroStripfootBC int real real
  | IndependentTermsAssembly "int list list" "real list list" string string
  | LinearSystemSolver int
  | IncreaseMandelIndependentTermsArray
  | IncreaseMacroIndependentTermsArray
  | CreateMacroPressureField
  | CoefficientsMatrixLUFactorization
  | CreatePETScArrays
  | ZeroPETScArrays
  | AssemblyIndependentTermsArray "real list" int
  | AssemblyMandelIndependentTermsArray real real
  | AssemblyMacroIndependentTermsArray "real list" int "real list"
  | IndependentTermsAddStripfootBC int real real
  | IndependentTermsAddMacroStripfootBC int real real
  | PassingIndependentTermsArray
  | SetRHSValue
  | SolveLinearSystem
  | SetFieldValue int
  | SetMacroFieldValue int
  | PassingSolutions
  | DataProcessing string
  | Export string int
  | CreateSolveRunInfo string string string
  | ExportSolveRunInfo real string

text \<open>
  The variables of a driver that change after the constructors have run: the solver and
  right-hand-side objects, the field arrays (\<open>pField\<close> is \<^verbatim>\<open>pPoreField\<close> in the
  double-porosity drivers, which alone use \<open>pFracField\<close>) and the local copy of the
  independent terms.
\<close>

record ('r, 's) world =
  myLinearSystemSolver :: 's
  myIndependentTerms :: 'r
  uField :: field
  vField :: field
  pField :: field
  pFracField :: field
  independentTermsArray :: "real list"
  calls :: "call list"

type_synonym ('r, 's) stmt = "('r, 's) world \<Rightarrow> int \<times> ('r, 's) world"

text \<open>\<^verbatim>\<open>ierr=myLinearSystemSolver.m(...)\<close>: the method runs on the solver object.\<close>

definition petsc :: "call \<Rightarrow> ('s \<Rightarrow> int \<times> 's) \<Rightarrow> ('r, 's) stmt" where
  "petsc c m w = (case m (myLinearSystemSolver w) of
     (ierr, s) \<Rightarrow> (ierr, w\<lparr>myLinearSystemSolver := s, calls := calls w @ [c]\<rparr>))"

text \<open>
  \<^verbatim>\<open>CHKERRQ(ierr)\<close> after a statement: a non-zero code is returned at once, otherwise
  the rest of the function runs.
\<close>

definition CHKERRQ :: "('r, 's) stmt \<Rightarrow> ('r, 's) stmt \<Rightarrow> ('r, 's) stmt" where
  "CHKERRQ st rest w = (case st w of
     (ierr, w') \<Rightarrow> if ierr \<noteq> 0 then (ierr, w') else rest w')"

text \<open>\<^verbatim>\<open>myIndependentTerms.m(...)\<close>: the method runs on the right-hand-side object.\<close>

definition assemble :: "call \<Rightarrow> ('r \<Rightarrow> 'r) \<Rightarrow> ('r, 's) world \<Rightarrow> ('r, 's) world" where
  "assemble c m w = w\<lparr>myIndependentTerms := m (myIndependentTerms w), calls := calls w @ [c]\<rparr>"

text \<open>\<^verbatim>\<open>independentTermsArray=myIndependentTerms.independentTermsArray\<close>\<close>

definition passingIndependentTermsArray ::
  "('c, 'r, 's) collaborators \<Rightarrow> ('r, 's) world \<Rightarrow> ('r, 's) world" where
  "passingIndependentTermsArray X w =
     w\<lparr>independentTermsArray := it_independentTermsArray (IT X) (myIndependentTerms w),
       calls := calls w @ [PassingIndependentTermsArray]\<rparr>"

text \<open>
  \<^verbatim>\<open>uField=myLinearSystemSolver.uField\<close> and the like; the double-porosity drivers
  (\<open>macro\<close>) also copy \<^verbatim>\<open>pMField\<close> into \<^verbatim>\<open>pFracField\<close>.
\<close>

definition passingSolutions ::
  "('c, 'r, 's) collaborators \<Rightarrow> bool \<Rightarrow> ('r, 's) world \<Rightarrow> ('r, 's) world" where
  "passingSolutions X macro w =
     w\<lparr>uField := ls_uField (LS X) (myLinearSystemSolver w),
       vField := ls_vField (LS X) (myLinearSystemSolver w),
       pField := ls_pField (LS X) (myLinearSystemSolver w),
       pFracField := (if macro then ls_pMField (LS X) (myLinearSystemSolver w)
                      else pFracField w),
       calls := calls w @ [PassingSolutions]\<rparr>"

text \<open>
  The body of \<^verbatim>\<open>for(timeStep=0; timeStep<Nt-1; timeStep++)\<close>. The ten drivers repeat
  it word for word but for the assembly calls at its head (\<open>assembly\<close>, one of the
  five forms defined after the loop) and for
  \<^verbatim>\<open>setMacroFieldValue\<close>, which only the double-porosity drivers call.
\<close>

definition solveTimeStep :: "('c, 'r, 's) collaborators \<Rightarrow> bool
    \<Rightarrow> (int \<Rightarrow> ('r, 's) world \<Rightarrow> ('r, 's) world) \<Rightarrow> int \<Rightarrow> ('r, 's) stmt" where
  "solveTimeStep X macro assembly timeStep w =
     CHKERRQ (petsc ZeroPETScArrays (zeroPETScArrays (LS X)))
    (CHKERRQ (\<lambda>w. petsc SetRHSValue (setRHSValue (LS X) (independentTermsArray w)) w)
    (CHKERRQ (petsc SolveLinearSystem (solveLinearSystem (LS X)))
    (CHKERRQ (petsc (SetFieldValue (timeStep + 1)) (setFieldValue (LS X) (timeStep + 1)))
    ((if macro
      then CHKERRQ (petsc (SetMacroFieldValue (timeStep + 1))
                      (setMacroFieldValue (LS X) (timeStep + 1)))
      else (\<lambda>rest. rest))
    (\<lambda>w. petsc ZeroPETScArrays (zeroPETScArrays (LS X)) (passingSolutions X macro w))))))
       (passingIndependentTermsArray X (assembly timeStep w))"

function timeLoop :: "('c, 'r, 's) collaborators \<Rightarrow> bool
    \<Rightarrow> (int \<Rightarrow> ('r, 's) world \<Rightarrow> ('r, 's) world) \<Rightarrow> int \<Rightarrow> int \<Rightarrow> ('r, 's) stmt" where
  "timeLoop X macro assembly Nt timeStep w =
     (if timeStep < Nt - 1
      then (case solveTimeStep X macro assembly timeStep w of
              (ierr, w') \<Rightarrow> if ierr \<noteq> 0 then (ierr, w')
                            else timeLoop X macro assembly Nt (timeStep + 1) w')
      else (0, w))"
  by pat_completeness auto
termination
  by (relation "measure (\<lambda>(X, macro, assembly, Nt, timeStep, w). nat (Nt - 1 - timeStep))") auto

declare timeLoop.simps [simp del]

text \<open>
  The solver section of a driver from the factorization on: the three checked calls
  before the loop, the loop, and the data processing \<open>post\<close> that follows it.
  \<^verbatim>\<open>return ierr\<close> returns the code of the last checked call, which is zero there.
\<close>

definition linearSystemSolution :: "('c, 'r, 's) collaborators \<Rightarrow> bool
    \<Rightarrow> (int \<Rightarrow> ('r, 's) world \<Rightarrow> ('r, 's) world) \<Rightarrow> int \<Rightarrow> call list \<Rightarrow> ('r, 's) stmt" where
  "linearSystemSolution X macro assembly Nt post =
     CHKERRQ (petsc CoefficientsMatrixLUFactorization (coefficientsMatrixLUFactorization (LS X)))
    (CHKERRQ (petsc CreatePETScArrays (createPETScArrays (LS X)))
    (CHKERRQ (petsc ZeroPETScArrays (zeroPETScArrays (LS X)))
    (CHKERRQ (timeLoop X macro assembly Nt 0)
    (\<lambda>w. (0, w\<lparr>calls := calls w @ post\<rparr>)))))"


section \<open>Assembly of the independent terms in the loop body\<close>

text \<open>
  The calls under \<^verbatim>\<open>// Assembly of the independent terms array\<close> at the head of the
  loop body. The drivers have them in five forms: the base assembly alone
  (\<^verbatim>\<open>sealedColumn\<close>, \<^verbatim>\<open>terzaghi\<close>, \<^verbatim>\<open>convergence\<close>), followed by
  \<^verbatim>\<open>assemblyMandelIndependentTermsArray\<close> (\<^verbatim>\<open>mandel\<close>) or by
  \<^verbatim>\<open>addStripfootBC\<close> (\<^verbatim>\<open>stripfoot\<close>), the double-porosity assembly alone
  (\<^verbatim>\<open>terzaghiDouble\<close>, \<^verbatim>\<open>sealedDouble\<close>, \<^verbatim>\<open>storageDouble\<close>,
  \<^verbatim>\<open>leakingDouble\<close>), or followed by \<^verbatim>\<open>addStripfootBC\<close> and
  \<^verbatim>\<open>addMacroStripfootBC\<close> (\<^verbatim>\<open>stripfootDouble\<close>). The field arrays passed are
  those the driver holds when the body starts.
\<close>

definition baseTerms :: "('c, 'r, 's) collaborators \<Rightarrow> real list \<Rightarrow> int
    \<Rightarrow> ('r, 's) world \<Rightarrow> ('r, 's) world" where
  "baseTerms X scalars timeStep w =
     assemble (AssemblyIndependentTermsArray scalars timeStep)
       (assemblyIndependentTermsArray (IT X) scalars (uField w) (vField w) (pField w) timeStep) w"

definition mandelTerms :: "('c, 'r, 's) collaborators \<Rightarrow> real list \<Rightarrow> real \<Rightarrow> real \<Rightarrow> int
    \<Rightarrow> ('r, 's) world \<Rightarrow> ('r, 's) world" where
  "mandelTerms X scalars forceb Lx timeStep w =
     assemble (AssemblyMandelIndependentTermsArray forceb Lx)
       (assemblyMandelIndependentTermsArray (IT X) forceb Lx)
       (baseTerms X scalars timeStep w)"

definition stripfootTerms :: "('c, 'r, 's) collaborators \<Rightarrow> real list \<Rightarrow> int \<Rightarrow> real \<Rightarrow> real
    \<Rightarrow> int \<Rightarrow> ('r, 's) world \<Rightarrow> ('r, 's) world" where
  "stripfootTerms X scalars stripSize dx sigmab timeStep w =
     assemble (IndependentTermsAddStripfootBC stripSize dx sigmab)
       (it_addStripfootBC (IT X) stripSize dx sigmab)
       (baseTerms X scalars timeStep w)"

definition macroTerms :: "('c, 'r, 's) collaborators \<Rightarrow> real list \<Rightarrow> real list \<Rightarrow> int
    \<Rightarrow> ('r, 's) world \<Rightarrow> ('r, 's) world" where
  "macroTerms X scalars macroScalars timeStep w =
     assemble (AssemblyMacroIndependentTermsArray scalars timeStep macroScalars)
       (assemblyMacroIndependentTermsArray (IT X) scalars (uField w) (vField w) (pField w)
          (pFracField w) timeStep macroScalars) w"

definition macroStripfootTerms :: "('c, 'r, 's) collaborators \<Rightarrow> real list \<Rightarrow> real list \<Rightarrow> int
    \<Rightarrow> real \<Rightarrow> real \<Rightarrow> int \<Rightarrow> ('r, 's) world \<Rightarrow> ('r, 's) world" where
  "macroStripfootTerms X scalars macroScalars stripSize dx sigmab timeStep w =
     assemble (IndependentTermsAddMacroStripfootBC stripSize dx sigmab)
       (it_addMacroStripfootBC (IT X) stripSize dx sigmab)
       (assemble (IndependentTermsAddStripfootBC stripSize dx sigmab)
          (it_addStripfootBC (IT X) stripSize dx sigmab)
          (macroTerms X scalars macroScalars timeStep w))"

section \<open>The single-porosity drivers\<close>

text \<open>
  Each driver is one definition, in the order of its sections in the source: entry
  parameters, grid creation, problem parameters, assembly of the coefficients matrix, the
  linear system solver with its time loop, data processing. The boundary tables and the
  list \<^verbatim>\<open>exportedTimeSteps\<close> are local variables in the source and named
  definitions here. \<^verbatim>\<open>(Nt-1)/8\<close> is the truncating division of C++, \<open>sdiv\<close>.
  \<^verbatim>\<open>swap(x,myGrid.m)\<close> on a fresh local \<open>x\<close> is the read of \<open>m\<close>.
\<close>

definition sealedColumn_bcType :: "int list list" where
  "sealedColumn_bcType = [[-1, -1, 0], [1, -1, -1], [-1, 1, 0], [1, -1, -1]]"

definition sealedColumn_bcValue :: "real \<Rightarrow> real \<Rightarrow> real \<Rightarrow> real list list" where
  "sealedColumn_bcValue sigmab rho_f g = [[0, sigmab, rho_f * g], [0, 0, 0], [0, 0, rho_f * g], [0, 0, 0]]"

definition sealedColumn_exportedTimeSteps :: "int \<Rightarrow> int list" where
  "sealedColumn_exportedTimeSteps Nt = [1, (Nt - 1) sdiv 8, (Nt - 1) sdiv 2, Nt - 1]"

definition sealedColumn :: "('c, 'r, 's) collaborators \<Rightarrow> string \<Rightarrow> string \<Rightarrow> int \<Rightarrow> int \<Rightarrow> real \<Rightarrow> real
    \<Rightarrow> real \<Rightarrow> poroelasticProperties \<Rightarrow> int \<times> ('r, 's) world" where
  "sealedColumn X gridType interpScheme Nt meshSize Lt g sigmab myProperties =
    (let Nx = meshSize;
         Ny = 6 * meshSize;
         Lx = 1;
         Ly = 6;
         sCoordinates = [[Lx, Ly], [0, Ly], [0, 0], [Lx, 0]];
         G = shearModulus myProperties;
         lambda = bulkModulus myProperties - 2 * G / 3;
         phi = porosity myProperties;
         K = permeability myProperties;
         c_s = 1 / solidBulkModulus myProperties;
         rho_s = solidDensity myProperties;
         c_f = 1 / fluidBulkModulus myProperties;
         rho_f = fluidDensity myProperties;
         mu_f = fluidViscosity myProperties;
         bcType = sealedColumn_bcType;
         bcValue = sealedColumn_bcValue sigmab rho_f g;
         myGrid = new_gridDesign (GP X) Nx Ny Nt Lx Ly Lt gridType sCoordinates;
         dx = grid_dx myGrid;
         dy = grid_dy myGrid;
         dt = grid_dt myGrid;
         problemArgs = [dx, dy, K, phi, rho_s, c_s, mu_f, rho_f, c_f, G, lambda, sigmab, Lx, Ly];
         myProblem = applySealedColumnInitialConditions (GP X)
           (new_problemParameters (GP X) problemArgs (grid_uDisplacementField myGrid)
              (grid_vDisplacementField myGrid) (grid_pressureField myGrid) myGrid g);
         Q = pp_Q myProblem;
         alpha = pp_alpha myProblem;
         rho = phi * rho_f + (1 - phi) * rho_s;
         scalars = [dx, dy, dt, G, lambda, alpha, K, mu_f, Q, rho, g];
         myCoefficients = assemblyCoefficientsMatrix (CA X) scalars
           (new_coefficientsAssembly (CA X) bcType myGrid gridType interpScheme);
         w = \<lparr>myLinearSystemSolver = new_linearSystemSolver (LS X) myCoefficients
                (pp_uDisplacementField myProblem) (pp_vDisplacementField myProblem)
                (pp_pressureField myProblem) myGrid Nt,
              myIndependentTerms = new_independentTermsAssembly (IT X) bcType bcValue myGrid
                gridType interpScheme,
              uField = pp_uDisplacementField myProblem,
              vField = pp_vDisplacementField myProblem,
              pField = pp_pressureField myProblem,
              pFracField = [],
              independentTermsArray = [],
              calls = [GridDesign Nx Ny Nt Lx Ly Lt gridType sCoordinates,
                ProblemParameters problemArgs g, ApplySealedColumnInitialConditions,
                CoefficientsAssembly bcType gridType interpScheme,
                AssemblyCoefficientsMatrix scalars,
                IndependentTermsAssembly bcType bcValue gridType interpScheme,
                LinearSystemSolver Nt]\<rparr>
     in linearSystemSolution X False
          (baseTerms X scalars)
          Nt
          (DataProcessing ''dataProcessing'' #
           concat (map (\<lambda>t. [Export ''exportSealedColumnAnalyticalSolution'' t, Export ''exportSealedColumnNumericalSolution'' t])
             (sealedColumn_exportedTimeSteps Nt)))
          w)"

definition terzaghi_bcType :: "int list list" where
  "terzaghi_bcType = [[-1, -1, 1], [1, -1, -1], [-1, 1, 0], [1, -1, -1]]"

definition terzaghi_bcValue :: "real \<Rightarrow> real \<Rightarrow> real \<Rightarrow> real list list" where
  "terzaghi_bcValue sigmab rho_f g = [[0, sigmab, 0], [0, 0, 0], [0, 0, rho_f * g], [0, 0, 0]]"

definition terzaghi_exportedTimeSteps :: "int \<Rightarrow> int list" where
  "terzaghi_exportedTimeSteps Nt = (if Nt = 2 then [1] else [1, (Nt - 1) sdiv 8, (Nt - 1) sdiv 2, Nt - 1])"

definition terzaghi :: "('c, 'r, 's) collaborators \<Rightarrow> string \<Rightarrow> string \<Rightarrow> int \<Rightarrow> int \<Rightarrow> real \<Rightarrow> real
    \<Rightarrow> real \<Rightarrow> poroelasticProperties \<Rightarrow> int \<times> ('r, 's) world" where
  "terzaghi X gridType interpScheme Nt meshSize Lt g sigmab myProperties =
    (let Nx = meshSize;
         Ny = 6 * meshSize;
         Lx = 1;
         Ly = 6;
         sCoordinates = [[Lx, Ly], [0, Ly], [0, 0], [Lx, 0]];
         G = shearModulus myProperties;
         lambda = bulkModulus myProperties - 2 * G / 3;
         phi = porosity myProperties;
         K = permeability myProperties;
         c_s = 1 / solidBulkModulus myProperties;
         rho_s = solidDensity myProperties;
         c_f = 1 / fluidBulkModulus myProperties;
         rho_f = fluidDensity myProperties;
         mu_f = fluidViscosity myProperties;
         bcType = terzaghi_bcType;
         bcValue = terzaghi_bcValue sigmab rho_f g;
         myGrid = new_gridDesign (GP X) Nx Ny Nt Lx Ly Lt gridType sCoordinates;
         dx = grid_dx myGrid;
         dy = grid_dy myGrid;
         dt = grid_dt myGrid;
         problemArgs = [dx, dy, K, phi, rho_s, c_s, mu_f, rho_f, c_f, G, lambda, sigmab, Lx, Ly];
         myProblem = applyTerzaghiInitialConditions (GP X)
           (new_problemParameters (GP X) problemArgs (grid_uDisplacementField myGrid)
              (grid_vDisplacementField myGrid) (grid_pressureField myGrid) myGrid g);
         Q = pp_Q myProblem;
         alpha = pp_alpha myProblem;
         rho = phi * rho_f + (1 - phi) * rho_s;
         scalars = [dx, dy, dt, G, lambda, alpha, K, mu_f, Q, rho, g];
         myCoefficients = assemblyCoefficientsMatrix (CA X) scalars
           (new_coefficientsAssembly (CA X) bcType myGrid gridType interpScheme);
         w = \<lparr>myLinearSystemSolver = new_linearSystemSolver (LS X) myCoefficients
                (pp_uDisplacementField myProblem) (pp_vDisplacementField myProblem)
                (pp_pressureField myProblem) myGrid Nt,
              myIndependentTerms = new_independentTermsAssembly (IT X) bcType bcValue myGrid
                gridType interpScheme,
              uField = pp_uDisplacementField myProblem,
              vField = pp_vDisplacementField myProblem,
              pField = pp_pressureField myProblem,
              pFracField = [],
              independentTermsArray = [],
              calls = [GridDesign Nx Ny Nt Lx Ly Lt gridType sCoordinates,
                ProblemParameters problemArgs g, ApplyTerzaghiInitialConditions,
                CoefficientsAssembly bcType gridType interpScheme,
                AssemblyCoefficientsMatrix scalars,
                IndependentTermsAssembly bcType bcValue gridType interpScheme,
                LinearSystemSolver Nt]\<rparr>
     in linearSystemSolution X False
          (baseTerms X scalars)
          Nt
          (DataProcessing ''dataProcessing'' #
           concat (map (\<lambda>t. [Export ''exportTerzaghiAnalyticalSolution'' t, Export ''exportTerzaghiNumericalSolution'' t])
             (terzaghi_exportedTimeSteps Nt)))
          w)"

definition mandel_bcType :: "int list list" where
  "mandel_bcType = [[-1, -1, 0], [1, -1, -1], [-1, 1, 0], [-1, -1, 1]]"

definition mandel_bcValue :: "real \<Rightarrow> real \<Rightarrow> real \<Rightarrow> real list list" where
  "mandel_bcValue forceb rho_f g = [[0, 0, rho_f * g], [0, 0, 0], [0, 0, rho_f * g], [0, 0, 0]]"

definition mandel_exportedTimeSteps :: "int \<Rightarrow> int list" where
  "mandel_exportedTimeSteps Nt = (if Nt = 2 then [1] else [1, (Nt - 1) sdiv 16, (Nt - 1) sdiv 4, Nt - 1])"

definition mandel :: "('c, 'r, 's) collaborators \<Rightarrow> string \<Rightarrow> string \<Rightarrow> int \<Rightarrow> int \<Rightarrow> real \<Rightarrow> real
    \<Rightarrow> real \<Rightarrow> poroelasticProperties \<Rightarrow> int \<times> ('r, 's) world" where
  "mandel X gridType interpScheme Nt meshSize Lt g forceb myProperties =
    (let Nx = 5 * meshSize;
         Ny = 5 * meshSize;
         Lx = 5;
         Ly = 5;
         sCoordinates = [[Lx, Ly], [0, Ly], [0, 0], [Lx, 0]];
         G = shearModulus myProperties;
         lambda = bulkModulus myProperties - 2 * G / 3;
         phi = porosity myProperties;
         K = permeability myProperties;
         c_s = 1 / solidBulkModulus myProperties;
         rho_s = solidDensity myProperties;
         c_f = 1 / fluidBulkModulus myProperties;
         rho_f = fluidDensity myProperties;
         mu_f = fluidViscosity myProperties;
         bcType = mandel_bcType;
         bcValue = mandel_bcValue forceb rho_f g;
         myGrid = new_gridDesign (GP X) Nx Ny Nt Lx Ly Lt gridType sCoordinates;
         dx = grid_dx myGrid;
         dy = grid_dy myGrid;
         dt = grid_dt myGrid;
         problemArgs = [dx, dy, K, phi, rho_s, c_s, mu_f, rho_f, c_f, G, lambda, forceb, Lx, Ly];
         myProblem = applyMandelInitialConditions (GP X)
           (new_problemParameters (GP X) problemArgs (grid_uDisplacementField myGrid)
              (grid_vDisplacementField myGrid) (grid_pressureField myGrid) myGrid g);
         Q = pp_Q myProblem;
         alpha = pp_alpha myProblem;
         rho = phi * rho_f + (1 - phi) * rho_s;
         scalars = [dx, dy, dt, G, lambda, alpha, K, mu_f, Q, rho, g];
         myCoefficients = assemblySparseMatrix (CA X)
           (assemblyMandelCoefficientsMatrix (CA X) [dx, dy, G, lambda, alpha]
           (assemblyCoefficientsMatrix (CA X) scalars
           (new_coefficientsAssembly (CA X) bcType myGrid gridType interpScheme)));
         w = \<lparr>myLinearSystemSolver = new_linearSystemSolver (LS X) myCoefficients
                (pp_uDisplacementField myProblem) (pp_vDisplacementField myProblem)
                (pp_pressureField myProblem) myGrid Nt,
              myIndependentTerms = increaseMandelIndependentTermsArray (IT X)
                (new_independentTermsAssembly (IT X) bcType bcValue myGrid
                gridType interpScheme),
              uField = pp_uDisplacementField myProblem,
              vField = pp_vDisplacementField myProblem,
              pField = pp_pressureField myProblem,
              pFracField = [],
              independentTermsArray = [],
              calls = [GridDesign Nx Ny Nt Lx Ly Lt gridType sCoordinates,
                ProblemParameters problemArgs g, ApplyMandelInitialConditions,
                CoefficientsAssembly bcType gridType interpScheme,
                AssemblyCoefficientsMatrix scalars,
                AssemblyMandelCoefficientsMatrix [dx, dy, G, lambda, alpha], AssemblySparseMatrix,
                IndependentTermsAssembly bcType bcValue gridType interpScheme,
                LinearSystemSolver Nt,
                IncreaseMandelIndependentTermsArray]\<rparr>
     in linearSystemSolution X False
          (mandelTerms X scalars forceb Lx)
          Nt
          (DataProcessing ''dataProcessing'' # DataProcessing ''findMandelRoots'' #
           concat (map (\<lambda>t. [Export ''exportMandelAnalyticalSolution'' t, Export ''exportMandelNumericalSolution'' t])
             (mandel_exportedTimeSteps Nt)))
          w)"

definition convergence_bcType :: "int list list" where
  "convergence_bcType = [[-1, -1, 1], [1, -1, -1], [-1, 1, 0], [1, -1, -1]]"

definition convergence_bcValue :: "real \<Rightarrow> real \<Rightarrow> real \<Rightarrow> real list list" where
  "convergence_bcValue sigmab rho_f g = [[0, sigmab, 0], [0, 0, 0], [0, 0, rho_f * g], [0, 0, 0]]"

definition convergence :: "('c, 'r, 's) collaborators \<Rightarrow> string \<Rightarrow> string \<Rightarrow> int \<Rightarrow> int \<Rightarrow> real \<Rightarrow> real
    \<Rightarrow> real \<Rightarrow> poroelasticProperties \<Rightarrow> int \<times> ('r, 's) world" where
  "convergence X gridType interpScheme Nt meshSize Lt g sigmab myProperties =
    (let Nx = meshSize;
         Ny = 6 * meshSize;
         Lx = 1;
         Ly = 6;
         sCoordinates = [[Lx, Ly], [0, Ly], [0, 0], [Lx, 0]];
         G = shearModulus myProperties;
         lambda = bulkModulus myProperties - 2 * G / 3;
         phi = porosity myProperties;
         K = permeability myProperties;
         c_s = 1 / solidBulkModulus myProperties;
         rho_s = solidDensity myProperties;
         c_f = 1 / fluidBulkModulus myProperties;
         rho_f = fluidDensity myProperties;
         mu_f = fluidViscosity myProperties;
         bcType = convergence_bcType;
         bcValue = convergence_bcValue sigmab rho_f g;
         myGrid = new_gridDesign (GP X) Nx Ny Nt Lx Ly Lt gridType sCoordinates;
         dx = grid_dx myGrid;
         dy = grid_dy myGrid;
         dt = grid_dt myGrid;
         problemArgs = [dx, dy, K, phi, rho_s, c_s, mu_f, rho_f, c_f, G, lambda, sigmab, Lx, Ly];
         myProblem = applyTerzaghiInitialConditions (GP X)
           (new_problemParameters (GP X) problemArgs (grid_uDisplacementField myGrid)
              (grid_vDisplacementField myGrid) (grid_pressureField myGrid) myGrid g);
         Q = pp_Q myProblem;
         alpha = pp_alpha myProblem;
         rho = phi * rho_f + (1 - phi) * rho_s;
         scalars = [dx, dy, dt, G, lambda, alpha, K, mu_f, Q, rho, g];
         myCoefficients = assemblyCoefficientsMatrix (CA X) scalars
           (new_coefficientsAssembly (CA X) bcType myGrid gridType interpScheme);
         w = \<lparr>myLinearSystemSolver = new_linearSystemSolver (LS X) myCoefficients
                (pp_uDisplacementField myProblem) (pp_vDisplacementField myProblem)
                (pp_pressureField myProblem) myGrid Nt,
              myIndependentTerms = new_independentTermsAssembly (IT X) bcType bcValue myGrid
                gridType interpScheme,
              uField = pp_uDisplacementField myProblem,
              vField = pp_vDisplacementField myProblem,
              pField = pp_pressureField myProblem,
              pFracField = [],
              independentTermsArray = [],
              calls = [GridDesign Nx Ny Nt Lx Ly Lt gridType sCoordinates,
                ProblemParameters problemArgs g, ApplyTerzaghiInitialConditions,
                CoefficientsAssembly bcType gridType interpScheme,
                AssemblyCoefficientsMatrix scalars,
                IndependentTermsAssembly bcType bcValue gridType interpScheme,
                LinearSystemSolver Nt]\<rparr>
     in linearSystemSolution X False
          (baseTerms X scalars)
          Nt
          ([DataProcessing ''dataProcessing'', DataProcessing ''getTerzaghiErrorNorm''])
          w)"

definition stripfoot_bcType :: "int list list" where
  "stripfoot_bcType = [[-1, -1, -1], [1, -1, -1], [-1, 1, -1], [1, -1, -1]]"

definition stripfoot_bcValue :: "real \<Rightarrow> real \<Rightarrow> real \<Rightarrow> real list list" where
  "stripfoot_bcValue sigmab rho_f g = [[0, 0, 0], [0, 0, 0], [0, 0, 0], [0, 0, 0]]"

definition stripfoot_exportedTimeSteps :: "int \<Rightarrow> int list" where
  "stripfoot_exportedTimeSteps Nt = (if Nt = 2 then [1] else [1, (Nt - 1) sdiv 8, (Nt - 1) sdiv 2, Nt - 1])"

definition stripfoot :: "('c, 'r, 's) collaborators \<Rightarrow> string \<Rightarrow> string \<Rightarrow> int \<Rightarrow> int \<Rightarrow> real \<Rightarrow> real
    \<Rightarrow> real \<Rightarrow> poroelasticProperties \<Rightarrow> int \<times> ('r, 's) world" where
  "stripfoot X gridType interpScheme Nt meshSize Lt g sigmab myProperties =
    (let Nx = 5 * meshSize;
         Ny = 5 * meshSize;
         stripSize = meshSize;
         Lx = 5;
         Ly = 5;
         sCoordinates = [[Lx, Ly], [0, Ly], [0, 0], [Lx, 0]];
         G = shearModulus myProperties;
         lambda = bulkModulus myProperties - 2 * G / 3;
         phi = porosity myProperties;
         K = permeability myProperties;
         c_s = 1 / solidBulkModulus myProperties;
         rho_s = solidDensity myProperties;
         c_f = 1 / fluidBulkModulus myProperties;
         rho_f = fluidDensity myProperties;
         mu_f = fluidViscosity myProperties;
         bcType = stripfoot_bcType;
         bcValue = stripfoot_bcValue sigmab rho_f g;
         myGrid = new_gridDesign (GP X) Nx Ny Nt Lx Ly Lt gridType sCoordinates;
         dx = grid_dx myGrid;
         dy = grid_dy myGrid;
         dt = grid_dt myGrid;
         problemArgs = [dx, dy, K, phi, rho_s, c_s, mu_f, rho_f, c_f, G, lambda, sigmab, Lx, Ly];
         myProblem = applyTerzaghiInitialConditions (GP X)
           (new_problemParameters (GP X) problemArgs (grid_uDisplacementField myGrid)
              (grid_vDisplacementField myGrid) (grid_pressureField myGrid) myGrid g);
         Q = pp_Q myProblem;
         alpha = pp_alpha myProblem;
         rho = phi * rho_f + (1 - phi) * rho_s;
         scalars = [dx, dy, dt, G, lambda, alpha, K, mu_f, Q, rho, g];
         myCoefficients = cm_addStripfootBC (CA X) stripSize K mu_f
           (assemblyCoefficientsMatrix (CA X) scalars
           (new_coefficientsAssembly (CA X) bcType myGrid gridType interpScheme));
         w = \<lparr>myLinearSystemSolver = new_linearSystemSolver (LS X) myCoefficients
                (pp_uDisplacementField myProblem) (pp_vDisplacementField myProblem)
                (pp_pressureField myProblem) myGrid Nt,
              myIndependentTerms = new_independentTermsAssembly (IT X) bcType bcValue myGrid
                gridType interpScheme,
              uField = pp_uDisplacementField myProblem,
              vField = pp_vDisplacementField myProblem,
              pField = pp_pressureField myProblem,
              pFracField = [],
              independentTermsArray = [],
              calls = [GridDesign Nx Ny Nt Lx Ly Lt gridType sCoordinates,
                ProblemParameters problemArgs g, ApplyTerzaghiInitialConditions,
                CoefficientsAssembly bcType gridType interpScheme,
                AssemblyCoefficientsMatrix scalars,
                CoefficientsAddStripfootBC stripSize K mu_f,
                IndependentTermsAssembly bcType bcValue gridType interpScheme,
                LinearSystemSolver Nt]\<rparr>
     in linearSystemSolution X False
          (stripfootTerms X scalars stripSize dx sigmab)
          Nt
          (DataProcessing ''dataProcessing'' #
           concat (map (\<lambda>t. [Export ''exportStripfootTSolution'' t, Export ''exportStripfootHSolution'' t])
             (stripfoot_exportedTimeSteps Nt)))
          w)"


section \<open>The double-porosity drivers\<close>

text \<open>
  \<open>uField0\<close>, \<open>vField0\<close>, \<open>pPoreField0\<close>, \<open>pFracField0\<close> are the values of
  \<^verbatim>\<open>uField\<close>, \<^verbatim>\<open>vField\<close>, \<^verbatim>\<open>pPoreField\<close>, \<^verbatim>\<open>pFracField\<close> when the
  solver is constructed.
\<close>

definition terzaghiDouble_bcType :: "int list list" where
  "terzaghiDouble_bcType = [[-1, -1, 1, 1], [1, -1, -1, -1], [-1, 1, -1, -1], [1, -1, -1, -1]]"

definition terzaghiDouble_bcValue :: "real \<Rightarrow> real list list" where
  "terzaghiDouble_bcValue sigmab = [[0, sigmab, 0, 0], [0, 0, 0, 0], [0, 0, 0, 0], [0, 0, 0, 0]]"

definition terzaghiDouble_exportedTimeSteps :: "int \<Rightarrow> int list" where
  "terzaghiDouble_exportedTimeSteps Nt = (if Nt = 2 then [1] else [1, (Nt - 1) sdiv 8, (Nt - 1) sdiv 2, Nt - 1])"

definition terzaghiDouble :: "('c, 'r, 's) collaborators \<Rightarrow> string \<Rightarrow> string \<Rightarrow> int \<Rightarrow> int \<Rightarrow> real \<Rightarrow> real
    \<Rightarrow> real \<Rightarrow> poroelasticProperties \<Rightarrow> int \<times> ('r, 's) world" where
  "terzaghiDouble X gridType interpScheme Nt meshSize Lt g sigmab myProperties =
    (let Nx = meshSize;
         Ny = 6 * meshSize;
         Lx = 1;
         Ly = 6;
         sCoordinates = [[Lx, Ly], [0, Ly], [0, 0], [Lx, 0]];
         G = shearModulus myProperties;
         lambda = bulkModulus myProperties - 2 * G / 3;
         phiPore = porosity myProperties;
         phiFrac = macroPorosity myProperties;
         KPore = permeability myProperties;
         KFrac = macroPermeability myProperties;
         c_s = 1 / solidBulkModulus myProperties;
         c_f = 1 / fluidBulkModulus myProperties;
         mu_f = fluidViscosity myProperties;
         bcType = terzaghiDouble_bcType;
         bcValue = terzaghiDouble_bcValue sigmab;
         myGrid = new_gridDesign (GP X) Nx Ny Nt Lx Ly Lt gridType sCoordinates;
         dx = grid_dx myGrid;
         dy = grid_dy myGrid;
         dt = grid_dt myGrid;
         problemArgs = [phiPore, phiFrac, c_f, c_s, G, lambda, mu_f, KPore, KFrac, sigmab];
         myProblem = new_problemDoubleParameters (GP X) problemArgs myGrid;
         psiPore = pd_psiPore myProblem;
         psiFrac = pd_psiFrac myProblem;
         alpha = pd_alpha myProblem;
         S11 = pd_S11 myProblem;
         S12 = pd_S12 myProblem;
         S22 = pd_S22 myProblem;
         leak = computeLeakTerm (GP X) myProblem 11;
         uField0 = grid_uDisplacementField myGrid;
         vField0 = grid_vDisplacementField myGrid;
         pPoreField0 = grid_pressureField myGrid;
         pFracField0 = pPoreField0;
         operator = [dx, dy, dt, G, lambda, alpha, KPore, KFrac, mu_f, S11, S12, S22, psiPore,
           psiFrac, leak];
         myCoefficients = assemblyDoublePorosityMatrix (CA X) operator
           (new_coefficientsAssembly (CA X) bcType myGrid gridType interpScheme);
         scalars = [dx, dy, dt, G, lambda, alpha, KPore, mu_f, S11, 0, 0];
         macroScalars = [phiPore, phiFrac, KFrac, S12, S22];
         w = \<lparr>myLinearSystemSolver = createMacroPressureField (LS X) pFracField0
                (new_linearSystemSolver (LS X) myCoefficients uField0 vField0 pPoreField0
                   myGrid Nt),
              myIndependentTerms = increaseMacroIndependentTermsArray (IT X)
                (new_independentTermsAssembly (IT X) bcType bcValue myGrid gridType
                   interpScheme),
              uField = uField0,
              vField = vField0,
              pField = pPoreField0,
              pFracField = pFracField0,
              independentTermsArray = [],
              calls = [GridDesign Nx Ny Nt Lx Ly Lt gridType sCoordinates,
                ProblemDoubleParameters problemArgs, ComputeLeakTerm 11,
                CoefficientsAssembly bcType gridType interpScheme,
                AssemblyDoublePorosityMatrix operator,
                IndependentTermsAssembly bcType bcValue gridType interpScheme,
                LinearSystemSolver Nt,
                IncreaseMacroIndependentTermsArray,
                CreateMacroPressureField]\<rparr>
     in linearSystemSolution X True
          (macroTerms X scalars macroScalars)
          Nt
          (DataProcessing ''dataProcessing'' #
           DataProcessing ''storeMacroPressure3DField'' #
           concat (map (\<lambda>t. [Export ''exportTerzaghiAnalyticalSolution'' t,
             Export ''exportMacroPressureHSolution'' t,
             Export ''exportMacroPressureTSolution'' t])
             (terzaghiDouble_exportedTimeSteps Nt)))
          w)"

definition stripfootDouble_bcType :: "int list list" where
  "stripfootDouble_bcType = [[-1, -1, -1, -1], [1, -1, -1, -1], [-1, 1, -1, -1], [1, -1, -1, -1]]"

definition stripfootDouble_bcValue :: "real \<Rightarrow> real list list" where
  "stripfootDouble_bcValue sigmab = [[0, 0, 0, 0], [0, 0, 0, 0], [0, 0, 0, 0], [0, 0, 0, 0]]"

definition stripfootDouble_exportedTimeSteps :: "int \<Rightarrow> int list" where
  "stripfootDouble_exportedTimeSteps Nt = (if Nt = 2 then [1] else [1, (Nt - 1) sdiv 8, (Nt - 1) sdiv 2, Nt - 1])"

definition stripfootDouble :: "('c, 'r, 's) collaborators \<Rightarrow> string \<Rightarrow> string \<Rightarrow> int \<Rightarrow> int \<Rightarrow> real \<Rightarrow> real
    \<Rightarrow> real \<Rightarrow> poroelasticProperties \<Rightarrow> int \<times> ('r, 's) world" where
  "stripfootDouble X gridType interpScheme Nt meshSize Lt g sigmab myProperties =
    (let Nx = 5 * meshSize;
         Ny = 5 * meshSize;
         stripSize = meshSize;
         Lx = 5;
         Ly = 5;
         sCoordinates = [[Lx, Ly], [0, Ly], [0, 0], [Lx, 0]];
         G = shearModulus myProperties;
         lambda = bulkModulus myProperties - 2 * G / 3;
         phiPore = porosity myProperties;
         phiFrac = macroPorosity myProperties;
         KPore = permeability myProperties;
         KFrac = macroPermeability myProperties;
         c_s = 1 / solidBulkModulus myProperties;
         c_f = 1 / fluidBulkModulus myProperties;
         mu_f = fluidViscosity myProperties;
         bcType = stripfootDouble_bcType;
         bcValue = stripfootDouble_bcValue sigmab;
         myGrid = new_gridDesign (GP X) Nx Ny Nt Lx Ly Lt gridType sCoordinates;
         dx = grid_dx myGrid;
         dy = grid_dy myGrid;
         dt = grid_dt myGrid;
         problemArgs = [phiPore, phiFrac, c_f, c_s, G, lambda, mu_f, KPore, KFrac, sigmab];
         myProblem = new_problemDoubleParameters (GP X) problemArgs myGrid;
         psiPore = pd_psiPore myProblem;
         psiFrac = pd_psiFrac myProblem;
         alpha = pd_alpha myProblem;
         S11 = pd_S11 myProblem;
         S12 = pd_S12 myProblem;
         S22 = pd_S22 myProblem;
         leak = computeLeakTerm (GP X) myProblem 11;
         uField0 = grid_uDisplacementField myGrid;
         vField0 = grid_vDisplacementField myGrid;
         pPoreField0 = grid_pressureField myGrid;
         pFracField0 = pPoreField0;
         operator = [dx, dy, dt, G, lambda, alpha, KPore, KFrac, mu_f, S11, S12, S22, psiPore,
           psiFrac, leak];
         myCoefficients = cm_addMacroStripfootBC (CA X) stripSize KFrac mu_f
           (cm_addStripfootBC (CA X) stripSize KPore mu_f
           (assemblyDoublePorosityMatrix (CA X) operator
           (new_coefficientsAssembly (CA X) bcType myGrid gridType interpScheme)));
         scalars = [dx, dy, dt, G, lambda, alpha, KPore, mu_f, S11, 0, 0];
         macroScalars = [phiPore, phiFrac, KFrac, S12, S22];
         w = \<lparr>myLinearSystemSolver = createMacroPressureField (LS X) pFracField0
                (new_linearSystemSolver (LS X) myCoefficients uField0 vField0 pPoreField0
                   myGrid Nt),
              myIndependentTerms = increaseMacroIndependentTermsArray (IT X)
                (new_independentTermsAssembly (IT X) bcType bcValue myGrid gridType
                   interpScheme),
              uField = uField0,
              vField = vField0,
              pField = pPoreField0,
              pFracField = pFracField0,
              independentTermsArray = [],
              calls = [GridDesign Nx Ny Nt Lx Ly Lt gridType sCoordinates,
                ProblemDoubleParameters problemArgs, ComputeLeakTerm 11,
                CoefficientsAssembly bcType gridType interpScheme,
                AssemblyDoublePorosityMatrix operator,
                CoefficientsAddStripfootBC stripSize KPore mu_f,
                CoefficientsAddMacroStripfootBC stripSize KFrac mu_f,
                IndependentTermsAssembly bcType bcValue gridType interpScheme,
                LinearSystemSolver Nt,
                IncreaseMacroIndependentTermsArray,
                CreateMacroPressureField]\<rparr>
     in linearSystemSolution X True
          (macroStripfootTerms X scalars macroScalars stripSize dx sigmab)
          Nt
          (DataProcessing ''dataProcessing'' #
           DataProcessing ''storeMacroPressure3DField'' #
           concat (map (\<lambda>t. [Export ''exportStripfootTSolution'' t,
             Export ''exportStripfootHSolution'' t])
             (stripfootDouble_exportedTimeSteps Nt)))
          w)"

definition sealedDouble_bcType :: "int list list" where
  "sealedDouble_bcType = [[-1, -1, -1, -1], [1, -1, -1, -1], [-1, 1, -1, -1], [1, -1, -1, -1]]"

definition sealedDouble_bcValue :: "real \<Rightarrow> real list list" where
  "sealedDouble_bcValue sigmab = [[0, sigmab, 0, 0], [0, 0, 0, 0], [0, 0, 0, 0], [0, 0, 0, 0]]"

definition sealedDouble_exportedTimeSteps :: "int \<Rightarrow> int list" where
  "sealedDouble_exportedTimeSteps Nt = (if Nt = 2 then [1] else [Nt - 1])"

definition sealedDouble :: "('c, 'r, 's) collaborators \<Rightarrow> string \<Rightarrow> string \<Rightarrow> int \<Rightarrow> int \<Rightarrow> real \<Rightarrow> real
    \<Rightarrow> real \<Rightarrow> poroelasticProperties \<Rightarrow> int \<times> ('r, 's) world" where
  "sealedDouble X gridType interpScheme Nt meshSize Lt g sigmab myProperties =
    (let Nx = meshSize;
         Ny = 6 * meshSize;
         Lx = 1;
         Ly = 6;
         sCoordinates = [[Lx, Ly], [0, Ly], [0, 0], [Lx, 0]];
         G = shearModulus myProperties;
         lambda = bulkModulus myProperties - 2 * G / 3;
         phiPore = porosity myProperties;
         phiFrac = macroPorosity myProperties;
         KPore = permeability myProperties;
         KFrac = macroPermeability myProperties;
         c_s = 1 / solidBulkModulus myProperties;
         c_f = 1 / fluidBulkModulus myProperties;
         mu_f = fluidViscosity myProperties;
         bcType = sealedDouble_bcType;
         bcValue = sealedDouble_bcValue sigmab;
         myGrid = new_gridDesign (GP X) Nx Ny Nt Lx Ly Lt gridType sCoordinates;
         dx = grid_dx myGrid;
         dy = grid_dy myGrid;
         dt = grid_dt myGrid;
         problemArgs = [phiPore, phiFrac, c_f, c_s, G, lambda, mu_f, KPore, KFrac, sigmab];
         myProblem = new_problemDoubleParameters (GP X) problemArgs myGrid;
         psiPore = pd_psiPore myProblem;
         psiFrac = pd_psiFrac myProblem;
         alpha = pd_alpha myProblem;
         S11 = pd_S11 myProblem;
         S12 = pd_S12 myProblem;
         S22 = pd_S22 myProblem;
         leak = computeLeakTerm (GP X) myProblem 11;
         uField0 = grid_uDisplacementField myGrid;
         vField0 = grid_vDisplacementField myGrid;
         pPoreField0 = grid_pressureField myGrid;
         pFracField0 = pPoreField0;
         operator = [dx, dy, dt, G, lambda, alpha, KPore, KFrac, mu_f, S11, S12, S22, psiPore,
           psiFrac, leak];
         myCoefficients = assemblyDoublePorosityMatrix (CA X) operator
           (new_coefficientsAssembly (CA X) bcType myGrid gridType interpScheme);
         scalars = [dx, dy, dt, G, lambda, alpha, KPore, mu_f, S11, 0, 0];
         macroScalars = [phiPore, phiFrac, KFrac, S12, S22];
         w = \<lparr>myLinearSystemSolver = createMacroPressureField (LS X) pFracField0
                (new_linearSystemSolver (LS X) myCoefficients uField0 vField0 pPoreField0
                   myGrid Nt),
              myIndependentTerms = increaseMacroIndependentTermsArray (IT X)
                (new_independentTermsAssembly (IT X) bcType bcValue myGrid gridType
                   interpScheme),
              uField = uField0,
              vField = vField0,
              pField = pPoreField0,
              pFracField = pFracField0,
              independentTermsArray = [],
              calls = [GridDesign Nx Ny Nt Lx Ly Lt gridType sCoordinates,
                ProblemDoubleParameters problemArgs, ComputeLeakTerm 11,
                CoefficientsAssembly bcType gridType interpScheme,
                AssemblyDoublePorosityMatrix operator,
                IndependentTermsAssembly bcType bcValue gridType interpScheme,
                LinearSystemSolver Nt,
                IncreaseMacroIndependentTermsArray,
                CreateMacroPressureField]\<rparr>
     in linearSystemSolution X True
          (macroTerms X scalars macroScalars)
          Nt
          (DataProcessing ''doubleDataProcessing'' #
           DataProcessing ''storeMacroPressure3DField'' #
           concat (map (\<lambda>t. [Export ''exportSealedDoubleAnalyticalSolution'' t,
             Export ''exportSealedDoubleNumericalSolution'' t])
             (sealedDouble_exportedTimeSteps Nt)))
          w)"

definition storageDouble_bcType :: "int list list" where
  "storageDouble_bcType = [[-1, -1, 1, 1], [1, -1, -1, -1], [-1, 1, -1, -1], [1, -1, -1, -1]]"

definition storageDouble_bcValue :: "real \<Rightarrow> real list list" where
  "storageDouble_bcValue sigmab = [[0, sigmab, 0, 0], [0, 0, 0, 0], [0, 0, 0, 0], [0, 0, 0, 0]]"

definition storageDouble_exportedTimeSteps :: "int \<Rightarrow> int list" where
  "storageDouble_exportedTimeSteps Nt = (if Nt = 2 then [1] else [1, 2, 3, 4, 125, 250, 500])"

definition storageDouble :: "('c, 'r, 's) collaborators \<Rightarrow> string \<Rightarrow> string \<Rightarrow> int \<Rightarrow> int \<Rightarrow> real \<Rightarrow> real
    \<Rightarrow> real \<Rightarrow> poroelasticProperties \<Rightarrow> int \<times> ('r, 's) world" where
  "storageDouble X gridType interpScheme Nt meshSize Lt g sigmab myProperties =
    (let Nx = meshSize;
         Ny = 6 * meshSize;
         Lx = 1;
         Ly = 6;
         sCoordinates = [[Lx, Ly], [0, Ly], [0, 0], [Lx, 0]];
         G = shearModulus myProperties;
         lambda = bulkModulus myProperties - 2 * G / 3;
         phiPore = porosity myProperties;
         phiFrac = macroPorosity myProperties;
         KPore = permeability myProperties;
         KFrac = macroPermeability myProperties;
         c_s = 1 / solidBulkModulus myProperties;
         c_f = 1 / fluidBulkModulus myProperties;
         mu_f = fluidViscosity myProperties;
         bcType = storageDouble_bcType;
         bcValue = storageDouble_bcValue sigmab;
         myGrid = new_gridDesign (GP X) Nx Ny Nt Lx Ly Lt gridType sCoordinates;
         dx = grid_dx myGrid;
         dy = grid_dy myGrid;
         dt = grid_dt myGrid;
         problemArgs = [phiPore, phiFrac, c_f, c_s, G, lambda, mu_f, KPore, KFrac, sigmab];
         myProblem = applyDoublePoreInitialConditions (GP X) dy Ly (grid_vDisplacementField myGrid)
           (grid_pressureField myGrid) (grid_pressureField myGrid)
           (new_problemDoubleParameters (GP X) problemArgs myGrid);
         psiPore = pd_psiPore myProblem;
         psiFrac = pd_psiFrac myProblem;
         alpha = pd_alpha myProblem;
         S11 = pd_S11 myProblem;
         S12 = pd_S12 myProblem;
         S22 = pd_S22 myProblem;
         leak = computeLeakTerm (GP X) myProblem 0;
         uField0 = grid_uDisplacementField myGrid;
         vField0 = pd_vDisplacementField myProblem;
         pPoreField0 = pd_pressurePoreField myProblem;
         pFracField0 = pd_pressureFracField myProblem;
         operator = [dx, dy, dt, G, lambda, alpha, KPore, KFrac, mu_f, S11, S12, S22, psiPore,
           psiFrac, leak];
         myCoefficients = assemblyDoublePorosityMatrix (CA X) operator
           (new_coefficientsAssembly (CA X) bcType myGrid gridType interpScheme);
         scalars = [dx, dy, dt, G, lambda, alpha, KPore, mu_f, S11, 0, 0];
         macroScalars = [phiPore, phiFrac, KFrac, S12, S22];
         w = \<lparr>myLinearSystemSolver = createMacroPressureField (LS X) pFracField0
                (new_linearSystemSolver (LS X) myCoefficients uField0 vField0 pPoreField0
                   myGrid Nt),
              myIndependentTerms = increaseMacroIndependentTermsArray (IT X)
                (new_independentTermsAssembly (IT X) bcType bcValue myGrid gridType
                   interpScheme),
              uField = uField0,
              vField = vField0,
              pField = pPoreField0,
              pFracField = pFracField0,
              independentTermsArray = [],
              calls = [GridDesign Nx Ny Nt Lx Ly Lt gridType sCoordinates,
                ProblemDoubleParameters problemArgs, ApplyDoublePoreInitialConditions dy Ly, ComputeLeakTerm 0,
                CoefficientsAssembly bcType gridType interpScheme,
                AssemblyDoublePorosityMatrix operator,
                IndependentTermsAssembly bcType bcValue gridType interpScheme,
                LinearSystemSolver Nt,
                IncreaseMacroIndependentTermsArray,
                CreateMacroPressureField]\<rparr>
     in linearSystemSolution X True
          (macroTerms X scalars macroScalars)
          Nt
          (DataProcessing ''doubleDataProcessing'' #
           DataProcessing ''storeMacroPressure3DField'' #
           concat (map (\<lambda>t. [Export ''exportDrainedDoubleNumericalSolution'' t,
             Export ''exportStorageAnalyticalSolution'' t])
             (storageDouble_exportedTimeSteps Nt)))
          w)"

definition leakingDouble_bcType :: "int list list" where
  "leakingDouble_bcType = [[-1, -1, 1, 1], [1, -1, -1, -1], [-1, 1, -1, -1], [1, -1, -1, -1]]"

definition leakingDouble_bcValue :: "real \<Rightarrow> real list list" where
  "leakingDouble_bcValue sigmab = [[0, sigmab, 0, 0], [0, 0, 0, 0], [0, 0, 0, 0], [0, 0, 0, 0]]"

definition leakingDouble_exportedTimeSteps :: "int \<Rightarrow> int list" where
  "leakingDouble_exportedTimeSteps Nt = (if Nt = 2 then [1] else [1, 62, 125, 500])"

definition leakingDouble :: "('c, 'r, 's) collaborators \<Rightarrow> string \<Rightarrow> string \<Rightarrow> int \<Rightarrow> int \<Rightarrow> real \<Rightarrow> real
    \<Rightarrow> real \<Rightarrow> poroelasticProperties \<Rightarrow> int \<times> ('r, 's) world" where
  "leakingDouble X gridType interpScheme Nt meshSize Lt g sigmab myProperties =
    (let Nx = meshSize;
         Ny = 6 * meshSize;
         Lx = 1;
         Ly = 6;
         sCoordinates = [[Lx, Ly], [0, Ly], [0, 0], [Lx, 0]];
         G = shearModulus myProperties;
         lambda = bulkModulus myProperties - 2 * G / 3;
         phiPore = porosity myProperties;
         phiFrac = macroPorosity myProperties;
         KPore = permeability myProperties;
         KFrac = macroPermeability myProperties;
         c_s = 1 / solidBulkModulus myProperties;
         c_f = 1 / fluidBulkModulus myProperties;
         mu_f = fluidViscosity myProperties;
         bcType = leakingDouble_bcType;
         bcValue = leakingDouble_bcValue sigmab;
         myGrid = new_gridDesign (GP X) Nx Ny Nt Lx Ly Lt gridType sCoordinates;
         dx = grid_dx myGrid;
         dy = grid_dy myGrid;
         dt = grid_dt myGrid;
         problemArgs = [phiPore, phiFrac, c_f, c_s, G, lambda, mu_f, KPore, KFrac, sigmab];
         myProblem = applyDoublePoreInitialConditions (GP X) dy Ly (grid_vDisplacementField myGrid)
           (grid_pressureField myGrid) (grid_pressureField myGrid)
           (new_problemDoubleParameters (GP X) problemArgs myGrid);
         psiPore = pd_psiPore myProblem;
         psiFrac = pd_psiFrac myProblem;
         alpha = pd_alpha myProblem;
         S11 = pd_S11 myProblem;
         S12 = - psiPore * alpha * psiFrac * alpha / (2 * G + lambda);
         S22 = pd_S22 myProblem;
         leak = computeLeakTerm (GP X) myProblem 11;
         uField0 = grid_uDisplacementField myGrid;
         vField0 = pd_vDisplacementField myProblem;
         pPoreField0 = pd_pressurePoreField myProblem;
         pFracField0 = pd_pressureFracField myProblem;
         operator = [dx, dy, dt, G, lambda, alpha, KPore, KFrac, mu_f, S11, S12, S22, psiPore,
           psiFrac, leak];
         myCoefficients = assemblyDoublePorosityMatrix (CA X) operator
           (new_coefficientsAssembly (CA X) bcType myGrid gridType interpScheme);
         scalars = [dx, dy, dt, G, lambda, alpha, KPore, mu_f, S11, 0, 0];
         macroScalars = [phiPore, phiFrac, KFrac, S12, S22];
         w = \<lparr>myLinearSystemSolver = createMacroPressureField (LS X) pFracField0
                (new_linearSystemSolver (LS X) myCoefficients uField0 vField0 pPoreField0
                   myGrid Nt),
              myIndependentTerms = increaseMacroIndependentTermsArray (IT X)
                (new_independentTermsAssembly (IT X) bcType bcValue myGrid gridType
                   interpScheme),
              uField = uField0,
              vField = vField0,
              pField = pPoreField0,
              pFracField = pFracField0,
              independentTermsArray = [],
              calls = [GridDesign Nx Ny Nt Lx Ly Lt gridType sCoordinates,
                ProblemDoubleParameters problemArgs, ApplyDoublePoreInitialConditions dy Ly, ComputeLeakTerm 11,
                CoefficientsAssembly bcType gridType interpScheme,
                AssemblyDoublePorosityMatrix operator,
                IndependentTermsAssembly bcType bcValue gridType interpScheme,
                LinearSystemSolver Nt,
                IncreaseMacroIndependentTermsArray,
                CreateMacroPressureField]\<rparr>
     in linearSystemSolution X True
          (macroTerms X scalars macroScalars)
          Nt
          (DataProcessing ''doubleDataProcessing'' #
           DataProcessing ''storeMacroPressure3DField'' #
           concat (map (\<lambda>t. [Export ''exportDrainedDoubleNumericalSolution'' t,
             Export ''exportLeakingAnalyticalSolution'' t])
             (leakingDouble_exportedTimeSteps Nt)))
          w)"

section \<open>The ten drivers together\<close>

text \<open>
  The drivers share one signature; \<open>driver\<close> selects one of them by name, so that a
  property of every driver is one statement.
\<close>

datatype benchmark = SealedColumn | Terzaghi | Mandel | Convergence | Stripfoot
  | TerzaghiDouble | StripfootDouble | SealedDouble | StorageDouble | LeakingDouble

fun driver :: "benchmark \<Rightarrow> ('c, 'r, 's) collaborators \<Rightarrow> string \<Rightarrow> string \<Rightarrow> int \<Rightarrow> int \<Rightarrow> real
    \<Rightarrow> real \<Rightarrow> real \<Rightarrow> poroelasticProperties \<Rightarrow> int \<times> ('r, 's) world" where
  "driver SealedColumn = sealedColumn"
| "driver Terzaghi = terzaghi"
| "driver Mandel = mandel"
| "driver Convergence = convergence"
| "driver Stripfoot = stripfoot"
| "driver TerzaghiDouble = terzaghiDouble"
| "driver StripfootDouble = stripfootDouble"
| "driver SealedDouble = sealedDouble"
| "driver StorageDouble = storageDouble"
| "driver LeakingDouble = leakingDouble"


section \<open>The calls of a complete run\<close>

text \<open>
  The calls of one complete pass through the loop body after its assembly calls, and of
  \<open>n\<close> complete passes starting at \<open>timeStep\<close>, where \<open>asm t\<close> lists the assembly
  calls of the pass at time step \<open>t\<close>. A call that returns a \<^verbatim>\<open>PetscErrorCode\<close> is
  \<open>fallible\<close>: a run that stops early stops right after such a call.
\<close>

definition stepCalls :: "bool \<Rightarrow> int \<Rightarrow> call list" where
  "stepCalls macro timeStep =
     [PassingIndependentTermsArray, ZeroPETScArrays, SetRHSValue, SolveLinearSystem,
      SetFieldValue (timeStep + 1)] @
     (if macro then [SetMacroFieldValue (timeStep + 1)] else []) @
     [PassingSolutions, ZeroPETScArrays]"

fun loopCalls :: "(int \<Rightarrow> call list) \<Rightarrow> bool \<Rightarrow> int \<Rightarrow> nat \<Rightarrow> call list" where
  "loopCalls asm macro timeStep 0 = []"
| "loopCalls asm macro timeStep (Suc n) =
     asm timeStep @ stepCalls macro timeStep @ loopCalls asm macro (timeStep + 1) n"

fun fallible :: "call \<Rightarrow> bool" where
  "fallible CoefficientsMatrixLUFactorization = True"
| "fallible CreatePETScArrays = True"
| "fallible ZeroPETScArrays = True"
| "fallible SetRHSValue = True"
| "fallible SolveLinearSystem = True"
| "fallible (SetFieldValue t) = True"
| "fallible (SetMacroFieldValue t) = True"
| "fallible c = False"


text \<open>
  Three kinds of calls: those of the sections before the factorization (\<open>setupCall\<close>),
  the assembly calls of \<^verbatim>\<open>myIndependentTerms\<close> at the head of the loop body
  (\<open>rhsAssemblyCall\<close>) and those of the data processing (\<open>dataCall\<close>).
\<close>

fun setupCall :: "call \<Rightarrow> bool" where
  "setupCall (GridDesign Nx Ny Nt Lx Ly Lt gridType sCoordinates) = True"
| "setupCall (ProblemParameters args g) = True"
| "setupCall ApplySealedColumnInitialConditions = True"
| "setupCall ApplyTerzaghiInitialConditions = True"
| "setupCall ApplyMandelInitialConditions = True"
| "setupCall (ProblemDoubleParameters args) = True"
| "setupCall (ApplyDoublePoreInitialConditions dy Ly) = True"
| "setupCall (ComputeLeakTerm k) = True"
| "setupCall (CoefficientsAssembly bcType gridType interpScheme) = True"
| "setupCall (AssemblyCoefficientsMatrix args) = True"
| "setupCall (AssemblyMandelCoefficientsMatrix args) = True"
| "setupCall AssemblySparseMatrix = True"
| "setupCall (AssemblyDoublePorosityMatrix args) = True"
| "setupCall (CoefficientsAddStripfootBC stripSize K mu_f) = True"
| "setupCall (CoefficientsAddMacroStripfootBC stripSize K mu_f) = True"
| "setupCall (IndependentTermsAssembly bcType bcValue gridType interpScheme) = True"
| "setupCall (LinearSystemSolver Nt) = True"
| "setupCall IncreaseMandelIndependentTermsArray = True"
| "setupCall IncreaseMacroIndependentTermsArray = True"
| "setupCall CreateMacroPressureField = True"
| "setupCall c = False"

fun rhsAssemblyCall :: "call \<Rightarrow> bool" where
  "rhsAssemblyCall (AssemblyIndependentTermsArray args timeStep) = True"
| "rhsAssemblyCall (AssemblyMandelIndependentTermsArray forceb Lx) = True"
| "rhsAssemblyCall (AssemblyMacroIndependentTermsArray args timeStep margs) = True"
| "rhsAssemblyCall (IndependentTermsAddStripfootBC stripSize dx sigmab) = True"
| "rhsAssemblyCall (IndependentTermsAddMacroStripfootBC stripSize dx sigmab) = True"
| "rhsAssemblyCall c = False"

fun dataCall :: "call \<Rightarrow> bool" where
  "dataCall (DataProcessing m) = True"
| "dataCall (Export m timeStep) = True"
| "dataCall c = False"

text \<open>
  \<open>runShape pre asm macro Nt post ierr tr\<close>: the calls \<open>tr\<close> of a run that returned
  \<open>ierr\<close> are the calls \<open>pre\<close> of the set-up, the factorization and then the calls of the
  complete run up to the point where the run returned: the very end when \<open>ierr\<close> is zero,
  a fallible call otherwise.
\<close>

definition runShape :: "call list \<Rightarrow> (int \<Rightarrow> call list) \<Rightarrow> bool \<Rightarrow> int \<Rightarrow> call list \<Rightarrow> int
    \<Rightarrow> call list \<Rightarrow> bool" where
  "runShape pre asm macro Nt post ierr tr =
     (\<exists>ys. tr = pre @ CoefficientsMatrixLUFactorization # ys
        \<and> prefix ys ([CreatePETScArrays, ZeroPETScArrays]
                       @ loopCalls asm macro 0 (nat (Nt - 1)) @ post)
        \<and> (ierr = 0 \<longrightarrow> ys = [CreatePETScArrays, ZeroPETScArrays]
                       @ loopCalls asm macro 0 (nat (Nt - 1)) @ post)
        \<and> (ierr \<noteq> 0 \<longrightarrow> fallible (last (CoefficientsMatrixLUFactorization # ys))))"

definition partsOK :: "call list \<Rightarrow> (int \<Rightarrow> call list) \<Rightarrow> call list \<Rightarrow> bool" where
  "partsOK pre asm post =
     (list_all setupCall pre \<and> (\<forall>t. asm t \<noteq> [] \<and> list_all rhsAssemblyCall (asm t))
        \<and> list_all dataCall post)"


text \<open>
  The calls that occur inside the time loop, and the relation between two consecutive calls
  that says that the working buffers are zeroed around each solve: a call of
  \<^verbatim>\<open>setRHSValue\<close> comes right after one of \<^verbatim>\<open>zeroPETScArrays\<close>, and the
  copy of the solution fields is followed at once by \<^verbatim>\<open>zeroPETScArrays\<close>.
\<close>

fun timeLoopCall :: "call \<Rightarrow> bool" where
  "timeLoopCall PassingIndependentTermsArray = True"
| "timeLoopCall SetRHSValue = True"
| "timeLoopCall SolveLinearSystem = True"
| "timeLoopCall (SetFieldValue t) = True"
| "timeLoopCall (SetMacroFieldValue t) = True"
| "timeLoopCall PassingSolutions = True"
| "timeLoopCall c = rhsAssemblyCall c"



section \<open>The two main functions\<close>

text \<open>
  \<^verbatim>\<open>mainDimless.cpp\<close> and \<^verbatim>\<open>mainDouble.cpp\<close>. \<open>inFile\<close> is \<open>None\<close> when the
  properties file cannot be opened and holds the numbers read from it otherwise (the
  reads are not checked by the program); \<open>init\<close> and \<open>fin\<close> are the codes returned by
  \<^verbatim>\<open>PetscInitialize\<close> and \<^verbatim>\<open>PetscFinalize\<close>. The result is the exit status
  and the calls made, those of the driver runs included.
\<close>

fun mainDimless_solve :: "('c, 'r, 's) collaborators \<Rightarrow> string \<Rightarrow> string \<Rightarrow> string
    \<Rightarrow> poroelasticProperties \<Rightarrow> int \<Rightarrow> int \<Rightarrow> real \<Rightarrow> real \<Rightarrow> real \<Rightarrow> real list \<Rightarrow> call list
    \<Rightarrow> int \<times> call list" where
  "mainDimless_solve X myGridType myInterpScheme myMedium myProperties Nt mesh consolidationTime
       g columnLoad [] cs = (0, cs)"
| "mainDimless_solve X myGridType myInterpScheme myMedium myProperties Nt mesh consolidationTime
       g columnLoad (timestepSize_i # timestepSize) cs =
    (let Lt = real_of_int (Nt - 1) * (consolidationTime * timestepSize_i);
         dt = Lt / real_of_int (Nt - 1);
         cs = cs @ [ExportSolveRunInfo dt (''Terzaghi_'' @ myMedium)]
     in case terzaghi X myGridType myInterpScheme Nt mesh Lt g columnLoad myProperties of
          (ierr, w) \<Rightarrow>
            if ierr \<noteq> 0 then (ierr, cs @ calls w)
            else mainDimless_solve X myGridType myInterpScheme myMedium myProperties Nt mesh
                   consolidationTime g columnLoad timestepSize (cs @ calls w))"

definition mainDimless :: "('c, 'r, 's) collaborators \<Rightarrow> string \<Rightarrow> string \<Rightarrow> string
    \<Rightarrow> poroelasticProperties option \<Rightarrow> int \<Rightarrow> int \<Rightarrow> int \<times> call list" where
  "mainDimless X myGridType myInterpScheme myMedium inFile init fin =
    (case inFile of
       None \<Rightarrow> (1, [])
     | Some file \<Rightarrow>
        (let myProperties = file\<lparr>pairName := myMedium\<rparr>;
             fluidCompressibility = 1 / fluidBulkModulus myProperties;
             solidCompressibility = 1 / solidBulkModulus myProperties;
             bulkCompressibility = 1 / bulkModulus myProperties;
             longitudinalModulus = bulkModulus myProperties + 4 * shearModulus myProperties / 3;
             alpha = 1 - solidCompressibility / bulkCompressibility;
             storativity = porosity myProperties * fluidCompressibility
               + (alpha - porosity myProperties) * solidCompressibility;
             consolidationCoefficient =
               (permeability myProperties / fluidViscosity myProperties)
                 / (storativity + alpha * alpha / longitudinalModulus);
             Nt = 2;
             mesh = 3;
             h = 1 / real_of_int mesh;
             consolidationTime = h * h / consolidationCoefficient;
             timestepSize = [0.25, 0.10, 0.05, 0.01];
             g = 0;
             columnLoad = - 10000
         in if init \<noteq> 0 then (init, [])
            else case mainDimless_solve X myGridType myInterpScheme myMedium myProperties Nt
                   mesh consolidationTime g columnLoad timestepSize
                   [CreateSolveRunInfo myGridType myInterpScheme ''Terzaghi''] of
              (ierr, cs) \<Rightarrow> if ierr \<noteq> 0 then (ierr, cs) else (fin, cs)))"

fun mainDouble_solve :: "('c, 'r, 's) collaborators \<Rightarrow> string \<Rightarrow> string \<Rightarrow> string
    \<Rightarrow> poroelasticProperties \<Rightarrow> int \<Rightarrow> int \<Rightarrow> real \<Rightarrow> real \<Rightarrow> real \<Rightarrow> real list \<Rightarrow> call list
    \<Rightarrow> int \<times> call list" where
  "mainDouble_solve X myGridType myInterpScheme myMedium myProperties Nt mesh consolidationTime
       g columnLoad [] cs = (0, cs)"
| "mainDouble_solve X myGridType myInterpScheme myMedium myProperties Nt mesh consolidationTime
       g columnLoad (timestepSize_i # timestepSize) cs =
    (let Lt = real_of_int (Nt - 1) * (consolidationTime * timestepSize_i);
         dt = Lt / real_of_int (Nt - 1);
         cs = cs @ [ExportSolveRunInfo dt (''Terzaghi_'' @ myMedium)]
     in case terzaghiDouble X myGridType myInterpScheme Nt mesh Lt g columnLoad myProperties of
          (ierr, w) \<Rightarrow>
            if ierr \<noteq> 0 then (ierr, cs @ calls w)
            else mainDouble_solve X myGridType myInterpScheme myMedium myProperties Nt mesh
                   consolidationTime g columnLoad timestepSize (cs @ calls w))"

definition mainDouble :: "('c, 'r, 's) collaborators \<Rightarrow> string \<Rightarrow> string \<Rightarrow> string
    \<Rightarrow> poroelasticProperties option \<Rightarrow> int \<Rightarrow> int \<Rightarrow> int \<times> call list" where
  "mainDouble X myGridType myInterpScheme myMedium inFile init fin =
    (case inFile of
       None \<Rightarrow> (1, [])
     | Some file \<Rightarrow>
        (let myProperties = file\<lparr>pairName := myMedium\<rparr>;
             myProperties = myProperties\<lparr>macroPorosity := porosity myProperties * 1 / 3\<rparr>;
             myProperties = myProperties\<lparr>porosity := porosity myProperties * 2 / 3\<rparr>;
             myProperties = myProperties
               \<lparr>macroPermeability := permeability myProperties * 999 / 1000\<rparr>;
             myProperties = myProperties\<lparr>permeability := permeability myProperties / 1000\<rparr>;
             fluidCompressibility = 1 / fluidBulkModulus myProperties;
             solidCompressibility = 1 / solidBulkModulus myProperties;
             bulkCompressibility = 1 / bulkModulus myProperties;
             longitudinalModulus = bulkModulus myProperties + 4 * shearModulus myProperties / 3;
             alpha = 1 - solidCompressibility / bulkCompressibility;
             storativity = macroPorosity myProperties * fluidCompressibility
               + (alpha - macroPorosity myProperties) * solidCompressibility;
             consolidationCoefficient =
               (macroPermeability myProperties / fluidViscosity myProperties)
                 / (storativity + alpha * alpha / longitudinalModulus);
             Nt = 2;
             mesh = 3;
             h = 1 / real_of_int mesh;
             consolidationTime = h * h / consolidationCoefficient;
             timestepSize = [0.25, 0.10];
             g = 0;
             columnLoad = - 10000
         in if init \<noteq> 0 then (init, [])
            else case mainDouble_solve X myGridType myInterpScheme myMedium myProperties Nt
                   mesh consolidationTime g columnLoad timestepSize
                   [CreateSolveRunInfo myGridType myInterpScheme ''Terzaghi''] of
              (ierr, cs) \<Rightarrow> if ierr \<noteq> 0 then (ierr, cs) else (fin, cs)))"

section \<open>What the calls of a run say\<close>

text \<open>
  Readings of a list of calls: the boundary tables handed to the two assembly
  constructors, the arguments of \<^verbatim>\<open>computeLeakTerm\<close>, the scalar arguments of the
  operator assembly calls, the arguments of the grid constructor, the time-step size
  \<^verbatim>\<open>dt\<close> (third scalar argument) of every assembly call, and the time-step size
  handed to \<^verbatim>\<open>exportSolveRunInfo\<close>.
\<close>

definition tablesOf :: "call \<Rightarrow> (int list list \<times> real list list option) list" where
  "tablesOf c = (case c of
       CoefficientsAssembly bcType gridType interpScheme \<Rightarrow> [(bcType, None)]
     | IndependentTermsAssembly bcType bcValue gridType interpScheme \<Rightarrow> [(bcType, Some bcValue)]
     | _ \<Rightarrow> [])"

definition boundaryTablesPassed :: "call list \<Rightarrow> (int list list \<times> real list list option) list"
  where "boundaryTablesPassed cs = concat (map tablesOf cs)"

definition leakArgumentOf :: "call \<Rightarrow> int list" where
  "leakArgumentOf c = (case c of ComputeLeakTerm k \<Rightarrow> [k] | _ \<Rightarrow> [])"

definition leakArguments :: "call list \<Rightarrow> int list" where
  "leakArguments cs = concat (map leakArgumentOf cs)"

definition operatorOf :: "call \<Rightarrow> real list list" where
  "operatorOf c = (case c of
       AssemblyCoefficientsMatrix args \<Rightarrow> [args]
     | AssemblyDoublePorosityMatrix args \<Rightarrow> [args]
     | _ \<Rightarrow> [])"

definition operatorArguments :: "call list \<Rightarrow> real list list" where
  "operatorArguments cs = concat (map operatorOf cs)"

definition gridOf :: "call \<Rightarrow> (int \<times> int \<times> int \<times> real \<times> real \<times> real) list" where
  "gridOf c = (case c of
       GridDesign Nx Ny Nt Lx Ly Lt gridType sCoordinates \<Rightarrow> [(Nx, Ny, Nt, Lx, Ly, Lt)]
     | _ \<Rightarrow> [])"

definition gridsCreated :: "call list \<Rightarrow> (int \<times> int \<times> int \<times> real \<times> real \<times> real) list" where
  "gridsCreated cs = concat (map gridOf cs)"

definition dtOf :: "call \<Rightarrow> real list" where
  "dtOf c = (case c of
       AssemblyCoefficientsMatrix args \<Rightarrow> [args ! 2]
     | AssemblyDoublePorosityMatrix args \<Rightarrow> [args ! 2]
     | AssemblyIndependentTermsArray args timeStep \<Rightarrow> [args ! 2]
     | AssemblyMacroIndependentTermsArray args timeStep margs \<Rightarrow> [args ! 2]
     | _ \<Rightarrow> [])"

definition timeStepSizes :: "call list \<Rightarrow> real list" where
  "timeStepSizes cs = concat (map dtOf cs)"

definition runInfoOf :: "call \<Rightarrow> real list" where
  "runInfoOf c = (case c of ExportSolveRunInfo dt name \<Rightarrow> [dt] | _ \<Rightarrow> [])"

definition runInfoTimeSteps :: "call list \<Rightarrow> real list" where
  "runInfoTimeSteps cs = concat (map runInfoOf cs)"

text \<open>
  A pair of boundary tables for \<open>K\<close> quantities: four rows each, every row of length
  \<open>K\<close>, every type one of \<open>1\<close> (Dirichlet), \<open>0\<close> (Neumann), \<open>-1\<close> (stress or flow).
\<close>

definition boundaryTables :: "nat \<Rightarrow> int list list \<Rightarrow> real list list \<Rightarrow> bool" where
  "boundaryTables K bcType bcValue =
     (length bcType = 4 \<and> length bcValue = 4
      \<and> list_all (\<lambda>row. length row = K) bcType \<and> list_all (\<lambda>row. length row = K) bcValue
      \<and> list_all (list_all (\<lambda>t. t = 1 \<or> t = 0 \<or> t = - 1)) bcType)"

section \<open>Base assembly and variant extensions\<close>

text \<open>
  The assembly steps of a run: the base assembly of the operator and of the independent
  terms, the variant calls that modify what the base assembly built, and the two places
  where the result is taken over: the constructor of the solver takes the operator, the
  copy of the independent terms takes the right-hand side. The other calls of a run write
  no entry of the operator or of the right-hand side through an argument of the driver
  (\<^verbatim>\<open>assemblySparseMatrix\<close> of \<^verbatim>\<open>mandel\<close> converts the operator after the Mandel
  rows are written; \<^verbatim>\<open>increaseMandelIndependentTermsArray\<close> resizes the array before
  the loop) and are not assembly steps.
\<close>

fun operatorBase :: "call \<Rightarrow> bool" where
  "operatorBase (AssemblyCoefficientsMatrix args) = True"
| "operatorBase (AssemblyDoublePorosityMatrix args) = True"
| "operatorBase c = False"

fun operatorVariant :: "call \<Rightarrow> bool" where
  "operatorVariant (AssemblyMandelCoefficientsMatrix args) = True"
| "operatorVariant (CoefficientsAddStripfootBC stripSize K mu_f) = True"
| "operatorVariant (CoefficientsAddMacroStripfootBC stripSize K mu_f) = True"
| "operatorVariant c = False"

fun rhsBase :: "call \<Rightarrow> bool" where
  "rhsBase (AssemblyIndependentTermsArray args timeStep) = True"
| "rhsBase (AssemblyMacroIndependentTermsArray args timeStep margs) = True"
| "rhsBase c = False"

fun rhsVariant :: "call \<Rightarrow> bool" where
  "rhsVariant (AssemblyMandelIndependentTermsArray forceb Lx) = True"
| "rhsVariant (IndependentTermsAddStripfootBC stripSize dx sigmab) = True"
| "rhsVariant (IndependentTermsAddMacroStripfootBC stripSize dx sigmab) = True"
| "rhsVariant c = False"

fun takesOperator :: "call \<Rightarrow> bool" where
  "takesOperator (LinearSystemSolver Nt) = True"
| "takesOperator c = False"

definition assemblyStep :: "call \<Rightarrow> bool" where
  "assemblyStep c = (operatorBase c \<or> operatorVariant c \<or> rhsBase c \<or> rhsVariant c
     \<or> takesOperator c \<or> c = PassingIndependentTermsArray)"

definition isAssemblyCoefficientsMatrix :: "call \<Rightarrow> bool" where
  "isAssemblyCoefficientsMatrix c =
     (case c of AssemblyCoefficientsMatrix args \<Rightarrow> True | _ \<Rightarrow> False)"

definition isAssemblyMandelCoefficientsMatrix :: "call \<Rightarrow> bool" where
  "isAssemblyMandelCoefficientsMatrix c =
     (case c of AssemblyMandelCoefficientsMatrix args \<Rightarrow> True | _ \<Rightarrow> False)"

definition isCoefficientsAddStripfootBC :: "call \<Rightarrow> bool" where
  "isCoefficientsAddStripfootBC c =
     (case c of CoefficientsAddStripfootBC stripSize K mu_f \<Rightarrow> True | _ \<Rightarrow> False)"

definition isCoefficientsAddMacroStripfootBC :: "call \<Rightarrow> bool" where
  "isCoefficientsAddMacroStripfootBC c =
     (case c of CoefficientsAddMacroStripfootBC stripSize K mu_f \<Rightarrow> True | _ \<Rightarrow> False)"

definition isAssemblyIndependentTermsArray :: "call \<Rightarrow> bool" where
  "isAssemblyIndependentTermsArray c =
     (case c of AssemblyIndependentTermsArray args timeStep \<Rightarrow> True | _ \<Rightarrow> False)"

definition isAssemblyMandelIndependentTermsArray :: "call \<Rightarrow> bool" where
  "isAssemblyMandelIndependentTermsArray c =
     (case c of AssemblyMandelIndependentTermsArray forceb Lx \<Rightarrow> True | _ \<Rightarrow> False)"

definition isIndependentTermsAddStripfootBC :: "call \<Rightarrow> bool" where
  "isIndependentTermsAddStripfootBC c =
     (case c of IndependentTermsAddStripfootBC stripSize dx sigmab \<Rightarrow> True | _ \<Rightarrow> False)"

definition isIndependentTermsAddMacroStripfootBC :: "call \<Rightarrow> bool" where
  "isIndependentTermsAddMacroStripfootBC c =
     (case c of IndependentTermsAddMacroStripfootBC stripSize dx sigmab \<Rightarrow> True | _ \<Rightarrow> False)"

text \<open>
  \<open>variantOrder lastOperator lastRhs a b\<close> relates an assembly step \<open>a\<close> and the assembly
  step \<open>b\<close> that comes next: a variant call \<open>b\<close> comes right after the base assembly it
  modifies (\<^verbatim>\<open>addMacroStripfootBC\<close> right after \<^verbatim>\<open>addStripfootBC\<close>, which comes right
  after the base assembly), and where the operator or the right-hand side is taken over
  the step before is the last variant call of the driver, \<open>lastOperator\<close> or \<open>lastRhs\<close>.
\<close>

definition variantOrder :: "(call \<Rightarrow> bool) \<Rightarrow> (call \<Rightarrow> bool) \<Rightarrow> call \<Rightarrow> call \<Rightarrow> bool" where
  "variantOrder lastOperator lastRhs a b =
     (case b of
        AssemblyMandelCoefficientsMatrix args \<Rightarrow> isAssemblyCoefficientsMatrix a
      | CoefficientsAddStripfootBC stripSize K mu_f \<Rightarrow> operatorBase a
      | CoefficientsAddMacroStripfootBC stripSize K mu_f \<Rightarrow> isCoefficientsAddStripfootBC a
      | AssemblyMandelIndependentTermsArray forceb Lx \<Rightarrow> isAssemblyIndependentTermsArray a
      | IndependentTermsAddStripfootBC stripSize dx sigmab \<Rightarrow> rhsBase a
      | IndependentTermsAddMacroStripfootBC stripSize dx sigmab \<Rightarrow>
          isIndependentTermsAddStripfootBC a
      | LinearSystemSolver Nt \<Rightarrow> lastOperator a
      | PassingIndependentTermsArray \<Rightarrow> lastRhs a
      | _ \<Rightarrow> True)"

text \<open>The assembly steps of a run, in the order of the calls.\<close>

definition assemblySteps :: "call list \<Rightarrow> call list" where
  "assemblySteps cs = filter assemblyStep cs"

section \<open>The right-hand side of a time step\<close>

text \<open>
  The five forms of the assembly at the head of the loop body, as data: \<open>termsOf X form\<close>
  is the assembly of the form \<open>form\<close>.
\<close>

datatype rhsTerms =
    BaseTerms "real list"
  | MandelTerms "real list" real real
  | StripfootTerms "real list" int real real
  | MacroTerms "real list" "real list"
  | MacroStripfootTerms "real list" "real list" int real real

fun termsOf :: "('c, 'r, 's) collaborators \<Rightarrow> rhsTerms \<Rightarrow> int \<Rightarrow> ('r, 's) world \<Rightarrow> ('r, 's) world" where
  "termsOf X (BaseTerms scalars) = baseTerms X scalars"
| "termsOf X (MandelTerms scalars forceb Lx) = mandelTerms X scalars forceb Lx"
| "termsOf X (StripfootTerms scalars stripSize dx sigmab) =
     stripfootTerms X scalars stripSize dx sigmab"
| "termsOf X (MacroTerms scalars macroScalars) = macroTerms X scalars macroScalars"
| "termsOf X (MacroStripfootTerms scalars macroScalars stripSize dx sigmab) =
     macroStripfootTerms X scalars macroScalars stripSize dx sigmab"






section \<open>Method applications on the solver object\<close>

text \<open>
  The methods of \<^verbatim>\<open>myLinearSystemSolver\<close> that return a \<^verbatim>\<open>PetscErrorCode\<close>, as data, and
  their application to the solver object: \<open>invokeAll L ms s\<close> applies the methods \<open>ms\<close> in
  order to the object \<open>s\<close> and stops after the first one that returns a non-zero code; it
  gives the code of the last method applied and the object this one left.
  \<open>applied L ms s\<close> are the methods that are applied on the way, and \<open>methodCall m\<close> is the
  call that an application of \<open>m\<close> appears as among the calls of a run.
\<close>

datatype solverMethod =
    LUFactorization
  | CreateArrays
  | ZeroArrays
  | RHSValue "real list"
  | LinearSystemSolve
  | FieldValue int
  | MacroFieldValue int

fun invoke :: "('c, 's) linearSystemSolver \<Rightarrow> solverMethod \<Rightarrow> 's \<Rightarrow> int \<times> 's" where
  "invoke L LUFactorization = coefficientsMatrixLUFactorization L"
| "invoke L CreateArrays = createPETScArrays L"
| "invoke L ZeroArrays = zeroPETScArrays L"
| "invoke L (RHSValue rhs) = setRHSValue L rhs"
| "invoke L LinearSystemSolve = solveLinearSystem L"
| "invoke L (FieldValue timeStep) = setFieldValue L timeStep"
| "invoke L (MacroFieldValue timeStep) = setMacroFieldValue L timeStep"

fun invokeAll :: "('c, 's) linearSystemSolver \<Rightarrow> solverMethod list \<Rightarrow> 's \<Rightarrow> int \<times> 's" where
  "invokeAll L [] s = (0, s)"
| "invokeAll L (m # ms) s =
     (case invoke L m s of (ierr, s') \<Rightarrow> if ierr \<noteq> 0 then (ierr, s') else invokeAll L ms s')"

fun applied :: "('c, 's) linearSystemSolver \<Rightarrow> solverMethod list \<Rightarrow> 's \<Rightarrow> solverMethod list" where
  "applied L [] s = []"
| "applied L (m # ms) s =
     (case invoke L m s of (ierr, s') \<Rightarrow> if ierr \<noteq> 0 then [m] else m # applied L ms s')"

fun methodCall :: "solverMethod \<Rightarrow> call" where
  "methodCall LUFactorization = CoefficientsMatrixLUFactorization"
| "methodCall CreateArrays = CreatePETScArrays"
| "methodCall ZeroArrays = ZeroPETScArrays"
| "methodCall (RHSValue rhs) = SetRHSValue"
| "methodCall LinearSystemSolve = SolveLinearSystem"
| "methodCall (FieldValue timeStep) = SetFieldValue timeStep"
| "methodCall (MacroFieldValue timeStep) = SetMacroFieldValue timeStep"

text \<open>
  The methods that one pass through the loop body applies to the solver when none of
  them fails, for the right-hand side \<open>rhs\<close> that the pass has assembled.
\<close>

definition iterationMethods :: "bool \<Rightarrow> int \<Rightarrow> real list \<Rightarrow> solverMethod list" where
  "iterationMethods macro timeStep rhs =
     [ZeroArrays, RHSValue rhs, LinearSystemSolve, FieldValue (timeStep + 1)] @
     (if macro then [MacroFieldValue (timeStep + 1)] else []) @
     [ZeroArrays]"

section \<open>The transient buffers of the solver\<close>






section \<open>Rows that the variant calls override\<close>










section \<open>The time-step size of the grid\<close>

text \<open>
  Modelled from the spec: the constructor of \<^verbatim>\<open>gridDesign\<close>, whose header
  \<^verbatim>\<open>gridDesign.hpp\<close> is not among the sources. Section 4.1 of the specification gives
  the time-step size as \<open>dt = totalTime/(steps-1)\<close>; the other members of the grid, which
  that section describes in prose, are those of \<open>members\<close>.
\<close>

definition gridDesign_spec ::
  "(int \<Rightarrow> int \<Rightarrow> int \<Rightarrow> real \<Rightarrow> real \<Rightarrow> real \<Rightarrow> string \<Rightarrow> real list list \<Rightarrow> gridDesign)
    \<Rightarrow> int \<Rightarrow> int \<Rightarrow> int \<Rightarrow> real \<Rightarrow> real \<Rightarrow> real \<Rightarrow> string \<Rightarrow> real list list \<Rightarrow> gridDesign" where
  "gridDesign_spec members Nx Ny Nt Lx Ly Lt gridType sCoordinates =
     (members Nx Ny Nt Lx Ly Lt gridType sCoordinates)\<lparr>grid_dt := Lt / real_of_int (Nt - 1)\<rparr>"

section \<open>The state machine of the time-stepping solver\<close>

text \<open>
  Modelled from the spec: the class \<^verbatim>\<open>linearSystemSolver\<close>, whose header
  \<^verbatim>\<open>linearSystemSolver.hpp\<close> is not among the sources, as section 4.4 of the
  specification describes it. The solver is a state machine with the states Unfactored,
  Factored, Solving and Done. \<open>factorize\<close> consumes the operator once, takes Unfactored to
  Factored and fails when the library reports a failure (\<open>lu\<close> gives \<open>None\<close>).
  \<open>solve_step\<close> is valid only when a factorization is there (Factored, or Solving after
  an earlier step); it loads the right-hand side, solves against the stored factorization
  (\<open>triangular\<close>), returns the solution and leaves the transient buffer zeroed; a
  right-hand side of the wrong length is a dimension mismatch. Every other call is a
  state-contract error. The numerical kernels \<open>lu\<close> and \<open>triangular\<close> are parameters.
\<close>

datatype solverState = Unfactored | Factored | Solving | Done

datatype solverError = FactorizationFailure | StateContractError | DimensionMismatch

record 'f timeSteppingSolver =
  solverState :: solverState
  factorization :: "'f option"
  dimension :: nat
  buffer :: "real list"

definition newSolver :: "nat \<Rightarrow> 'f timeSteppingSolver" where
  "newSolver n = \<lparr>solverState = Unfactored, factorization = None, dimension = n,
     buffer = replicate n 0\<rparr>"

definition factorize :: "('m \<Rightarrow> 'f option) \<Rightarrow> 'm \<Rightarrow> 'f timeSteppingSolver
    \<Rightarrow> solverError + 'f timeSteppingSolver" where
  "factorize lu operator s =
     (if solverState s \<noteq> Unfactored then Inl StateContractError
      else case lu operator of
             None \<Rightarrow> Inl FactorizationFailure
           | Some f \<Rightarrow> Inr (s\<lparr>solverState := Factored, factorization := Some f\<rparr>))"

definition solve_step :: "('f \<Rightarrow> real list \<Rightarrow> real list) \<Rightarrow> real list \<Rightarrow> 'f timeSteppingSolver
    \<Rightarrow> solverError + (real list \<times> 'f timeSteppingSolver)" where
  "solve_step triangular rhs s =
     (if solverState s = Factored \<or> solverState s = Solving
      then case factorization s of
             None \<Rightarrow> Inl StateContractError
           | Some f \<Rightarrow>
               if length rhs \<noteq> dimension s then Inl DimensionMismatch
               else Inr (triangular f rhs,
                         s\<lparr>solverState := Solving, buffer := replicate (dimension s) 0\<rparr>)
      else Inl StateContractError)"

text \<open>
  A run of requests against a solver: it stops at the first error, as every failure is
  fatal, and returns the solutions of the solve steps in order otherwise.
\<close>

datatype 'm request = Factorize 'm | SolveStep "real list"

fun serve :: "('m \<Rightarrow> 'f option) \<Rightarrow> ('f \<Rightarrow> real list \<Rightarrow> real list) \<Rightarrow> 'm request list
    \<Rightarrow> 'f timeSteppingSolver \<Rightarrow> solverError + (real list list \<times> 'f timeSteppingSolver)" where
  "serve lu triangular [] s = Inr ([], s)"
| "serve lu triangular (Factorize operator # requests) s =
     (case factorize lu operator s of
        Inl err \<Rightarrow> Inl err
      | Inr s' \<Rightarrow> serve lu triangular requests s')"
| "serve lu triangular (SolveStep rhs # requests) s =
     (case solve_step triangular rhs s of
        Inl err \<Rightarrow> Inl err
      | Inr (x, s') \<Rightarrow>
          (case serve lu triangular requests s' of
             Inl err \<Rightarrow> Inl err
           | Inr (xs, s'') \<Rightarrow> Inr (x # xs, s'')))"

section \<open>A small instance of the collaborators\<close>

text \<open>
  Collaborators under which every driver can be run on concrete inputs: a grid with no
  cells, unit parameters, assembly objects without content and a solver whose state counts
  the solves it has done and whose calls all return the code zero. The grid has the
  time-step size of \<open>gridDesign_spec\<close>.
\<close>

definition trialGrid :: gridDesign where
  "trialGrid =
     \<lparr>numberOfActiveUDisplacementFV = 0, numberOfActiveVDisplacementFV = 0,
      numberOfActiveGeneralFV = 0, grid_dx = 1, grid_dy = 1, grid_dt = 1, grid_h = 1,
      uDisplacementFVIndex = [], vDisplacementFVIndex = [], generalFVIndex = [],
      uDisplacementFVCoordinates = [], vDisplacementFVCoordinates = [],
      generalFVCoordinates = [], horizontalFacesStatus = [], verticalFacesStatus = [],
      grid_uDisplacementField = [], grid_vDisplacementField = [], grid_pressureField = []\<rparr>"

definition trialSetup :: problemSetup where
  "trialSetup =
     \<lparr>new_gridDesign =
        gridDesign_spec (\<lambda>Nx Ny Nt Lx Ly Lt gridType sCoordinates. trialGrid),
      new_problemParameters = (\<lambda>args u v p myGrid g.
        \<lparr>pp_Q = 1, pp_alpha = 1, pp_M = 1, pp_c = 1, pp_dt_vv = 1, pp_dt_carlos = 1, pp_P0 = 0,
         pp_uDisplacementField = u, pp_vDisplacementField = v, pp_pressureField = p\<rparr>),
      applySealedColumnInitialConditions = (\<lambda>p. p),
      applyTerzaghiInitialConditions = (\<lambda>p. p),
      applyMandelInitialConditions = (\<lambda>p. p),
      new_problemDoubleParameters = (\<lambda>args myGrid.
        \<lparr>pd_psiPore = 1, pd_psiFrac = 1, pd_alpha = 1, pd_S11 = 1, pd_S12 = 1, pd_S22 = 1,
         pd_consolCoef = 1, pd_vDisplacementField = [], pd_pressurePoreField = [],
         pd_pressureFracField = []\<rparr>),
      applyDoublePoreInitialConditions = (\<lambda>dy Ly v pPore pFrac p. p),
      computeLeakTerm = (\<lambda>p k. real_of_int k)\<rparr>"

definition trialCoefficients :: "unit coefficientsAssembly" where
  "trialCoefficients =
     \<lparr>new_coefficientsAssembly = (\<lambda>bcType myGrid gridType interpScheme. ()),
      assemblyCoefficientsMatrix = (\<lambda>args c. c),
      assemblyMandelCoefficientsMatrix = (\<lambda>args c. c),
      assemblySparseMatrix = (\<lambda>c. c),
      assemblyDoublePorosityMatrix = (\<lambda>args c. c),
      cm_addStripfootBC = (\<lambda>stripSize K mu_f c. c),
      cm_addMacroStripfootBC = (\<lambda>stripSize K mu_f c. c)\<rparr>"

definition trialIndependentTerms :: "unit independentTermsAssembly" where
  "trialIndependentTerms =
     \<lparr>new_independentTermsAssembly = (\<lambda>bcType bcValue myGrid gridType interpScheme. ()),
      increaseMandelIndependentTermsArray = (\<lambda>r. r),
      increaseMacroIndependentTermsArray = (\<lambda>r. r),
      assemblyIndependentTermsArray = (\<lambda>args u v p timeStep r. r),
      assemblyMandelIndependentTermsArray = (\<lambda>forceb Lx r. r),
      assemblyMacroIndependentTermsArray = (\<lambda>args u v p pM timeStep margs r. r),
      it_addStripfootBC = (\<lambda>stripSize dx sigmab r. r),
      it_addMacroStripfootBC = (\<lambda>stripSize dx sigmab r. r),
      it_independentTermsArray = (\<lambda>r. [])\<rparr>"

definition trialSolver :: "(unit, nat) linearSystemSolver" where
  "trialSolver =
     \<lparr>new_linearSystemSolver = (\<lambda>c u v p myGrid Nt. 0),
      createMacroPressureField = (\<lambda>pM s. s),
      coefficientsMatrixLUFactorization = (\<lambda>s. (0, s)),
      createPETScArrays = (\<lambda>s. (0, s)),
      zeroPETScArrays = (\<lambda>s. (0, s)),
      setRHSValue = (\<lambda>rhs s. (0, s)),
      solveLinearSystem = (\<lambda>s. (0, Suc s)),
      setFieldValue = (\<lambda>timeStep s. (0, s)),
      setMacroFieldValue = (\<lambda>timeStep s. (0, s)),
      ls_uField = (\<lambda>s. []), ls_vField = (\<lambda>s. []), ls_pField = (\<lambda>s. []),
      ls_pMField = (\<lambda>s. [])\<rparr>"

definition trial :: "(unit, unit, nat) collaborators" where
  "trial = \<lparr>GP = trialSetup, CA = trialCoefficients, IT = trialIndependentTerms,
     LS = trialSolver\<rparr>"

definition trialProperties :: poroelasticProperties where
  "trialProperties =
     \<lparr>pairName = ''trial'', shearModulus = 1, bulkModulus = 1, porosity = 1,
      permeability = 1, macroPorosity = 1, macroPermeability = 1, solidBulkModulus = 1,
      solidDensity = 1, fluidBulkModulus = 1, fluidViscosity = 1, fluidDensity = 1\<rparr>"










text \<open>A properties file whose permeability is negative; its other numbers are positive.\<close>

definition negativePermeability :: poroelasticProperties where
  "negativePermeability =
     \<lparr>pairName = ''negative'', shearModulus = 1, bulkModulus = 1, porosity = 1 / 2,
      permeability = - 1, macroPorosity = 0, macroPermeability = 0, solidBulkModulus = 2,
      solidDensity = 1, fluidBulkModulus = 1, fluidViscosity = 1, fluidDensity = 1\<rparr>"

section \<open>Properties\<close>

lemma petsc_calls:
  "petsc c m w = (e, w') \<Longrightarrow> calls w' = calls w @ [c]"
  by (auto simp: petsc_def split: prod.splits)

lemma CHKERRQ_cases:
  assumes "CHKERRQ st rest w = (e, w')"
  obtains (stop) "st w = (e, w')" "e \<noteq> 0"
        | (go) w1 where "st w = (0, w1)" "rest w1 = (e, w')"
  using assms by (auto simp: CHKERRQ_def split: prod.splits if_splits)

lemma solveTimeStep_calls:
  assumes "solveTimeStep X macro asm t w = (e, w')"
  shows "\<exists>ys. calls w' = calls (asm t w) @ ys \<and> prefix ys (stepCalls macro t)
           \<and> (e = 0 \<longrightarrow> ys = stepCalls macro t) \<and> (e \<noteq> 0 \<longrightarrow> ys \<noteq> [] \<and> fallible (last ys))"
  using assms
  unfolding solveTimeStep_def stepCalls_def
  apply (cases macro)
   apply (auto elim!: CHKERRQ_cases dest!: petsc_calls simp: passingIndependentTermsArray_def passingSolutions_def)
  done

lemma timeLoop_calls:
  assumes "timeLoop X macro asm Nt t w = (e, w')"
    and "\<And>t w. calls (asm t w) = calls w @ asmC t"
  shows "\<exists>ys. calls w' = calls w @ ys \<and> prefix ys (loopCalls asmC macro t (nat (Nt - 1 - t)))
           \<and> (e = 0 \<longrightarrow> ys = loopCalls asmC macro t (nat (Nt - 1 - t)))
           \<and> (e \<noteq> 0 \<longrightarrow> ys \<noteq> [] \<and> fallible (last ys))"
  using assms
proof (induction X macro asm Nt t w rule: timeLoop.induct)
  case (1 X macro asm Nt t w)
  note asm = "1.prems"(2)
  show ?case
  proof (cases "t < Nt - 1")
    case False
    with "1.prems"(1) show ?thesis by (simp add: timeLoop.simps)
  next
    case True
    define n where "n = nat (Nt - 1 - (t + 1))"
    have n: "nat (Nt - 1 - t) = Suc n" "nat (Nt - 1 - (t + 1)) = n"
      using True by (simp_all add: n_def)
    obtain e1 w1 where b: "solveTimeStep X macro asm t w = (e1, w1)" by fastforce
    from solveTimeStep_calls[OF b] obtain ys where ys:
      "calls w1 = calls w @ asmC t @ ys" "prefix ys (stepCalls macro t)"
      "e1 = 0 \<longrightarrow> ys = stepCalls macro t" "e1 \<noteq> 0 \<longrightarrow> ys \<noteq> [] \<and> fallible (last ys)"
      unfolding asm by auto
    show ?thesis
    proof (cases "e1 = 0")
      case False
      with True b "1.prems"(1) have "e = e1" "w' = w1" by (simp_all add: timeLoop.simps)
      with ys False n show ?thesis by auto
    next
      case e1: True
      with True b "1.prems"(1) have r: "timeLoop X macro asm Nt (t + 1) w1 = (e, w')"
        by (simp add: timeLoop.simps)
      have ne: "\<not> e1 \<noteq> 0" using e1 by simp
      from "1.IH"[OF True b[symmetric] ne r asm] obtain zs where zs:
        "calls w' = calls w1 @ zs" "prefix zs (loopCalls asmC macro (t + 1) n)"
        "e = 0 \<longrightarrow> zs = loopCalls asmC macro (t + 1) n"
        "e \<noteq> 0 \<longrightarrow> zs \<noteq> [] \<and> fallible (last zs)"
        unfolding n by auto
      from ys e1 have ysf: "ys = stepCalls macro t" by simp
      have "calls w' = calls w @ (asmC t @ stepCalls macro t @ zs)"
        using zs(1) ys(1) ysf by simp
      moreover have "prefix (asmC t @ stepCalls macro t @ zs) (loopCalls asmC macro t (Suc n))"
        using zs(2) by simp
      moreover have "e = 0 \<longrightarrow> asmC t @ stepCalls macro t @ zs = loopCalls asmC macro t (Suc n)"
        using zs(3) by simp
      moreover have "e \<noteq> 0 \<longrightarrow> asmC t @ stepCalls macro t @ zs \<noteq> []
          \<and> fallible (last (asmC t @ stepCalls macro t @ zs))"
        using zs(4) by simp
      ultimately show ?thesis unfolding n by blast
    qed
  qed
qed

lemma linearSystemSolution_calls:
  assumes "linearSystemSolution X macro asm Nt post w = (e, w')"
    and "\<And>t w. calls (asm t w) = calls w @ asmC t"
  shows "\<exists>ys. calls w' = calls w @ CoefficientsMatrixLUFactorization # ys
           \<and> prefix ys ([CreatePETScArrays, ZeroPETScArrays]
                          @ loopCalls asmC macro 0 (nat (Nt - 1)) @ post)
           \<and> (e = 0 \<longrightarrow> ys = [CreatePETScArrays, ZeroPETScArrays]
                          @ loopCalls asmC macro 0 (nat (Nt - 1)) @ post)
           \<and> (e \<noteq> 0 \<longrightarrow> fallible (last (CoefficientsMatrixLUFactorization # ys)))"
  using assms(1) unfolding linearSystemSolution_def
proof (cases rule: CHKERRQ_cases)
  case stop
  from petsc_calls[OF stop(1)] stop(2) show ?thesis by simp
next
  case (go w1)
  note c1 = petsc_calls[OF go(1)]
  from go(2) show ?thesis
  proof (cases rule: CHKERRQ_cases)
    case stop
    from petsc_calls[OF stop(1)] stop(2) c1 show ?thesis by simp
  next
    case (go w2)
    note c2 = petsc_calls[OF go(1)]
    from go(2) show ?thesis
    proof (cases rule: CHKERRQ_cases)
      case stop
      from petsc_calls[OF stop(1)] stop(2) c1 c2 show ?thesis by simp
    next
      case (go w3)
      note c3 = petsc_calls[OF go(1)]
      from go(2) show ?thesis
      proof (cases rule: CHKERRQ_cases)
        case stop
        from timeLoop_calls[OF stop(1) assms(2)] stop(2) obtain ys where
          ys: "calls w' = calls w3 @ ys" "prefix ys (loopCalls asmC macro 0 (nat (Nt - 1)))"
            "ys \<noteq> []" "fallible (last ys)" by auto
        have "calls w' = calls w @ CoefficientsMatrixLUFactorization
                # ([CreatePETScArrays, ZeroPETScArrays] @ ys)"
          using ys(1) c1 c2 c3 by simp
        moreover have "prefix ([CreatePETScArrays, ZeroPETScArrays] @ ys)
            ([CreatePETScArrays, ZeroPETScArrays] @ loopCalls asmC macro 0 (nat (Nt - 1)) @ post)"
          using ys(2) by simp
        moreover have "fallible (last (CoefficientsMatrixLUFactorization
                # ([CreatePETScArrays, ZeroPETScArrays] @ ys)))"
          using ys(3,4) by simp
        ultimately show ?thesis using stop(2) by blast
      next
        case (go w4)
        from timeLoop_calls[OF go(1) assms(2)] have
          ys: "calls w4 = calls w3 @ loopCalls asmC macro 0 (nat (Nt - 1))" by auto
        from go(2) have "e = 0" "calls w' = calls w4 @ post" by auto
        with ys c1 c2 c3 show ?thesis by simp
      qed
    qed
  qed
qed


lemmas terms_defs = baseTerms_def mandelTerms_def stripfootTerms_def macroTerms_def
  macroStripfootTerms_def assemble_def

lemma linearSystemSolution_shape:
  assumes "linearSystemSolution X macro asm Nt post w = (e, w')"
    and "\<And>t w. calls (asm t w) = calls w @ asmC t"
    and "calls w = pre"
  shows "runShape pre asmC macro Nt post e (calls w')"
  using linearSystemSolution_calls[OF assms(1,2)] assms(3) unfolding runShape_def by simp

lemma setupCall_simps2:
  "setupCall c \<Longrightarrow> c \<noteq> CoefficientsMatrixLUFactorization \<and> \<not> timeLoopCall c
     \<and> c \<noteq> SolveLinearSystem \<and> c \<noteq> SetRHSValue \<and> c \<noteq> PassingSolutions"
  by (cases c) simp_all

lemma rhsAssemblyCall_simps2:
  "rhsAssemblyCall c \<Longrightarrow> c \<noteq> CoefficientsMatrixLUFactorization
     \<and> c \<noteq> SolveLinearSystem \<and> c \<noteq> SetRHSValue \<and> c \<noteq> PassingSolutions"
  by (cases c) simp_all

lemma dataCall_simps2:
  "dataCall c \<Longrightarrow> c \<noteq> CoefficientsMatrixLUFactorization
     \<and> c \<noteq> SolveLinearSystem \<and> c \<noteq> SetRHSValue \<and> c \<noteq> PassingSolutions"
  by (cases c) simp_all

lemma loopCalls_no_LU:
  assumes "\<forall>t. list_all rhsAssemblyCall (asmC t)"
  shows "CoefficientsMatrixLUFactorization \<notin> set (loopCalls asmC macro t n)"
proof (induction n arbitrary: t)
  case 0
  show ?case by simp
next
  case (Suc n)
  have "CoefficientsMatrixLUFactorization \<notin> set (asmC t)"
    using assms rhsAssemblyCall_simps2 by (auto simp: list_all_iff)
  with Suc show ?case by (simp add: stepCalls_def)
qed

lemma loopCalls_count_solve:
  assumes "\<forall>t. list_all rhsAssemblyCall (asmC t)"
  shows "count_list (loopCalls asmC macro t n) SolveLinearSystem = n"
proof (induction n arbitrary: t)
  case 0
  show ?case by simp
next
  case (Suc n)
  have "SolveLinearSystem \<notin> set (asmC t)"
    using assms rhsAssemblyCall_simps2 by (auto simp: list_all_iff)
  then have "count_list (asmC t) SolveLinearSystem = 0" by (simp add: count_list_0_iff)
  with Suc show ?case by (simp add: stepCalls_def)
qed

lemma count_list_zero_if: "(\<And>c. c \<in> set xs \<Longrightarrow> c \<noteq> x) \<Longrightarrow> count_list xs x = 0"
  by (auto simp: count_list_0_iff)

lemma runShape_factorized_once:
  assumes "runShape pre asmC macro Nt post e tr" and "partsOK pre asmC post"
  shows "\<exists>ys. tr = pre @ CoefficientsMatrixLUFactorization # ys
           \<and> CoefficientsMatrixLUFactorization \<notin> set pre
           \<and> (\<forall>c\<in>set pre. \<not> timeLoopCall c)
           \<and> CoefficientsMatrixLUFactorization \<notin> set ys"
proof -
  from assms(1) obtain ys where ys: "tr = pre @ CoefficientsMatrixLUFactorization # ys"
    "prefix ys ([CreatePETScArrays, ZeroPETScArrays]
                       @ loopCalls asmC macro 0 (nat (Nt - 1)) @ post)"
    unfolding runShape_def by blast
  from assms(2) have pre: "\<And>c. c \<in> set pre \<Longrightarrow> setupCall c"
    and asm: "\<forall>t. list_all rhsAssemblyCall (asmC t)"
    and post: "\<And>c. c \<in> set post \<Longrightarrow> dataCall c"
    by (auto simp: partsOK_def list_all_iff)
  have "CoefficientsMatrixLUFactorization \<notin> set post"
    using post dataCall_simps2 by blast
  then have "CoefficientsMatrixLUFactorization \<notin> set ([CreatePETScArrays, ZeroPETScArrays]
                       @ loopCalls asmC macro 0 (nat (Nt - 1)) @ post)"
    using loopCalls_no_LU[OF asm] by simp
  with ys(2) have "CoefficientsMatrixLUFactorization \<notin> set ys"
    using set_mono_prefix by blast
  moreover have "CoefficientsMatrixLUFactorization \<notin> set pre" "\<forall>c\<in>set pre. \<not> timeLoopCall c"
    using pre setupCall_simps2 by blast+
  ultimately show ?thesis using ys(1) by blast
qed

lemma runShape_solves:
  assumes "runShape pre asmC macro Nt post 0 tr" and "partsOK pre asmC post"
  shows "count_list tr SolveLinearSystem = nat (Nt - 1)"
proof -
  from assms(1) have tr: "tr = pre @ CoefficientsMatrixLUFactorization #
     [CreatePETScArrays, ZeroPETScArrays] @ loopCalls asmC macro 0 (nat (Nt - 1)) @ post"
    unfolding runShape_def by auto
  from assms(2) have pre: "\<And>c. c \<in> set pre \<Longrightarrow> setupCall c"
    and asm: "\<forall>t. list_all rhsAssemblyCall (asmC t)"
    and post: "\<And>c. c \<in> set post \<Longrightarrow> dataCall c"
    by (auto simp: partsOK_def list_all_iff)
  have "count_list pre SolveLinearSystem = 0" "count_list post SolveLinearSystem = 0"
    using pre post setupCall_simps2 dataCall_simps2 by (auto intro!: count_list_zero_if)
  then show ?thesis
    unfolding tr by (simp add: loopCalls_count_solve[OF asm])
qed


lemma sealedColumn_shape:
  assumes "sealedColumn X gridType interpScheme Nt meshSize Lt g sigmab myProperties = (e, w')"
    and "myGrid = new_gridDesign (GP X) (meshSize) (6 * meshSize) Nt 1 6 Lt gridType
           [[1, 6], [0, 6], [0, 0], [1, 0]]"
    and "problemArgs = [grid_dx myGrid, grid_dy myGrid, permeability myProperties,
           porosity myProperties, solidDensity myProperties, 1 / solidBulkModulus myProperties,
           fluidViscosity myProperties, fluidDensity myProperties,
           1 / fluidBulkModulus myProperties, shearModulus myProperties,
           bulkModulus myProperties - 2 * shearModulus myProperties / 3, sigmab, 1, 6]"
    and "myProblem = applySealedColumnInitialConditions (GP X)
           (new_problemParameters (GP X) problemArgs (grid_uDisplacementField myGrid)
              (grid_vDisplacementField myGrid) (grid_pressureField myGrid) myGrid g)"
    and "scalars = [grid_dx myGrid, grid_dy myGrid, grid_dt myGrid, shearModulus myProperties,
           bulkModulus myProperties - 2 * shearModulus myProperties / 3, pp_alpha myProblem,
           permeability myProperties, fluidViscosity myProperties, pp_Q myProblem,
           porosity myProperties * fluidDensity myProperties
             + (1 - porosity myProperties) * solidDensity myProperties, g]"
  shows "runShape
     [GridDesign (meshSize) (6 * meshSize) Nt 1 6 Lt gridType [[1, 6], [0, 6], [0, 0], [1, 0]],
      ProblemParameters problemArgs g, ApplySealedColumnInitialConditions,
      CoefficientsAssembly sealedColumn_bcType gridType interpScheme,
      AssemblyCoefficientsMatrix scalars,
      IndependentTermsAssembly sealedColumn_bcType
        (sealedColumn_bcValue sigmab (fluidDensity myProperties) g) gridType interpScheme,
      LinearSystemSolver Nt]
     (\<lambda>t. [AssemblyIndependentTermsArray scalars t]) False Nt
     (DataProcessing ''dataProcessing'' #
      concat (map (\<lambda>t. [Export ''exportSealedColumnAnalyticalSolution'' t,
             Export ''exportSealedColumnNumericalSolution'' t])
        (sealedColumn_exportedTimeSteps Nt)))
     e (calls w')"
  using assms(1) unfolding sealedColumn_def Let_def
  by (rule linearSystemSolution_shape) (simp_all add: terms_defs assms(2-))

lemma terzaghi_shape:
  assumes "terzaghi X gridType interpScheme Nt meshSize Lt g sigmab myProperties = (e, w')"
    and "myGrid = new_gridDesign (GP X) (meshSize) (6 * meshSize) Nt 1 6 Lt gridType
           [[1, 6], [0, 6], [0, 0], [1, 0]]"
    and "problemArgs = [grid_dx myGrid, grid_dy myGrid, permeability myProperties,
           porosity myProperties, solidDensity myProperties, 1 / solidBulkModulus myProperties,
           fluidViscosity myProperties, fluidDensity myProperties,
           1 / fluidBulkModulus myProperties, shearModulus myProperties,
           bulkModulus myProperties - 2 * shearModulus myProperties / 3, sigmab, 1, 6]"
    and "myProblem = applyTerzaghiInitialConditions (GP X)
           (new_problemParameters (GP X) problemArgs (grid_uDisplacementField myGrid)
              (grid_vDisplacementField myGrid) (grid_pressureField myGrid) myGrid g)"
    and "scalars = [grid_dx myGrid, grid_dy myGrid, grid_dt myGrid, shearModulus myProperties,
           bulkModulus myProperties - 2 * shearModulus myProperties / 3, pp_alpha myProblem,
           permeability myProperties, fluidViscosity myProperties, pp_Q myProblem,
           porosity myProperties * fluidDensity myProperties
             + (1 - porosity myProperties) * solidDensity myProperties, g]"
  shows "runShape
     [GridDesign (meshSize) (6 * meshSize) Nt 1 6 Lt gridType [[1, 6], [0, 6], [0, 0], [1, 0]],
      ProblemParameters problemArgs g, ApplyTerzaghiInitialConditions,
      CoefficientsAssembly terzaghi_bcType gridType interpScheme,
      AssemblyCoefficientsMatrix scalars,
      IndependentTermsAssembly terzaghi_bcType
        (terzaghi_bcValue sigmab (fluidDensity myProperties) g) gridType interpScheme,
      LinearSystemSolver Nt]
     (\<lambda>t. [AssemblyIndependentTermsArray scalars t]) False Nt
     (DataProcessing ''dataProcessing'' #
      concat (map (\<lambda>t. [Export ''exportTerzaghiAnalyticalSolution'' t,
             Export ''exportTerzaghiNumericalSolution'' t])
        (terzaghi_exportedTimeSteps Nt)))
     e (calls w')"
  using assms(1) unfolding terzaghi_def Let_def
  by (rule linearSystemSolution_shape) (simp_all add: terms_defs assms(2-))

lemma mandel_shape:
  assumes "mandel X gridType interpScheme Nt meshSize Lt g forceb myProperties = (e, w')"
    and "myGrid = new_gridDesign (GP X) (5 * meshSize) (5 * meshSize) Nt 5 5 Lt gridType
           [[5, 5], [0, 5], [0, 0], [5, 0]]"
    and "problemArgs = [grid_dx myGrid, grid_dy myGrid, permeability myProperties,
           porosity myProperties, solidDensity myProperties, 1 / solidBulkModulus myProperties,
           fluidViscosity myProperties, fluidDensity myProperties,
           1 / fluidBulkModulus myProperties, shearModulus myProperties,
           bulkModulus myProperties - 2 * shearModulus myProperties / 3, forceb, 5, 5]"
    and "myProblem = applyMandelInitialConditions (GP X)
           (new_problemParameters (GP X) problemArgs (grid_uDisplacementField myGrid)
              (grid_vDisplacementField myGrid) (grid_pressureField myGrid) myGrid g)"
    and "scalars = [grid_dx myGrid, grid_dy myGrid, grid_dt myGrid, shearModulus myProperties,
           bulkModulus myProperties - 2 * shearModulus myProperties / 3, pp_alpha myProblem,
           permeability myProperties, fluidViscosity myProperties, pp_Q myProblem,
           porosity myProperties * fluidDensity myProperties
             + (1 - porosity myProperties) * solidDensity myProperties, g]"
  shows "runShape
     [GridDesign (5 * meshSize) (5 * meshSize) Nt 5 5 Lt gridType [[5, 5], [0, 5], [0, 0], [5, 0]],
      ProblemParameters problemArgs g, ApplyMandelInitialConditions,
      CoefficientsAssembly mandel_bcType gridType interpScheme,
      AssemblyCoefficientsMatrix scalars,
      AssemblyMandelCoefficientsMatrix [grid_dx myGrid, grid_dy myGrid, shearModulus myProperties,
        bulkModulus myProperties - 2 * shearModulus myProperties / 3, pp_alpha myProblem],
      AssemblySparseMatrix,
      IndependentTermsAssembly mandel_bcType
        (mandel_bcValue forceb (fluidDensity myProperties) g) gridType interpScheme,
      LinearSystemSolver Nt, IncreaseMandelIndependentTermsArray]
     (\<lambda>t. [AssemblyIndependentTermsArray scalars t,
        AssemblyMandelIndependentTermsArray forceb 5]) False Nt
     (DataProcessing ''dataProcessing'' #
      DataProcessing ''findMandelRoots'' #
      concat (map (\<lambda>t. [Export ''exportMandelAnalyticalSolution'' t,
             Export ''exportMandelNumericalSolution'' t])
        (mandel_exportedTimeSteps Nt)))
     e (calls w')"
  using assms(1) unfolding mandel_def Let_def
  by (rule linearSystemSolution_shape) (simp_all add: terms_defs assms(2-))

lemma convergence_shape:
  assumes "convergence X gridType interpScheme Nt meshSize Lt g sigmab myProperties = (e, w')"
    and "myGrid = new_gridDesign (GP X) (meshSize) (6 * meshSize) Nt 1 6 Lt gridType
           [[1, 6], [0, 6], [0, 0], [1, 0]]"
    and "problemArgs = [grid_dx myGrid, grid_dy myGrid, permeability myProperties,
           porosity myProperties, solidDensity myProperties, 1 / solidBulkModulus myProperties,
           fluidViscosity myProperties, fluidDensity myProperties,
           1 / fluidBulkModulus myProperties, shearModulus myProperties,
           bulkModulus myProperties - 2 * shearModulus myProperties / 3, sigmab, 1, 6]"
    and "myProblem = applyTerzaghiInitialConditions (GP X)
           (new_problemParameters (GP X) problemArgs (grid_uDisplacementField myGrid)
              (grid_vDisplacementField myGrid) (grid_pressureField myGrid) myGrid g)"
    and "scalars = [grid_dx myGrid, grid_dy myGrid, grid_dt myGrid, shearModulus myProperties,
           bulkModulus myProperties - 2 * shearModulus myProperties / 3, pp_alpha myProblem,
           permeability myProperties, fluidViscosity myProperties, pp_Q myProblem,
           porosity myProperties * fluidDensity myProperties
             + (1 - porosity myProperties) * solidDensity myProperties, g]"
  shows "runShape
     [GridDesign (meshSize) (6 * meshSize) Nt 1 6 Lt gridType [[1, 6], [0, 6], [0, 0], [1, 0]],
      ProblemParameters problemArgs g, ApplyTerzaghiInitialConditions,
      CoefficientsAssembly convergence_bcType gridType interpScheme,
      AssemblyCoefficientsMatrix scalars,
      IndependentTermsAssembly convergence_bcType
        (convergence_bcValue sigmab (fluidDensity myProperties) g) gridType interpScheme,
      LinearSystemSolver Nt]
     (\<lambda>t. [AssemblyIndependentTermsArray scalars t]) False Nt
     ([DataProcessing ''dataProcessing'', DataProcessing ''getTerzaghiErrorNorm''])
     e (calls w')"
  using assms(1) unfolding convergence_def Let_def
  by (rule linearSystemSolution_shape) (simp_all add: terms_defs assms(2-))

lemma stripfoot_shape:
  assumes "stripfoot X gridType interpScheme Nt meshSize Lt g sigmab myProperties = (e, w')"
    and "myGrid = new_gridDesign (GP X) (5 * meshSize) (5 * meshSize) Nt 5 5 Lt gridType
           [[5, 5], [0, 5], [0, 0], [5, 0]]"
    and "problemArgs = [grid_dx myGrid, grid_dy myGrid, permeability myProperties,
           porosity myProperties, solidDensity myProperties, 1 / solidBulkModulus myProperties,
           fluidViscosity myProperties, fluidDensity myProperties,
           1 / fluidBulkModulus myProperties, shearModulus myProperties,
           bulkModulus myProperties - 2 * shearModulus myProperties / 3, sigmab, 5, 5]"
    and "myProblem = applyTerzaghiInitialConditions (GP X)
           (new_problemParameters (GP X) problemArgs (grid_uDisplacementField myGrid)
              (grid_vDisplacementField myGrid) (grid_pressureField myGrid) myGrid g)"
    and "scalars = [grid_dx myGrid, grid_dy myGrid, grid_dt myGrid, shearModulus myProperties,
           bulkModulus myProperties - 2 * shearModulus myProperties / 3, pp_alpha myProblem,
           permeability myProperties, fluidViscosity myProperties, pp_Q myProblem,
           porosity myProperties * fluidDensity myProperties
             + (1 - porosity myProperties) * solidDensity myProperties, g]"
  shows "runShape
     [GridDesign (5 * meshSize) (5 * meshSize) Nt 5 5 Lt gridType [[5, 5], [0, 5], [0, 0], [5, 0]],
      ProblemParameters problemArgs g, ApplyTerzaghiInitialConditions,
      CoefficientsAssembly stripfoot_bcType gridType interpScheme,
      AssemblyCoefficientsMatrix scalars,
      CoefficientsAddStripfootBC meshSize (permeability myProperties) (fluidViscosity myProperties),
      IndependentTermsAssembly stripfoot_bcType
        (stripfoot_bcValue sigmab (fluidDensity myProperties) g) gridType interpScheme,
      LinearSystemSolver Nt]
     (\<lambda>t. [AssemblyIndependentTermsArray scalars t,
        IndependentTermsAddStripfootBC meshSize (grid_dx myGrid) sigmab]) False Nt
     (DataProcessing ''dataProcessing'' #
      concat (map (\<lambda>t. [Export ''exportStripfootTSolution'' t,
             Export ''exportStripfootHSolution'' t])
        (stripfoot_exportedTimeSteps Nt)))
     e (calls w')"
  using assms(1) unfolding stripfoot_def Let_def
  by (rule linearSystemSolution_shape) (simp_all add: terms_defs assms(2-))

lemma terzaghiDouble_shape:
  assumes "terzaghiDouble X gridType interpScheme Nt meshSize Lt g sigmab myProperties = (e, w')"
    and "myGrid = new_gridDesign (GP X) (meshSize) (6 * meshSize) Nt 1 6 Lt gridType
           [[1, 6], [0, 6], [0, 0], [1, 0]]"
    and "problemArgs = [porosity myProperties, macroPorosity myProperties,
           1 / fluidBulkModulus myProperties, 1 / solidBulkModulus myProperties,
           shearModulus myProperties, bulkModulus myProperties - 2 * shearModulus myProperties / 3,
           fluidViscosity myProperties, permeability myProperties, macroPermeability myProperties, sigmab]"
    and "myProblem = new_problemDoubleParameters (GP X) problemArgs myGrid"
    and "S12 = pd_S12 myProblem"
    and "operator = [grid_dx myGrid, grid_dy myGrid, grid_dt myGrid, shearModulus myProperties,
           bulkModulus myProperties - 2 * shearModulus myProperties / 3, pd_alpha myProblem,
           permeability myProperties, macroPermeability myProperties, fluidViscosity myProperties,
           pd_S11 myProblem, S12, pd_S22 myProblem, pd_psiPore myProblem, pd_psiFrac myProblem,
           computeLeakTerm (GP X) myProblem 11]"
    and "scalars = [grid_dx myGrid, grid_dy myGrid, grid_dt myGrid, shearModulus myProperties,
           bulkModulus myProperties - 2 * shearModulus myProperties / 3, pd_alpha myProblem,
           permeability myProperties, fluidViscosity myProperties, pd_S11 myProblem, 0, 0]"
    and "macroScalars = [porosity myProperties, macroPorosity myProperties,
           macroPermeability myProperties, S12, pd_S22 myProblem]"
  shows "runShape
     [GridDesign (meshSize) (6 * meshSize) Nt 1 6 Lt gridType [[1, 6], [0, 6], [0, 0], [1, 0]],
      ProblemDoubleParameters problemArgs, ComputeLeakTerm 11,
      CoefficientsAssembly terzaghiDouble_bcType gridType interpScheme,
      AssemblyDoublePorosityMatrix operator,
      IndependentTermsAssembly terzaghiDouble_bcType (terzaghiDouble_bcValue sigmab) gridType interpScheme,
      LinearSystemSolver Nt, IncreaseMacroIndependentTermsArray, CreateMacroPressureField]
     (\<lambda>t. [AssemblyMacroIndependentTermsArray scalars t macroScalars]) True Nt
     (DataProcessing ''dataProcessing'' #
      DataProcessing ''storeMacroPressure3DField'' #
      concat (map (\<lambda>t. [Export ''exportTerzaghiAnalyticalSolution'' t,
             Export ''exportMacroPressureHSolution'' t,
             Export ''exportMacroPressureTSolution'' t])
        (terzaghiDouble_exportedTimeSteps Nt)))
     e (calls w')"
  using assms(1) unfolding terzaghiDouble_def Let_def
  by (rule linearSystemSolution_shape) (simp_all add: terms_defs assms(2-))

lemma stripfootDouble_shape:
  assumes "stripfootDouble X gridType interpScheme Nt meshSize Lt g sigmab myProperties = (e, w')"
    and "myGrid = new_gridDesign (GP X) (5 * meshSize) (5 * meshSize) Nt 5 5 Lt gridType
           [[5, 5], [0, 5], [0, 0], [5, 0]]"
    and "problemArgs = [porosity myProperties, macroPorosity myProperties,
           1 / fluidBulkModulus myProperties, 1 / solidBulkModulus myProperties,
           shearModulus myProperties, bulkModulus myProperties - 2 * shearModulus myProperties / 3,
           fluidViscosity myProperties, permeability myProperties, macroPermeability myProperties, sigmab]"
    and "myProblem = new_problemDoubleParameters (GP X) problemArgs myGrid"
    and "S12 = pd_S12 myProblem"
    and "operator = [grid_dx myGrid, grid_dy myGrid, grid_dt myGrid, shearModulus myProperties,
           bulkModulus myProperties - 2 * shearModulus myProperties / 3, pd_alpha myProblem,
           permeability myProperties, macroPermeability myProperties, fluidViscosity myProperties,
           pd_S11 myProblem, S12, pd_S22 myProblem, pd_psiPore myProblem, pd_psiFrac myProblem,
           computeLeakTerm (GP X) myProblem 11]"
    and "scalars = [grid_dx myGrid, grid_dy myGrid, grid_dt myGrid, shearModulus myProperties,
           bulkModulus myProperties - 2 * shearModulus myProperties / 3, pd_alpha myProblem,
           permeability myProperties, fluidViscosity myProperties, pd_S11 myProblem, 0, 0]"
    and "macroScalars = [porosity myProperties, macroPorosity myProperties,
           macroPermeability myProperties, S12, pd_S22 myProblem]"
  shows "runShape
     [GridDesign (5 * meshSize) (5 * meshSize) Nt 5 5 Lt gridType [[5, 5], [0, 5], [0, 0], [5, 0]],
      ProblemDoubleParameters problemArgs, ComputeLeakTerm 11,
      CoefficientsAssembly stripfootDouble_bcType gridType interpScheme,
      AssemblyDoublePorosityMatrix operator,
      CoefficientsAddStripfootBC meshSize (permeability myProperties) (fluidViscosity myProperties),
      CoefficientsAddMacroStripfootBC meshSize (macroPermeability myProperties)
        (fluidViscosity myProperties),
      IndependentTermsAssembly stripfootDouble_bcType (stripfootDouble_bcValue sigmab) gridType interpScheme,
      LinearSystemSolver Nt, IncreaseMacroIndependentTermsArray, CreateMacroPressureField]
     (\<lambda>t. [AssemblyMacroIndependentTermsArray scalars t macroScalars,
        IndependentTermsAddStripfootBC meshSize (grid_dx myGrid) sigmab,
        IndependentTermsAddMacroStripfootBC meshSize (grid_dx myGrid) sigmab]) True Nt
     (DataProcessing ''dataProcessing'' #
      DataProcessing ''storeMacroPressure3DField'' #
      concat (map (\<lambda>t. [Export ''exportStripfootTSolution'' t,
             Export ''exportStripfootHSolution'' t])
        (stripfootDouble_exportedTimeSteps Nt)))
     e (calls w')"
  using assms(1) unfolding stripfootDouble_def Let_def
  by (rule linearSystemSolution_shape) (simp_all add: terms_defs assms(2-))

lemma sealedDouble_shape:
  assumes "sealedDouble X gridType interpScheme Nt meshSize Lt g sigmab myProperties = (e, w')"
    and "myGrid = new_gridDesign (GP X) (meshSize) (6 * meshSize) Nt 1 6 Lt gridType
           [[1, 6], [0, 6], [0, 0], [1, 0]]"
    and "problemArgs = [porosity myProperties, macroPorosity myProperties,
           1 / fluidBulkModulus myProperties, 1 / solidBulkModulus myProperties,
           shearModulus myProperties, bulkModulus myProperties - 2 * shearModulus myProperties / 3,
           fluidViscosity myProperties, permeability myProperties, macroPermeability myProperties, sigmab]"
    and "myProblem = new_problemDoubleParameters (GP X) problemArgs myGrid"
    and "S12 = pd_S12 myProblem"
    and "operator = [grid_dx myGrid, grid_dy myGrid, grid_dt myGrid, shearModulus myProperties,
           bulkModulus myProperties - 2 * shearModulus myProperties / 3, pd_alpha myProblem,
           permeability myProperties, macroPermeability myProperties, fluidViscosity myProperties,
           pd_S11 myProblem, S12, pd_S22 myProblem, pd_psiPore myProblem, pd_psiFrac myProblem,
           computeLeakTerm (GP X) myProblem 11]"
    and "scalars = [grid_dx myGrid, grid_dy myGrid, grid_dt myGrid, shearModulus myProperties,
           bulkModulus myProperties - 2 * shearModulus myProperties / 3, pd_alpha myProblem,
           permeability myProperties, fluidViscosity myProperties, pd_S11 myProblem, 0, 0]"
    and "macroScalars = [porosity myProperties, macroPorosity myProperties,
           macroPermeability myProperties, S12, pd_S22 myProblem]"
  shows "runShape
     [GridDesign (meshSize) (6 * meshSize) Nt 1 6 Lt gridType [[1, 6], [0, 6], [0, 0], [1, 0]],
      ProblemDoubleParameters problemArgs, ComputeLeakTerm 11,
      CoefficientsAssembly sealedDouble_bcType gridType interpScheme,
      AssemblyDoublePorosityMatrix operator,
      IndependentTermsAssembly sealedDouble_bcType (sealedDouble_bcValue sigmab) gridType interpScheme,
      LinearSystemSolver Nt, IncreaseMacroIndependentTermsArray, CreateMacroPressureField]
     (\<lambda>t. [AssemblyMacroIndependentTermsArray scalars t macroScalars]) True Nt
     (DataProcessing ''doubleDataProcessing'' #
      DataProcessing ''storeMacroPressure3DField'' #
      concat (map (\<lambda>t. [Export ''exportSealedDoubleAnalyticalSolution'' t,
             Export ''exportSealedDoubleNumericalSolution'' t])
        (sealedDouble_exportedTimeSteps Nt)))
     e (calls w')"
  using assms(1) unfolding sealedDouble_def Let_def
  by (rule linearSystemSolution_shape) (simp_all add: terms_defs assms(2-))

lemma storageDouble_shape:
  assumes "storageDouble X gridType interpScheme Nt meshSize Lt g sigmab myProperties = (e, w')"
    and "myGrid = new_gridDesign (GP X) (meshSize) (6 * meshSize) Nt 1 6 Lt gridType
           [[1, 6], [0, 6], [0, 0], [1, 0]]"
    and "problemArgs = [porosity myProperties, macroPorosity myProperties,
           1 / fluidBulkModulus myProperties, 1 / solidBulkModulus myProperties,
           shearModulus myProperties, bulkModulus myProperties - 2 * shearModulus myProperties / 3,
           fluidViscosity myProperties, permeability myProperties, macroPermeability myProperties, sigmab]"
    and "myProblem = applyDoublePoreInitialConditions (GP X) (grid_dy myGrid) 6
           (grid_vDisplacementField myGrid) (grid_pressureField myGrid) (grid_pressureField myGrid)
           (new_problemDoubleParameters (GP X) problemArgs myGrid)"
    and "S12 = pd_S12 myProblem"
    and "operator = [grid_dx myGrid, grid_dy myGrid, grid_dt myGrid, shearModulus myProperties,
           bulkModulus myProperties - 2 * shearModulus myProperties / 3, pd_alpha myProblem,
           permeability myProperties, macroPermeability myProperties, fluidViscosity myProperties,
           pd_S11 myProblem, S12, pd_S22 myProblem, pd_psiPore myProblem, pd_psiFrac myProblem,
           computeLeakTerm (GP X) myProblem 0]"
    and "scalars = [grid_dx myGrid, grid_dy myGrid, grid_dt myGrid, shearModulus myProperties,
           bulkModulus myProperties - 2 * shearModulus myProperties / 3, pd_alpha myProblem,
           permeability myProperties, fluidViscosity myProperties, pd_S11 myProblem, 0, 0]"
    and "macroScalars = [porosity myProperties, macroPorosity myProperties,
           macroPermeability myProperties, S12, pd_S22 myProblem]"
  shows "runShape
     [GridDesign (meshSize) (6 * meshSize) Nt 1 6 Lt gridType [[1, 6], [0, 6], [0, 0], [1, 0]],
      ProblemDoubleParameters problemArgs, ApplyDoublePoreInitialConditions (grid_dy myGrid) 6, ComputeLeakTerm 0,
      CoefficientsAssembly storageDouble_bcType gridType interpScheme,
      AssemblyDoublePorosityMatrix operator,
      IndependentTermsAssembly storageDouble_bcType (storageDouble_bcValue sigmab) gridType interpScheme,
      LinearSystemSolver Nt, IncreaseMacroIndependentTermsArray, CreateMacroPressureField]
     (\<lambda>t. [AssemblyMacroIndependentTermsArray scalars t macroScalars]) True Nt
     (DataProcessing ''doubleDataProcessing'' #
      DataProcessing ''storeMacroPressure3DField'' #
      concat (map (\<lambda>t. [Export ''exportDrainedDoubleNumericalSolution'' t,
             Export ''exportStorageAnalyticalSolution'' t])
        (storageDouble_exportedTimeSteps Nt)))
     e (calls w')"
  using assms(1) unfolding storageDouble_def Let_def
  by (rule linearSystemSolution_shape) (simp_all add: terms_defs assms(2-))

lemma leakingDouble_shape:
  assumes "leakingDouble X gridType interpScheme Nt meshSize Lt g sigmab myProperties = (e, w')"
    and "myGrid = new_gridDesign (GP X) (meshSize) (6 * meshSize) Nt 1 6 Lt gridType
           [[1, 6], [0, 6], [0, 0], [1, 0]]"
    and "problemArgs = [porosity myProperties, macroPorosity myProperties,
           1 / fluidBulkModulus myProperties, 1 / solidBulkModulus myProperties,
           shearModulus myProperties, bulkModulus myProperties - 2 * shearModulus myProperties / 3,
           fluidViscosity myProperties, permeability myProperties, macroPermeability myProperties, sigmab]"
    and "myProblem = applyDoublePoreInitialConditions (GP X) (grid_dy myGrid) 6
           (grid_vDisplacementField myGrid) (grid_pressureField myGrid) (grid_pressureField myGrid)
           (new_problemDoubleParameters (GP X) problemArgs myGrid)"
    and "S12 = - pd_psiPore myProblem * pd_alpha myProblem * pd_psiFrac myProblem * pd_alpha myProblem
           / (2 * shearModulus myProperties + (bulkModulus myProperties - 2 * shearModulus myProperties / 3))"
    and "operator = [grid_dx myGrid, grid_dy myGrid, grid_dt myGrid, shearModulus myProperties,
           bulkModulus myProperties - 2 * shearModulus myProperties / 3, pd_alpha myProblem,
           permeability myProperties, macroPermeability myProperties, fluidViscosity myProperties,
           pd_S11 myProblem, S12, pd_S22 myProblem, pd_psiPore myProblem, pd_psiFrac myProblem,
           computeLeakTerm (GP X) myProblem 11]"
    and "scalars = [grid_dx myGrid, grid_dy myGrid, grid_dt myGrid, shearModulus myProperties,
           bulkModulus myProperties - 2 * shearModulus myProperties / 3, pd_alpha myProblem,
           permeability myProperties, fluidViscosity myProperties, pd_S11 myProblem, 0, 0]"
    and "macroScalars = [porosity myProperties, macroPorosity myProperties,
           macroPermeability myProperties, S12, pd_S22 myProblem]"
  shows "runShape
     [GridDesign (meshSize) (6 * meshSize) Nt 1 6 Lt gridType [[1, 6], [0, 6], [0, 0], [1, 0]],
      ProblemDoubleParameters problemArgs, ApplyDoublePoreInitialConditions (grid_dy myGrid) 6, ComputeLeakTerm 11,
      CoefficientsAssembly leakingDouble_bcType gridType interpScheme,
      AssemblyDoublePorosityMatrix operator,
      IndependentTermsAssembly leakingDouble_bcType (leakingDouble_bcValue sigmab) gridType interpScheme,
      LinearSystemSolver Nt, IncreaseMacroIndependentTermsArray, CreateMacroPressureField]
     (\<lambda>t. [AssemblyMacroIndependentTermsArray scalars t macroScalars]) True Nt
     (DataProcessing ''doubleDataProcessing'' #
      DataProcessing ''storeMacroPressure3DField'' #
      concat (map (\<lambda>t. [Export ''exportDrainedDoubleNumericalSolution'' t,
             Export ''exportLeakingAnalyticalSolution'' t])
        (leakingDouble_exportedTimeSteps Nt)))
     e (calls w')"
  using assms(1) unfolding leakingDouble_def Let_def
  by (rule linearSystemSolution_shape) (simp_all add: terms_defs assms(2-))


lemma shapeI:
  "runShape pre asmC macro Nt post e tr \<Longrightarrow> partsOK pre asmC post
    \<Longrightarrow> \<exists>pre asmC macro post. runShape pre asmC macro Nt post e tr \<and> partsOK pre asmC post"
  by blast

lemma driver_shape:
  assumes "driver b X gridType interpScheme Nt meshSize Lt g sigmab myProperties = (e, w')"
  shows "\<exists>pre asmC macro post. runShape pre asmC macro Nt post e (calls w')
           \<and> partsOK pre asmC post"
proof (cases b)
  case SealedColumn
  with assms have r: "sealedColumn X gridType interpScheme Nt meshSize Lt g sigmab myProperties = (e, w')"
    by simp
  show ?thesis
    by (rule shapeI[OF sealedColumn_shape[OF r refl refl refl refl]])
       (auto simp: partsOK_def list_all_iff)
next
  case Terzaghi
  with assms have r: "terzaghi X gridType interpScheme Nt meshSize Lt g sigmab myProperties = (e, w')"
    by simp
  show ?thesis
    by (rule shapeI[OF terzaghi_shape[OF r refl refl refl refl]])
       (auto simp: partsOK_def list_all_iff)
next
  case Mandel
  with assms have r: "mandel X gridType interpScheme Nt meshSize Lt g sigmab myProperties = (e, w')"
    by simp
  show ?thesis
    by (rule shapeI[OF mandel_shape[OF r refl refl refl refl]])
       (auto simp: partsOK_def list_all_iff)
next
  case Convergence
  with assms have r: "convergence X gridType interpScheme Nt meshSize Lt g sigmab myProperties = (e, w')"
    by simp
  show ?thesis
    by (rule shapeI[OF convergence_shape[OF r refl refl refl refl]])
       (auto simp: partsOK_def list_all_iff)
next
  case Stripfoot
  with assms have r: "stripfoot X gridType interpScheme Nt meshSize Lt g sigmab myProperties = (e, w')"
    by simp
  show ?thesis
    by (rule shapeI[OF stripfoot_shape[OF r refl refl refl refl]])
       (auto simp: partsOK_def list_all_iff)
next
  case TerzaghiDouble
  with assms have r: "terzaghiDouble X gridType interpScheme Nt meshSize Lt g sigmab myProperties = (e, w')"
    by simp
  show ?thesis
    by (rule shapeI[OF terzaghiDouble_shape[OF r refl refl refl refl refl refl refl]])
       (auto simp: partsOK_def list_all_iff)
next
  case StripfootDouble
  with assms have r: "stripfootDouble X gridType interpScheme Nt meshSize Lt g sigmab myProperties = (e, w')"
    by simp
  show ?thesis
    by (rule shapeI[OF stripfootDouble_shape[OF r refl refl refl refl refl refl refl]])
       (auto simp: partsOK_def list_all_iff)
next
  case SealedDouble
  with assms have r: "sealedDouble X gridType interpScheme Nt meshSize Lt g sigmab myProperties = (e, w')"
    by simp
  show ?thesis
    by (rule shapeI[OF sealedDouble_shape[OF r refl refl refl refl refl refl refl]])
       (auto simp: partsOK_def list_all_iff)
next
  case StorageDouble
  with assms have r: "storageDouble X gridType interpScheme Nt meshSize Lt g sigmab myProperties = (e, w')"
    by simp
  show ?thesis
    by (rule shapeI[OF storageDouble_shape[OF r refl refl refl refl refl refl refl]])
       (auto simp: partsOK_def list_all_iff)
next
  case LeakingDouble
  with assms have r: "leakingDouble X gridType interpScheme Nt meshSize Lt g sigmab myProperties = (e, w')"
    by simp
  show ?thesis
    by (rule shapeI[OF leakingDouble_shape[OF r refl refl refl refl refl refl refl]])
       (auto simp: partsOK_def list_all_iff)
qed

lemma successively_prefix:
  "prefix xs ys \<Longrightarrow> successively P ys \<Longrightarrow> successively P xs"
  by (auto simp: prefix_def successively_append_iff)







lemmas trial_defs = trial_def trialSetup_def trialCoefficients_def trialIndependentTerms_def
  trialSolver_def trialGrid_def trialProperties_def gridDesign_spec_def

lemmas run_defs = linearSystemSolution_def CHKERRQ_def petsc_def solveTimeStep_def terms_defs
  passingIndependentTermsArray_def passingSolutions_def

lemma timeLoop_unfold:
  "timeStep < Nt - 1 \<Longrightarrow> timeLoop X macro assembly Nt timeStep w =
     (case solveTimeStep X macro assembly timeStep w of
              (ierr, w') \<Rightarrow> if ierr \<noteq> 0 then (ierr, w')
                            else timeLoop X macro assembly Nt (timeStep + 1) w')"
  "\<not> timeStep < Nt - 1 \<Longrightarrow> timeLoop X macro assembly Nt timeStep w = (0, w)"
  by (simp_all add: timeLoop.simps)

lemma trial_terzaghi_ierr:
  "fst (driver Terzaghi trial ''staggered'' ''NA'' 3 1 1 0 (- 10000) trialProperties) = 0"
  by (simp add: terzaghi_def Let_def run_defs trial_defs timeLoop_unfold)

subsection \<open>Factorization once, before the time loop\<close>

text \<open>
  In every driver and for every behaviour of the collaborators, the calls of a run
  contain \<^verbatim>\<open>coefficientsMatrixLUFactorization\<close> exactly once: no call of the time loop
  comes before it and it does not occur again after it. A run that returns the code zero
  with \<open>Nt \<ge> 1\<close> has called \<^verbatim>\<open>solveLinearSystem\<close> exactly \<open>Nt - 1\<close> times.
\<close>

lemma calls_factorized_once:
  assumes "driver b X gridType interpScheme Nt meshSize Lt g sigmab myProperties = (ierr, w)"
  shows "(\<exists>pre post. calls w = pre @ CoefficientsMatrixLUFactorization # post
            \<and> CoefficientsMatrixLUFactorization \<notin> set pre
            \<and> (\<forall>c\<in>set pre. \<not> timeLoopCall c)
            \<and> CoefficientsMatrixLUFactorization \<notin> set post)
         \<and> (ierr = 0 \<and> 1 \<le> Nt \<longrightarrow> int (count_list (calls w) SolveLinearSystem) = Nt - 1)"
proof -
  from driver_shape[OF assms] obtain pre asmC macro post where
    sh: "runShape pre asmC macro Nt post ierr (calls w)" and ok: "partsOK pre asmC post"
    by blast
  from runShape_factorized_once[OF sh ok] have "\<exists>pre post. calls w = pre @ CoefficientsMatrixLUFactorization # post
            \<and> CoefficientsMatrixLUFactorization \<notin> set pre
            \<and> (\<forall>c\<in>set pre. \<not> timeLoopCall c)
            \<and> CoefficientsMatrixLUFactorization \<notin> set post" by blast
  moreover have "ierr = 0 \<and> 1 \<le> Nt \<longrightarrow> int (count_list (calls w) SolveLinearSystem) = Nt - 1"
    using runShape_solves[OF _ ok, of macro Nt "calls w"] sh by auto
  ultimately show ?thesis by blast
qed

subsection \<open>Zeroing of the working buffers\<close>


lemma loopCalls_members:
  "c \<in> set (loopCalls asmC macro t n) \<Longrightarrow>
     (\<exists>t. c \<in> set (asmC t)) \<or> fallible c \<or> c = PassingIndependentTermsArray \<or> c = PassingSolutions"
proof (induction n arbitrary: t)
  case 0
  then show ?case by simp
next
  case (Suc n)
  then show ?case by (cases macro) (auto simp: stepCalls_def)
qed

lemma runShape_members:
  assumes "runShape pre asmC macro Nt post e tr" and "c \<in> set tr"
  shows "c \<in> set pre \<or> (\<exists>t. c \<in> set (asmC t)) \<or> fallible c
           \<or> c = PassingIndependentTermsArray \<or> c = PassingSolutions \<or> c \<in> set post"
proof -
  from assms(1) obtain ys where ys: "tr = pre @ CoefficientsMatrixLUFactorization # ys"
    "prefix ys ([CreatePETScArrays, ZeroPETScArrays]
                       @ loopCalls asmC macro 0 (nat (Nt - 1)) @ post)"
    unfolding runShape_def by blast
  from assms(2) ys(1) consider "c \<in> set pre" | "c = CoefficientsMatrixLUFactorization" | "c \<in> set ys"
    by auto
  then show ?thesis
  proof cases
    case 3
    with ys(2) have "c \<in> set ([CreatePETScArrays, ZeroPETScArrays]
                       @ loopCalls asmC macro 0 (nat (Nt - 1)) @ post)"
      using set_mono_prefix by blast
    then show ?thesis using loopCalls_members[of c asmC macro 0 "nat (Nt - 1)"] by auto
  qed auto
qed

lemma not_setupCall:
  "rhsAssemblyCall c \<Longrightarrow> \<not> setupCall c"
  "dataCall c \<Longrightarrow> \<not> setupCall c"
  "fallible c \<Longrightarrow> \<not> setupCall c"
  by (cases c; simp)+

lemma runShape_tail:
  assumes "runShape pre asmC macro Nt post e tr" and "partsOK pre asmC post"
  shows "\<exists>ys. tr = pre @ CoefficientsMatrixLUFactorization # ys \<and> (\<forall>c\<in>set ys. \<not> setupCall c)"
proof -
  from assms(1) obtain ys where ys: "tr = pre @ CoefficientsMatrixLUFactorization # ys"
    "prefix ys ([CreatePETScArrays, ZeroPETScArrays]
                       @ loopCalls asmC macro 0 (nat (Nt - 1)) @ post)"
    unfolding runShape_def by blast
  from assms(2) have asm: "\<And>t c. c \<in> set (asmC t) \<Longrightarrow> rhsAssemblyCall c"
    and post: "\<And>c. c \<in> set post \<Longrightarrow> dataCall c"
    by (auto simp: partsOK_def list_all_iff)
  have "\<not> setupCall c" if "c \<in> set ys" for c
  proof -
    from that ys(2) have "c \<in> set ([CreatePETScArrays, ZeroPETScArrays]
                       @ loopCalls asmC macro 0 (nat (Nt - 1)) @ post)"
      using set_mono_prefix by blast
    then consider "c = CreatePETScArrays" | "c = ZeroPETScArrays"
      | "c \<in> set (loopCalls asmC macro 0 (nat (Nt - 1)))" | "c \<in> set post" by auto
    then show ?thesis
    proof cases
      case 3
      from loopCalls_members[OF this] asm not_setupCall show ?thesis by auto
    next
      case 4
      with post not_setupCall show ?thesis by auto
    qed auto
  qed
  with ys(1) show ?thesis by blast
qed

lemma runShape_project:
  assumes "runShape pre asmC macro Nt post e tr" and "partsOK pre asmC post"
    and "\<And>c. \<not> setupCall c \<Longrightarrow> f c = []"
  shows "concat (map f tr) = concat (map f pre)"
proof -
  from runShape_tail[OF assms(1,2)] obtain ys where
    ys: "tr = pre @ CoefficientsMatrixLUFactorization # ys" "\<forall>c\<in>set ys. \<not> setupCall c"
    by blast
  have "concat (map f ys) = []" using ys(2) assms(3) by simp
  moreover have "f CoefficientsMatrixLUFactorization = []" using assms(3) by simp
  ultimately show ?thesis unfolding ys(1) by simp
qed

lemma projections_setup:
  "\<not> setupCall c \<Longrightarrow> tablesOf c = []"
  "\<not> setupCall c \<Longrightarrow> leakArgumentOf c = []"
  "\<not> setupCall c \<Longrightarrow> operatorOf c = []"
  "\<not> setupCall c \<Longrightarrow> gridOf c = []"
  by (cases c; simp add: tablesOf_def leakArgumentOf_def operatorOf_def gridOf_def)+


lemma runShape_projectI:
  assumes "runShape pre asmC macro Nt post e tr" and "partsOK pre asmC post"
    and "\<And>c. \<not> setupCall c \<Longrightarrow> f c = []" and "concat (map f pre) = v"
  shows "concat (map f tr) = v"
  using runShape_project[OF assms(1-3)] assms(4) by simp

lemma sealedColumn_tables:
  "boundaryTablesPassed (calls (snd (sealedColumn X gridType interpScheme Nt meshSize Lt g sigmab myProperties)))
     = [(sealedColumn_bcType, None), (sealedColumn_bcType, Some (sealedColumn_bcValue sigmab (fluidDensity myProperties) g))]"
  "boundaryTables 3 sealedColumn_bcType (sealedColumn_bcValue sigmab (fluidDensity myProperties) g)"
  unfolding boundaryTablesPassed_def
   apply (rule runShape_projectI[OF sealedColumn_shape[OF prod.collapse[symmetric] refl refl refl refl]])
     apply (simp add: partsOK_def list_all_iff)
    apply (erule projections_setup)
   apply (simp add: tablesOf_def)
  apply (simp add: boundaryTables_def sealedColumn_bcType_def sealedColumn_bcValue_def)
  done

lemma terzaghi_tables:
  "boundaryTablesPassed (calls (snd (terzaghi X gridType interpScheme Nt meshSize Lt g sigmab myProperties)))
     = [(terzaghi_bcType, None), (terzaghi_bcType, Some (terzaghi_bcValue sigmab (fluidDensity myProperties) g))]"
  "boundaryTables 3 terzaghi_bcType (terzaghi_bcValue sigmab (fluidDensity myProperties) g)"
  unfolding boundaryTablesPassed_def
   apply (rule runShape_projectI[OF terzaghi_shape[OF prod.collapse[symmetric] refl refl refl refl]])
     apply (simp add: partsOK_def list_all_iff)
    apply (erule projections_setup)
   apply (simp add: tablesOf_def)
  apply (simp add: boundaryTables_def terzaghi_bcType_def terzaghi_bcValue_def)
  done

lemma mandel_tables:
  "boundaryTablesPassed (calls (snd (mandel X gridType interpScheme Nt meshSize Lt g sigmab myProperties)))
     = [(mandel_bcType, None), (mandel_bcType, Some (mandel_bcValue sigmab (fluidDensity myProperties) g))]"
  "boundaryTables 3 mandel_bcType (mandel_bcValue sigmab (fluidDensity myProperties) g)"
  unfolding boundaryTablesPassed_def
   apply (rule runShape_projectI[OF mandel_shape[OF prod.collapse[symmetric] refl refl refl refl]])
     apply (simp add: partsOK_def list_all_iff)
    apply (erule projections_setup)
   apply (simp add: tablesOf_def)
  apply (simp add: boundaryTables_def mandel_bcType_def mandel_bcValue_def)
  done

lemma convergence_tables:
  "boundaryTablesPassed (calls (snd (convergence X gridType interpScheme Nt meshSize Lt g sigmab myProperties)))
     = [(convergence_bcType, None), (convergence_bcType, Some (convergence_bcValue sigmab (fluidDensity myProperties) g))]"
  "boundaryTables 3 convergence_bcType (convergence_bcValue sigmab (fluidDensity myProperties) g)"
  unfolding boundaryTablesPassed_def
   apply (rule runShape_projectI[OF convergence_shape[OF prod.collapse[symmetric] refl refl refl refl]])
     apply (simp add: partsOK_def list_all_iff)
    apply (erule projections_setup)
   apply (simp add: tablesOf_def)
  apply (simp add: boundaryTables_def convergence_bcType_def convergence_bcValue_def)
  done

lemma stripfoot_tables:
  "boundaryTablesPassed (calls (snd (stripfoot X gridType interpScheme Nt meshSize Lt g sigmab myProperties)))
     = [(stripfoot_bcType, None), (stripfoot_bcType, Some (stripfoot_bcValue sigmab (fluidDensity myProperties) g))]"
  "boundaryTables 3 stripfoot_bcType (stripfoot_bcValue sigmab (fluidDensity myProperties) g)"
  unfolding boundaryTablesPassed_def
   apply (rule runShape_projectI[OF stripfoot_shape[OF prod.collapse[symmetric] refl refl refl refl]])
     apply (simp add: partsOK_def list_all_iff)
    apply (erule projections_setup)
   apply (simp add: tablesOf_def)
  apply (simp add: boundaryTables_def stripfoot_bcType_def stripfoot_bcValue_def)
  done

lemma terzaghiDouble_tables:
  "boundaryTablesPassed (calls (snd (terzaghiDouble X gridType interpScheme Nt meshSize Lt g sigmab myProperties)))
     = [(terzaghiDouble_bcType, None), (terzaghiDouble_bcType, Some (terzaghiDouble_bcValue sigmab))]"
  "boundaryTables 4 terzaghiDouble_bcType (terzaghiDouble_bcValue sigmab)"
  unfolding boundaryTablesPassed_def
   apply (rule runShape_projectI[OF terzaghiDouble_shape[OF prod.collapse[symmetric] refl refl refl refl refl refl refl]])
     apply (simp add: partsOK_def list_all_iff)
    apply (erule projections_setup)
   apply (simp add: tablesOf_def)
  apply (simp add: boundaryTables_def terzaghiDouble_bcType_def terzaghiDouble_bcValue_def)
  done

lemma stripfootDouble_tables:
  "boundaryTablesPassed (calls (snd (stripfootDouble X gridType interpScheme Nt meshSize Lt g sigmab myProperties)))
     = [(stripfootDouble_bcType, None), (stripfootDouble_bcType, Some (stripfootDouble_bcValue sigmab))]"
  "boundaryTables 4 stripfootDouble_bcType (stripfootDouble_bcValue sigmab)"
  unfolding boundaryTablesPassed_def
   apply (rule runShape_projectI[OF stripfootDouble_shape[OF prod.collapse[symmetric] refl refl refl refl refl refl refl]])
     apply (simp add: partsOK_def list_all_iff)
    apply (erule projections_setup)
   apply (simp add: tablesOf_def)
  apply (simp add: boundaryTables_def stripfootDouble_bcType_def stripfootDouble_bcValue_def)
  done

lemma sealedDouble_tables:
  "boundaryTablesPassed (calls (snd (sealedDouble X gridType interpScheme Nt meshSize Lt g sigmab myProperties)))
     = [(sealedDouble_bcType, None), (sealedDouble_bcType, Some (sealedDouble_bcValue sigmab))]"
  "boundaryTables 4 sealedDouble_bcType (sealedDouble_bcValue sigmab)"
  unfolding boundaryTablesPassed_def
   apply (rule runShape_projectI[OF sealedDouble_shape[OF prod.collapse[symmetric] refl refl refl refl refl refl refl]])
     apply (simp add: partsOK_def list_all_iff)
    apply (erule projections_setup)
   apply (simp add: tablesOf_def)
  apply (simp add: boundaryTables_def sealedDouble_bcType_def sealedDouble_bcValue_def)
  done

lemma storageDouble_tables:
  "boundaryTablesPassed (calls (snd (storageDouble X gridType interpScheme Nt meshSize Lt g sigmab myProperties)))
     = [(storageDouble_bcType, None), (storageDouble_bcType, Some (storageDouble_bcValue sigmab))]"
  "boundaryTables 4 storageDouble_bcType (storageDouble_bcValue sigmab)"
  unfolding boundaryTablesPassed_def
   apply (rule runShape_projectI[OF storageDouble_shape[OF prod.collapse[symmetric] refl refl refl refl refl refl refl]])
     apply (simp add: partsOK_def list_all_iff)
    apply (erule projections_setup)
   apply (simp add: tablesOf_def)
  apply (simp add: boundaryTables_def storageDouble_bcType_def storageDouble_bcValue_def)
  done

lemma leakingDouble_tables:
  "boundaryTablesPassed (calls (snd (leakingDouble X gridType interpScheme Nt meshSize Lt g sigmab myProperties)))
     = [(leakingDouble_bcType, None), (leakingDouble_bcType, Some (leakingDouble_bcValue sigmab))]"
  "boundaryTables 4 leakingDouble_bcType (leakingDouble_bcValue sigmab)"
  unfolding boundaryTablesPassed_def
   apply (rule runShape_projectI[OF leakingDouble_shape[OF prod.collapse[symmetric] refl refl refl refl refl refl refl]])
     apply (simp add: partsOK_def list_all_iff)
    apply (erule projections_setup)
   apply (simp add: tablesOf_def)
  apply (simp add: boundaryTables_def leakingDouble_bcType_def leakingDouble_bcValue_def)
  done

subsection \<open>The boundary tables\<close>

text \<open>
  C5. In every run of every driver the two assembly constructors are called once each,
  \<^verbatim>\<open>coefficientsAssembly\<close> with the type table and \<^verbatim>\<open>independentTermsAssembly\<close>
  with the same type table and the value table; both tables have four rows of the same
  length \<open>K\<close> (three in the single-porosity drivers, four in the double-porosity ones) and
  every type is \<open>1\<close>, \<open>0\<close> or \<open>-1\<close>.
\<close>

theorem boundary_tables_well_formed:
  assumes "driver b X gridType interpScheme Nt meshSize Lt g sigmab myProperties = (ierr, w)"
  shows "\<exists>bcType bcValue K.
           boundaryTablesPassed (calls w) = [(bcType, None), (bcType, Some bcValue)]
           \<and> (K = 3 \<or> K = 4) \<and> boundaryTables K bcType bcValue"
proof (cases b)
  case SealedColumn
  with assms have w: "w = snd (sealedColumn X gridType interpScheme Nt meshSize Lt g sigmab myProperties)"
    by simp
  show ?thesis unfolding w
    by (intro exI conjI, rule sealedColumn_tables(1), rule disjI1, rule refl, rule sealedColumn_tables(2))
next
  case Terzaghi
  with assms have w: "w = snd (terzaghi X gridType interpScheme Nt meshSize Lt g sigmab myProperties)"
    by simp
  show ?thesis unfolding w
    by (intro exI conjI, rule terzaghi_tables(1), rule disjI1, rule refl, rule terzaghi_tables(2))
next
  case Mandel
  with assms have w: "w = snd (mandel X gridType interpScheme Nt meshSize Lt g sigmab myProperties)"
    by simp
  show ?thesis unfolding w
    by (intro exI conjI, rule mandel_tables(1), rule disjI1, rule refl, rule mandel_tables(2))
next
  case Convergence
  with assms have w: "w = snd (convergence X gridType interpScheme Nt meshSize Lt g sigmab myProperties)"
    by simp
  show ?thesis unfolding w
    by (intro exI conjI, rule convergence_tables(1), rule disjI1, rule refl, rule convergence_tables(2))
next
  case Stripfoot
  with assms have w: "w = snd (stripfoot X gridType interpScheme Nt meshSize Lt g sigmab myProperties)"
    by simp
  show ?thesis unfolding w
    by (intro exI conjI, rule stripfoot_tables(1), rule disjI1, rule refl, rule stripfoot_tables(2))
next
  case TerzaghiDouble
  with assms have w: "w = snd (terzaghiDouble X gridType interpScheme Nt meshSize Lt g sigmab myProperties)"
    by simp
  show ?thesis unfolding w
    by (intro exI conjI, rule terzaghiDouble_tables(1), rule disjI2, rule refl, rule terzaghiDouble_tables(2))
next
  case StripfootDouble
  with assms have w: "w = snd (stripfootDouble X gridType interpScheme Nt meshSize Lt g sigmab myProperties)"
    by simp
  show ?thesis unfolding w
    by (intro exI conjI, rule stripfootDouble_tables(1), rule disjI2, rule refl, rule stripfootDouble_tables(2))
next
  case SealedDouble
  with assms have w: "w = snd (sealedDouble X gridType interpScheme Nt meshSize Lt g sigmab myProperties)"
    by simp
  show ?thesis unfolding w
    by (intro exI conjI, rule sealedDouble_tables(1), rule disjI2, rule refl, rule sealedDouble_tables(2))
next
  case StorageDouble
  with assms have w: "w = snd (storageDouble X gridType interpScheme Nt meshSize Lt g sigmab myProperties)"
    by simp
  show ?thesis unfolding w
    by (intro exI conjI, rule storageDouble_tables(1), rule disjI2, rule refl, rule storageDouble_tables(2))
next
  case LeakingDouble
  with assms have w: "w = snd (leakingDouble X gridType interpScheme Nt meshSize Lt g sigmab myProperties)"
    by simp
  show ?thesis unfolding w
    by (intro exI conjI, rule leakingDouble_tables(1), rule disjI2, rule refl, rule leakingDouble_tables(2))
qed

theorem boundary_tables_well_formed_witness:
  "boundaryTablesPassed (calls (snd (driver Mandel trial ''staggered'' ''NA'' 2 1 1 0 (- 10000)
        trialProperties)))
     = [([[- 1, - 1, 0], [1, - 1, - 1], [- 1, 1, 0], [- 1, - 1, 1]], None),
        ([[- 1, - 1, 0], [1, - 1, - 1], [- 1, 1, 0], [- 1, - 1, 1]],
         Some [[0, 0, 0], [0, 0, 0], [0, 0, 0], [0, 0, 0]])]
   \<and> boundaryTables 3 [[- 1, - 1, 0], [1, - 1, - 1], [- 1, 1, 0], [- 1, - 1, 1]]
        [[0, 0, 0], [0, 0, 0], [0, 0, 0], [0, 0, 0]]"
proof -
  let ?R = "driver Mandel trial ''staggered'' ''NA'' 2 1 1 0 (- 10000) trialProperties"
  have "?R = (fst ?R, snd ?R)" by simp
  from boundary_tables_well_formed[OF this] obtain bcType bcValue K where
    *: "boundaryTablesPassed (calls (snd ?R)) = [(bcType, None), (bcType, Some bcValue)]"
       "boundaryTables K bcType bcValue" by blast
  have **: "boundaryTablesPassed (calls (snd ?R))
     = [([[- 1, - 1, 0], [1, - 1, - 1], [- 1, 1, 0], [- 1, - 1, 1]], None),
        ([[- 1, - 1, 0], [1, - 1, - 1], [- 1, 1, 0], [- 1, - 1, 1]],
         Some [[0, 0, 0], [0, 0, 0], [0, 0, 0], [0, 0, 0]])]"
    by (simp add: mandel_def Let_def run_defs trial_defs timeLoop_unfold boundaryTablesPassed_def
          tablesOf_def mandel_bcType_def mandel_bcValue_def mandel_exportedTimeSteps_def)
  from * ** have "boundaryTables K [[- 1, - 1, 0], [1, - 1, - 1], [- 1, 1, 0], [- 1, - 1, 1]]
        [[0, 0, 0], [0, 0, 0], [0, 0, 0], [0, 0, 0]]" by simp
  then have "boundaryTables 3 [[- 1, - 1, 0], [1, - 1, - 1], [- 1, 1, 0], [- 1, - 1, 1]]
        [[0, 0, 0], [0, 0, 0], [0, 0, 0], [0, 0, 0]]"
    by (simp add: boundaryTables_def)
  with ** show ?thesis by simp
qed

subsection \<open>The exported time steps\<close>

text \<open>
  C10. With \<open>Nt = 2\<close> the list of exported time steps is the single step \<open>1\<close> in
  \<^verbatim>\<open>terzaghi\<close>, \<^verbatim>\<open>mandel\<close>, \<^verbatim>\<open>stripfoot\<close> and the five double-porosity
  drivers. In \<^verbatim>\<open>sealedColumn\<close> the list is \<open>[1, (Nt-1)/8, (Nt-1)/2, Nt-1]\<close> for every
  \<open>Nt\<close>, which is \<open>[1, 0, 0, 1]\<close> for \<open>Nt = 2\<close> and holds the time step \<open>0\<close> twice.
\<close>

theorem exported_time_steps_at_two:
  "terzaghi_exportedTimeSteps 2 = [1] \<and> mandel_exportedTimeSteps 2 = [1] \<and> stripfoot_exportedTimeSteps 2 = [1]
   \<and> terzaghiDouble_exportedTimeSteps 2 = [1]
   \<and> stripfootDouble_exportedTimeSteps 2 = [1]
   \<and> sealedDouble_exportedTimeSteps 2 = [1]
   \<and> storageDouble_exportedTimeSteps 2 = [1]
   \<and> leakingDouble_exportedTimeSteps 2 = [1]
   \<and> sealedColumn_exportedTimeSteps Nt = [1, (Nt - 1) sdiv 8, (Nt - 1) sdiv 2, Nt - 1]
   \<and> sealedColumn_exportedTimeSteps 2 = [1, 0, 0, 1]
   \<and> count_list (sealedColumn_exportedTimeSteps 2) 0 = 2"
  by (simp add: terzaghi_exportedTimeSteps_def mandel_exportedTimeSteps_def stripfoot_exportedTimeSteps_def terzaghiDouble_exportedTimeSteps_def stripfootDouble_exportedTimeSteps_def sealedDouble_exportedTimeSteps_def storageDouble_exportedTimeSteps_def leakingDouble_exportedTimeSteps_def
        sealedColumn_exportedTimeSteps_def signed_divide_int_def)

lemma sealedColumn_setup:
  assumes "myGrid = new_gridDesign (GP X) (meshSize) (6 * meshSize) Nt 1 6 Lt gridType
           [[1, 6], [0, 6], [0, 0], [1, 0]]"
    and "problemArgs = [grid_dx myGrid, grid_dy myGrid, permeability myProperties,
           porosity myProperties, solidDensity myProperties, 1 / solidBulkModulus myProperties,
           fluidViscosity myProperties, fluidDensity myProperties,
           1 / fluidBulkModulus myProperties, shearModulus myProperties,
           bulkModulus myProperties - 2 * shearModulus myProperties / 3, sigmab, 1, 6]"
    and "myProblem = applySealedColumnInitialConditions (GP X)
           (new_problemParameters (GP X) problemArgs (grid_uDisplacementField myGrid)
              (grid_vDisplacementField myGrid) (grid_pressureField myGrid) myGrid g)"
    and "scalars = [grid_dx myGrid, grid_dy myGrid, grid_dt myGrid, shearModulus myProperties,
           bulkModulus myProperties - 2 * shearModulus myProperties / 3, pp_alpha myProblem,
           permeability myProperties, fluidViscosity myProperties, pp_Q myProblem,
           porosity myProperties * fluidDensity myProperties
             + (1 - porosity myProperties) * solidDensity myProperties, g]"
  shows "operatorArguments (calls (snd (sealedColumn X gridType interpScheme Nt meshSize Lt g sigmab
           myProperties))) = [scalars]"
    and "gridsCreated (calls (snd (sealedColumn X gridType interpScheme Nt meshSize Lt g sigmab
           myProperties))) = [(meshSize, 6 * meshSize, Nt, 1, 6, Lt)]"
  unfolding operatorArguments_def gridsCreated_def leakArguments_def
  by ((rule runShape_projectI[OF sealedColumn_shape[OF prod.collapse[symmetric] assms]],
       simp add: partsOK_def list_all_iff, erule projections_setup,
       simp add: operatorOf_def gridOf_def leakArgumentOf_def)+)

lemma terzaghi_setup:
  assumes "myGrid = new_gridDesign (GP X) (meshSize) (6 * meshSize) Nt 1 6 Lt gridType
           [[1, 6], [0, 6], [0, 0], [1, 0]]"
    and "problemArgs = [grid_dx myGrid, grid_dy myGrid, permeability myProperties,
           porosity myProperties, solidDensity myProperties, 1 / solidBulkModulus myProperties,
           fluidViscosity myProperties, fluidDensity myProperties,
           1 / fluidBulkModulus myProperties, shearModulus myProperties,
           bulkModulus myProperties - 2 * shearModulus myProperties / 3, sigmab, 1, 6]"
    and "myProblem = applyTerzaghiInitialConditions (GP X)
           (new_problemParameters (GP X) problemArgs (grid_uDisplacementField myGrid)
              (grid_vDisplacementField myGrid) (grid_pressureField myGrid) myGrid g)"
    and "scalars = [grid_dx myGrid, grid_dy myGrid, grid_dt myGrid, shearModulus myProperties,
           bulkModulus myProperties - 2 * shearModulus myProperties / 3, pp_alpha myProblem,
           permeability myProperties, fluidViscosity myProperties, pp_Q myProblem,
           porosity myProperties * fluidDensity myProperties
             + (1 - porosity myProperties) * solidDensity myProperties, g]"
  shows "operatorArguments (calls (snd (terzaghi X gridType interpScheme Nt meshSize Lt g sigmab
           myProperties))) = [scalars]"
    and "gridsCreated (calls (snd (terzaghi X gridType interpScheme Nt meshSize Lt g sigmab
           myProperties))) = [(meshSize, 6 * meshSize, Nt, 1, 6, Lt)]"
  unfolding operatorArguments_def gridsCreated_def leakArguments_def
  by ((rule runShape_projectI[OF terzaghi_shape[OF prod.collapse[symmetric] assms]],
       simp add: partsOK_def list_all_iff, erule projections_setup,
       simp add: operatorOf_def gridOf_def leakArgumentOf_def)+)

lemma mandel_setup:
  assumes "myGrid = new_gridDesign (GP X) (5 * meshSize) (5 * meshSize) Nt 5 5 Lt gridType
           [[5, 5], [0, 5], [0, 0], [5, 0]]"
    and "problemArgs = [grid_dx myGrid, grid_dy myGrid, permeability myProperties,
           porosity myProperties, solidDensity myProperties, 1 / solidBulkModulus myProperties,
           fluidViscosity myProperties, fluidDensity myProperties,
           1 / fluidBulkModulus myProperties, shearModulus myProperties,
           bulkModulus myProperties - 2 * shearModulus myProperties / 3, forceb, 5, 5]"
    and "myProblem = applyMandelInitialConditions (GP X)
           (new_problemParameters (GP X) problemArgs (grid_uDisplacementField myGrid)
              (grid_vDisplacementField myGrid) (grid_pressureField myGrid) myGrid g)"
    and "scalars = [grid_dx myGrid, grid_dy myGrid, grid_dt myGrid, shearModulus myProperties,
           bulkModulus myProperties - 2 * shearModulus myProperties / 3, pp_alpha myProblem,
           permeability myProperties, fluidViscosity myProperties, pp_Q myProblem,
           porosity myProperties * fluidDensity myProperties
             + (1 - porosity myProperties) * solidDensity myProperties, g]"
  shows "operatorArguments (calls (snd (mandel X gridType interpScheme Nt meshSize Lt g forceb
           myProperties))) = [scalars]"
    and "gridsCreated (calls (snd (mandel X gridType interpScheme Nt meshSize Lt g forceb
           myProperties))) = [(5 * meshSize, 5 * meshSize, Nt, 5, 5, Lt)]"
  unfolding operatorArguments_def gridsCreated_def leakArguments_def
  by ((rule runShape_projectI[OF mandel_shape[OF prod.collapse[symmetric] assms]],
       simp add: partsOK_def list_all_iff, erule projections_setup,
       simp add: operatorOf_def gridOf_def leakArgumentOf_def)+)

lemma convergence_setup:
  assumes "myGrid = new_gridDesign (GP X) (meshSize) (6 * meshSize) Nt 1 6 Lt gridType
           [[1, 6], [0, 6], [0, 0], [1, 0]]"
    and "problemArgs = [grid_dx myGrid, grid_dy myGrid, permeability myProperties,
           porosity myProperties, solidDensity myProperties, 1 / solidBulkModulus myProperties,
           fluidViscosity myProperties, fluidDensity myProperties,
           1 / fluidBulkModulus myProperties, shearModulus myProperties,
           bulkModulus myProperties - 2 * shearModulus myProperties / 3, sigmab, 1, 6]"
    and "myProblem = applyTerzaghiInitialConditions (GP X)
           (new_problemParameters (GP X) problemArgs (grid_uDisplacementField myGrid)
              (grid_vDisplacementField myGrid) (grid_pressureField myGrid) myGrid g)"
    and "scalars = [grid_dx myGrid, grid_dy myGrid, grid_dt myGrid, shearModulus myProperties,
           bulkModulus myProperties - 2 * shearModulus myProperties / 3, pp_alpha myProblem,
           permeability myProperties, fluidViscosity myProperties, pp_Q myProblem,
           porosity myProperties * fluidDensity myProperties
             + (1 - porosity myProperties) * solidDensity myProperties, g]"
  shows "operatorArguments (calls (snd (convergence X gridType interpScheme Nt meshSize Lt g sigmab
           myProperties))) = [scalars]"
    and "gridsCreated (calls (snd (convergence X gridType interpScheme Nt meshSize Lt g sigmab
           myProperties))) = [(meshSize, 6 * meshSize, Nt, 1, 6, Lt)]"
  unfolding operatorArguments_def gridsCreated_def leakArguments_def
  by ((rule runShape_projectI[OF convergence_shape[OF prod.collapse[symmetric] assms]],
       simp add: partsOK_def list_all_iff, erule projections_setup,
       simp add: operatorOf_def gridOf_def leakArgumentOf_def)+)

lemma stripfoot_setup:
  assumes "myGrid = new_gridDesign (GP X) (5 * meshSize) (5 * meshSize) Nt 5 5 Lt gridType
           [[5, 5], [0, 5], [0, 0], [5, 0]]"
    and "problemArgs = [grid_dx myGrid, grid_dy myGrid, permeability myProperties,
           porosity myProperties, solidDensity myProperties, 1 / solidBulkModulus myProperties,
           fluidViscosity myProperties, fluidDensity myProperties,
           1 / fluidBulkModulus myProperties, shearModulus myProperties,
           bulkModulus myProperties - 2 * shearModulus myProperties / 3, sigmab, 5, 5]"
    and "myProblem = applyTerzaghiInitialConditions (GP X)
           (new_problemParameters (GP X) problemArgs (grid_uDisplacementField myGrid)
              (grid_vDisplacementField myGrid) (grid_pressureField myGrid) myGrid g)"
    and "scalars = [grid_dx myGrid, grid_dy myGrid, grid_dt myGrid, shearModulus myProperties,
           bulkModulus myProperties - 2 * shearModulus myProperties / 3, pp_alpha myProblem,
           permeability myProperties, fluidViscosity myProperties, pp_Q myProblem,
           porosity myProperties * fluidDensity myProperties
             + (1 - porosity myProperties) * solidDensity myProperties, g]"
  shows "operatorArguments (calls (snd (stripfoot X gridType interpScheme Nt meshSize Lt g sigmab
           myProperties))) = [scalars]"
    and "gridsCreated (calls (snd (stripfoot X gridType interpScheme Nt meshSize Lt g sigmab
           myProperties))) = [(5 * meshSize, 5 * meshSize, Nt, 5, 5, Lt)]"
  unfolding operatorArguments_def gridsCreated_def leakArguments_def
  by ((rule runShape_projectI[OF stripfoot_shape[OF prod.collapse[symmetric] assms]],
       simp add: partsOK_def list_all_iff, erule projections_setup,
       simp add: operatorOf_def gridOf_def leakArgumentOf_def)+)

lemma terzaghiDouble_setup:
  assumes "myGrid = new_gridDesign (GP X) (meshSize) (6 * meshSize) Nt 1 6 Lt gridType
           [[1, 6], [0, 6], [0, 0], [1, 0]]"
    and "problemArgs = [porosity myProperties, macroPorosity myProperties,
           1 / fluidBulkModulus myProperties, 1 / solidBulkModulus myProperties,
           shearModulus myProperties, bulkModulus myProperties - 2 * shearModulus myProperties / 3,
           fluidViscosity myProperties, permeability myProperties, macroPermeability myProperties, sigmab]"
    and "myProblem = new_problemDoubleParameters (GP X) problemArgs myGrid"
    and "S12 = pd_S12 myProblem"
    and "operator = [grid_dx myGrid, grid_dy myGrid, grid_dt myGrid, shearModulus myProperties,
           bulkModulus myProperties - 2 * shearModulus myProperties / 3, pd_alpha myProblem,
           permeability myProperties, macroPermeability myProperties, fluidViscosity myProperties,
           pd_S11 myProblem, S12, pd_S22 myProblem, pd_psiPore myProblem, pd_psiFrac myProblem,
           computeLeakTerm (GP X) myProblem 11]"
    and "scalars = [grid_dx myGrid, grid_dy myGrid, grid_dt myGrid, shearModulus myProperties,
           bulkModulus myProperties - 2 * shearModulus myProperties / 3, pd_alpha myProblem,
           permeability myProperties, fluidViscosity myProperties, pd_S11 myProblem, 0, 0]"
    and "macroScalars = [porosity myProperties, macroPorosity myProperties,
           macroPermeability myProperties, S12, pd_S22 myProblem]"
  shows "operatorArguments (calls (snd (terzaghiDouble X gridType interpScheme Nt meshSize Lt g sigmab
           myProperties))) = [operator]"
    and "gridsCreated (calls (snd (terzaghiDouble X gridType interpScheme Nt meshSize Lt g sigmab
           myProperties))) = [(meshSize, 6 * meshSize, Nt, 1, 6, Lt)]"
    and "leakArguments (calls (snd (terzaghiDouble X gridType interpScheme Nt meshSize Lt g sigmab
           myProperties))) = [11]"
  unfolding operatorArguments_def gridsCreated_def leakArguments_def
  by ((rule runShape_projectI[OF terzaghiDouble_shape[OF prod.collapse[symmetric] assms]],
       simp add: partsOK_def list_all_iff, erule projections_setup,
       simp add: operatorOf_def gridOf_def leakArgumentOf_def)+)

lemma stripfootDouble_setup:
  assumes "myGrid = new_gridDesign (GP X) (5 * meshSize) (5 * meshSize) Nt 5 5 Lt gridType
           [[5, 5], [0, 5], [0, 0], [5, 0]]"
    and "problemArgs = [porosity myProperties, macroPorosity myProperties,
           1 / fluidBulkModulus myProperties, 1 / solidBulkModulus myProperties,
           shearModulus myProperties, bulkModulus myProperties - 2 * shearModulus myProperties / 3,
           fluidViscosity myProperties, permeability myProperties, macroPermeability myProperties, sigmab]"
    and "myProblem = new_problemDoubleParameters (GP X) problemArgs myGrid"
    and "S12 = pd_S12 myProblem"
    and "operator = [grid_dx myGrid, grid_dy myGrid, grid_dt myGrid, shearModulus myProperties,
           bulkModulus myProperties - 2 * shearModulus myProperties / 3, pd_alpha myProblem,
           permeability myProperties, macroPermeability myProperties, fluidViscosity myProperties,
           pd_S11 myProblem, S12, pd_S22 myProblem, pd_psiPore myProblem, pd_psiFrac myProblem,
           computeLeakTerm (GP X) myProblem 11]"
    and "scalars = [grid_dx myGrid, grid_dy myGrid, grid_dt myGrid, shearModulus myProperties,
           bulkModulus myProperties - 2 * shearModulus myProperties / 3, pd_alpha myProblem,
           permeability myProperties, fluidViscosity myProperties, pd_S11 myProblem, 0, 0]"
    and "macroScalars = [porosity myProperties, macroPorosity myProperties,
           macroPermeability myProperties, S12, pd_S22 myProblem]"
  shows "operatorArguments (calls (snd (stripfootDouble X gridType interpScheme Nt meshSize Lt g sigmab
           myProperties))) = [operator]"
    and "gridsCreated (calls (snd (stripfootDouble X gridType interpScheme Nt meshSize Lt g sigmab
           myProperties))) = [(5 * meshSize, 5 * meshSize, Nt, 5, 5, Lt)]"
    and "leakArguments (calls (snd (stripfootDouble X gridType interpScheme Nt meshSize Lt g sigmab
           myProperties))) = [11]"
  unfolding operatorArguments_def gridsCreated_def leakArguments_def
  by ((rule runShape_projectI[OF stripfootDouble_shape[OF prod.collapse[symmetric] assms]],
       simp add: partsOK_def list_all_iff, erule projections_setup,
       simp add: operatorOf_def gridOf_def leakArgumentOf_def)+)

lemma sealedDouble_setup:
  assumes "myGrid = new_gridDesign (GP X) (meshSize) (6 * meshSize) Nt 1 6 Lt gridType
           [[1, 6], [0, 6], [0, 0], [1, 0]]"
    and "problemArgs = [porosity myProperties, macroPorosity myProperties,
           1 / fluidBulkModulus myProperties, 1 / solidBulkModulus myProperties,
           shearModulus myProperties, bulkModulus myProperties - 2 * shearModulus myProperties / 3,
           fluidViscosity myProperties, permeability myProperties, macroPermeability myProperties, sigmab]"
    and "myProblem = new_problemDoubleParameters (GP X) problemArgs myGrid"
    and "S12 = pd_S12 myProblem"
    and "operator = [grid_dx myGrid, grid_dy myGrid, grid_dt myGrid, shearModulus myProperties,
           bulkModulus myProperties - 2 * shearModulus myProperties / 3, pd_alpha myProblem,
           permeability myProperties, macroPermeability myProperties, fluidViscosity myProperties,
           pd_S11 myProblem, S12, pd_S22 myProblem, pd_psiPore myProblem, pd_psiFrac myProblem,
           computeLeakTerm (GP X) myProblem 11]"
    and "scalars = [grid_dx myGrid, grid_dy myGrid, grid_dt myGrid, shearModulus myProperties,
           bulkModulus myProperties - 2 * shearModulus myProperties / 3, pd_alpha myProblem,
           permeability myProperties, fluidViscosity myProperties, pd_S11 myProblem, 0, 0]"
    and "macroScalars = [porosity myProperties, macroPorosity myProperties,
           macroPermeability myProperties, S12, pd_S22 myProblem]"
  shows "operatorArguments (calls (snd (sealedDouble X gridType interpScheme Nt meshSize Lt g sigmab
           myProperties))) = [operator]"
    and "gridsCreated (calls (snd (sealedDouble X gridType interpScheme Nt meshSize Lt g sigmab
           myProperties))) = [(meshSize, 6 * meshSize, Nt, 1, 6, Lt)]"
    and "leakArguments (calls (snd (sealedDouble X gridType interpScheme Nt meshSize Lt g sigmab
           myProperties))) = [11]"
  unfolding operatorArguments_def gridsCreated_def leakArguments_def
  by ((rule runShape_projectI[OF sealedDouble_shape[OF prod.collapse[symmetric] assms]],
       simp add: partsOK_def list_all_iff, erule projections_setup,
       simp add: operatorOf_def gridOf_def leakArgumentOf_def)+)

lemma storageDouble_setup:
  assumes "myGrid = new_gridDesign (GP X) (meshSize) (6 * meshSize) Nt 1 6 Lt gridType
           [[1, 6], [0, 6], [0, 0], [1, 0]]"
    and "problemArgs = [porosity myProperties, macroPorosity myProperties,
           1 / fluidBulkModulus myProperties, 1 / solidBulkModulus myProperties,
           shearModulus myProperties, bulkModulus myProperties - 2 * shearModulus myProperties / 3,
           fluidViscosity myProperties, permeability myProperties, macroPermeability myProperties, sigmab]"
    and "myProblem = applyDoublePoreInitialConditions (GP X) (grid_dy myGrid) 6
           (grid_vDisplacementField myGrid) (grid_pressureField myGrid) (grid_pressureField myGrid)
           (new_problemDoubleParameters (GP X) problemArgs myGrid)"
    and "S12 = pd_S12 myProblem"
    and "operator = [grid_dx myGrid, grid_dy myGrid, grid_dt myGrid, shearModulus myProperties,
           bulkModulus myProperties - 2 * shearModulus myProperties / 3, pd_alpha myProblem,
           permeability myProperties, macroPermeability myProperties, fluidViscosity myProperties,
           pd_S11 myProblem, S12, pd_S22 myProblem, pd_psiPore myProblem, pd_psiFrac myProblem,
           computeLeakTerm (GP X) myProblem 0]"
    and "scalars = [grid_dx myGrid, grid_dy myGrid, grid_dt myGrid, shearModulus myProperties,
           bulkModulus myProperties - 2 * shearModulus myProperties / 3, pd_alpha myProblem,
           permeability myProperties, fluidViscosity myProperties, pd_S11 myProblem, 0, 0]"
    and "macroScalars = [porosity myProperties, macroPorosity myProperties,
           macroPermeability myProperties, S12, pd_S22 myProblem]"
  shows "operatorArguments (calls (snd (storageDouble X gridType interpScheme Nt meshSize Lt g sigmab
           myProperties))) = [operator]"
    and "gridsCreated (calls (snd (storageDouble X gridType interpScheme Nt meshSize Lt g sigmab
           myProperties))) = [(meshSize, 6 * meshSize, Nt, 1, 6, Lt)]"
    and "leakArguments (calls (snd (storageDouble X gridType interpScheme Nt meshSize Lt g sigmab
           myProperties))) = [0]"
  unfolding operatorArguments_def gridsCreated_def leakArguments_def
  by ((rule runShape_projectI[OF storageDouble_shape[OF prod.collapse[symmetric] assms]],
       simp add: partsOK_def list_all_iff, erule projections_setup,
       simp add: operatorOf_def gridOf_def leakArgumentOf_def)+)

lemma leakingDouble_setup:
  assumes "myGrid = new_gridDesign (GP X) (meshSize) (6 * meshSize) Nt 1 6 Lt gridType
           [[1, 6], [0, 6], [0, 0], [1, 0]]"
    and "problemArgs = [porosity myProperties, macroPorosity myProperties,
           1 / fluidBulkModulus myProperties, 1 / solidBulkModulus myProperties,
           shearModulus myProperties, bulkModulus myProperties - 2 * shearModulus myProperties / 3,
           fluidViscosity myProperties, permeability myProperties, macroPermeability myProperties, sigmab]"
    and "myProblem = applyDoublePoreInitialConditions (GP X) (grid_dy myGrid) 6
           (grid_vDisplacementField myGrid) (grid_pressureField myGrid) (grid_pressureField myGrid)
           (new_problemDoubleParameters (GP X) problemArgs myGrid)"
    and "S12 = - pd_psiPore myProblem * pd_alpha myProblem * pd_psiFrac myProblem * pd_alpha myProblem
           / (2 * shearModulus myProperties + (bulkModulus myProperties - 2 * shearModulus myProperties / 3))"
    and "operator = [grid_dx myGrid, grid_dy myGrid, grid_dt myGrid, shearModulus myProperties,
           bulkModulus myProperties - 2 * shearModulus myProperties / 3, pd_alpha myProblem,
           permeability myProperties, macroPermeability myProperties, fluidViscosity myProperties,
           pd_S11 myProblem, S12, pd_S22 myProblem, pd_psiPore myProblem, pd_psiFrac myProblem,
           computeLeakTerm (GP X) myProblem 11]"
    and "scalars = [grid_dx myGrid, grid_dy myGrid, grid_dt myGrid, shearModulus myProperties,
           bulkModulus myProperties - 2 * shearModulus myProperties / 3, pd_alpha myProblem,
           permeability myProperties, fluidViscosity myProperties, pd_S11 myProblem, 0, 0]"
    and "macroScalars = [porosity myProperties, macroPorosity myProperties,
           macroPermeability myProperties, S12, pd_S22 myProblem]"
  shows "operatorArguments (calls (snd (leakingDouble X gridType interpScheme Nt meshSize Lt g sigmab
           myProperties))) = [operator]"
    and "gridsCreated (calls (snd (leakingDouble X gridType interpScheme Nt meshSize Lt g sigmab
           myProperties))) = [(meshSize, 6 * meshSize, Nt, 1, 6, Lt)]"
    and "leakArguments (calls (snd (leakingDouble X gridType interpScheme Nt meshSize Lt g sigmab
           myProperties))) = [11]"
  unfolding operatorArguments_def gridsCreated_def leakArguments_def
  by ((rule runShape_projectI[OF leakingDouble_shape[OF prod.collapse[symmetric] assms]],
       simp add: partsOK_def list_all_iff, erule projections_setup,
       simp add: operatorOf_def gridOf_def leakArgumentOf_def)+)

subsection \<open>Leak term and cross-storage coefficient of the double-porosity drivers\<close>

text \<open>
  C9. \<^verbatim>\<open>storageDouble\<close> calls \<^verbatim>\<open>computeLeakTerm\<close> with the argument \<open>0\<close>, the other
  four double-porosity drivers with \<open>11\<close>, once each. The operator assembly
  \<^verbatim>\<open>assemblyDoublePorosityMatrix\<close> receives as \<^verbatim>\<open>S12\<close> (its eleventh scalar) the member
  \<^verbatim>\<open>S12\<close> of the problem object in four drivers and
  \<open>- psiPore * alpha * psiFrac * alpha / (2 * G + lambda)\<close> in \<^verbatim>\<open>leakingDouble\<close>, and as
  leak term (its fifteenth scalar) the value \<^verbatim>\<open>computeLeakTerm\<close> returned.
\<close>

theorem leak_term_and_cross_storage:
  "(let G = shearModulus myProperties;
        lambda = bulkModulus myProperties - 2 * G / 3;
        args = [porosity myProperties, macroPorosity myProperties,
           1 / fluidBulkModulus myProperties, 1 / solidBulkModulus myProperties, G, lambda,
           fluidViscosity myProperties, permeability myProperties,
           macroPermeability myProperties, sigmab];
        column = new_gridDesign (GP X) meshSize (6 * meshSize) Nt 1 6 Lt gridType
           [[1, 6], [0, 6], [0, 0], [1, 0]];
        square = new_gridDesign (GP X) (5 * meshSize) (5 * meshSize) Nt 5 5 Lt gridType
           [[5, 5], [0, 5], [0, 0], [5, 0]];
        plain = new_problemDoubleParameters (GP X) args column;
        plainSquare = new_problemDoubleParameters (GP X) args square;
        initialised = applyDoublePoreInitialConditions (GP X) (grid_dy column) 6
           (grid_vDisplacementField column) (grid_pressureField column)
           (grid_pressureField column) plain
    in leakArguments (calls (snd (storageDouble X gridType interpScheme Nt meshSize Lt g sigmab myProperties))) = [0]
     \<and> leakArguments (calls (snd (terzaghiDouble X gridType interpScheme Nt meshSize Lt g sigmab myProperties))) = [11]
     \<and> leakArguments (calls (snd (stripfootDouble X gridType interpScheme Nt meshSize Lt g sigmab myProperties))) = [11]
     \<and> leakArguments (calls (snd (sealedDouble X gridType interpScheme Nt meshSize Lt g sigmab myProperties))) = [11]
     \<and> leakArguments (calls (snd (leakingDouble X gridType interpScheme Nt meshSize Lt g sigmab myProperties))) = [11]
     \<and> map (\<lambda>a. (a ! 10, a ! 14)) (operatorArguments (calls (snd (terzaghiDouble X gridType interpScheme Nt meshSize Lt g sigmab myProperties))))
         = [(pd_S12 plain, computeLeakTerm (GP X) plain 11)]
     \<and> map (\<lambda>a. (a ! 10, a ! 14)) (operatorArguments (calls (snd (stripfootDouble X gridType interpScheme Nt meshSize Lt g sigmab myProperties))))
         = [(pd_S12 plainSquare, computeLeakTerm (GP X) plainSquare 11)]
     \<and> map (\<lambda>a. (a ! 10, a ! 14)) (operatorArguments (calls (snd (sealedDouble X gridType interpScheme Nt meshSize Lt g sigmab myProperties))))
         = [(pd_S12 plain, computeLeakTerm (GP X) plain 11)]
     \<and> map (\<lambda>a. (a ! 10, a ! 14)) (operatorArguments (calls (snd (storageDouble X gridType interpScheme Nt meshSize Lt g sigmab myProperties))))
         = [(pd_S12 initialised, computeLeakTerm (GP X) initialised 0)]
     \<and> map (\<lambda>a. (a ! 10, a ! 14)) (operatorArguments (calls (snd (leakingDouble X gridType interpScheme Nt meshSize Lt g sigmab myProperties))))
         = [(- pd_psiPore initialised * pd_alpha initialised * pd_psiFrac initialised
               * pd_alpha initialised / (2 * G + lambda),
             computeLeakTerm (GP X) initialised 11)])"
  unfolding Let_def
  by (simp add: storageDouble_setup[OF refl refl refl refl refl refl refl]
      terzaghiDouble_setup[OF refl refl refl refl refl refl refl]
      stripfootDouble_setup[OF refl refl refl refl refl refl refl]
      sealedDouble_setup[OF refl refl refl refl refl refl refl]
      leakingDouble_setup[OF refl refl refl refl refl refl refl])

lemma driver_calls_kinds:
  assumes "c \<in> set (calls (snd (driver b X gridType interpScheme Nt meshSize Lt g sigmab myProperties)))"
  shows "setupCall c \<or> rhsAssemblyCall c \<or> fallible c \<or> c = PassingIndependentTermsArray
           \<or> c = PassingSolutions \<or> dataCall c"
proof -
  from driver_shape[OF prod.collapse[symmetric]] obtain pre asmC macro post where
    sh: "runShape pre asmC macro Nt post
           (fst (driver b X gridType interpScheme Nt meshSize Lt g sigmab myProperties))
           (calls (snd (driver b X gridType interpScheme Nt meshSize Lt g sigmab myProperties)))"
    and ok: "partsOK pre asmC post" by blast
  from runShape_members[OF sh assms] ok show ?thesis
    by (auto simp: partsOK_def list_all_iff)
qed

lemma driver_no_runInfo:
  "runInfoTimeSteps (calls (snd (driver b X gridType interpScheme Nt meshSize Lt g sigmab myProperties))) = []"
proof -
  have "runInfoOf c = []"
    if "c \<in> set (calls (snd (driver b X gridType interpScheme Nt meshSize Lt g sigmab myProperties)))"
    for c
    using driver_calls_kinds[OF that] by (cases c) (auto simp: runInfoOf_def)
  then show ?thesis by (simp add: runInfoTimeSteps_def)
qed

lemma mainDimless_solve_calls:
  "\<exists>k\<le>length tss. (tss \<noteq> [] \<longrightarrow> 0 < k) \<and>
     snd (mainDimless_solve X gt is m props Nt mesh ct g load tss cs) =
       cs @ concat (map (\<lambda>ts. ExportSolveRunInfo
                (real_of_int (Nt - 1) * (ct * ts) / real_of_int (Nt - 1)) (''Terzaghi_'' @ m)
              # calls (snd (terzaghi X gt is Nt mesh (real_of_int (Nt - 1) * (ct * ts)) g load props)))
            (take k tss))"
proof -
  define L where "L = (\<lambda>ts. real_of_int (Nt - 1) * (ct * ts))"
  define D where "D = (\<lambda>ts. L ts / real_of_int (Nt - 1))"
  define n where "n = ''Terzaghi_'' @ m"
  have step: "mainDimless_solve X gt is m props Nt mesh ct g load (ts # tss) cs =
      (case terzaghi X gt is Nt mesh (L ts) g load props of
          (ierr, w) \<Rightarrow>
            if ierr \<noteq> 0 then (ierr, (cs @ [ExportSolveRunInfo (D ts) n]) @ calls w)
            else mainDimless_solve X gt is m props Nt mesh ct g load tss
                   ((cs @ [ExportSolveRunInfo (D ts) n]) @ calls w))" for ts tss cs
    unfolding L_def D_def n_def by (simp only: mainDimless_solve.simps Let_def)
  have "\<exists>k\<le>length tss. (tss \<noteq> [] \<longrightarrow> 0 < k) \<and>
     snd (mainDimless_solve X gt is m props Nt mesh ct g load tss cs) =
       cs @ concat (map (\<lambda>ts. ExportSolveRunInfo (D ts) n
              # calls (snd (terzaghi X gt is Nt mesh (L ts) g load props))) (take k tss))"
  proof (induction tss arbitrary: cs)
    case Nil
    show ?case by simp
  next
    case (Cons ts tss)
    let ?run = "terzaghi X gt is Nt mesh (L ts) g load props"
    let ?cs = "cs @ ExportSolveRunInfo (D ts) n # calls (snd ?run)"
    obtain e w where ew: "?run = (e, w)" by fastforce
    show ?case
    proof (cases "e = 0")
      case False
      then have "snd (mainDimless_solve X gt is m props Nt mesh ct g load (ts # tss) cs) = ?cs"
        by (simp add: step ew del: mainDimless_solve.simps)
      then show ?thesis by (intro exI[of _ 1]) simp
    next
      case True
      then have r: "snd (mainDimless_solve X gt is m props Nt mesh ct g load (ts # tss) cs)
          = snd (mainDimless_solve X gt is m props Nt mesh ct g load tss ?cs)"
        by (simp add: step ew del: mainDimless_solve.simps)
      from Cons[of ?cs] obtain k where k: "k \<le> length tss"
        "snd (mainDimless_solve X gt is m props Nt mesh ct g load tss ?cs) =
         ?cs @ concat (map (\<lambda>ts. ExportSolveRunInfo (D ts) n
              # calls (snd (terzaghi X gt is Nt mesh (L ts) g load props))) (take k tss))"
        by blast
      show ?thesis using k r by (intro exI[of _ "Suc k"]) simp
    qed
  qed
  then show ?thesis unfolding L_def D_def n_def .
qed

lemma mainDouble_solve_calls:
  "\<exists>k\<le>length tss. (tss \<noteq> [] \<longrightarrow> 0 < k) \<and>
     snd (mainDouble_solve X gt is m props Nt mesh ct g load tss cs) =
       cs @ concat (map (\<lambda>ts. ExportSolveRunInfo
                (real_of_int (Nt - 1) * (ct * ts) / real_of_int (Nt - 1)) (''Terzaghi_'' @ m)
              # calls (snd (terzaghiDouble X gt is Nt mesh (real_of_int (Nt - 1) * (ct * ts)) g load props)))
            (take k tss))"
proof -
  define L where "L = (\<lambda>ts. real_of_int (Nt - 1) * (ct * ts))"
  define D where "D = (\<lambda>ts. L ts / real_of_int (Nt - 1))"
  define n where "n = ''Terzaghi_'' @ m"
  have step: "mainDouble_solve X gt is m props Nt mesh ct g load (ts # tss) cs =
      (case terzaghiDouble X gt is Nt mesh (L ts) g load props of
          (ierr, w) \<Rightarrow>
            if ierr \<noteq> 0 then (ierr, (cs @ [ExportSolveRunInfo (D ts) n]) @ calls w)
            else mainDouble_solve X gt is m props Nt mesh ct g load tss
                   ((cs @ [ExportSolveRunInfo (D ts) n]) @ calls w))" for ts tss cs
    unfolding L_def D_def n_def by (simp only: mainDouble_solve.simps Let_def)
  have "\<exists>k\<le>length tss. (tss \<noteq> [] \<longrightarrow> 0 < k) \<and>
     snd (mainDouble_solve X gt is m props Nt mesh ct g load tss cs) =
       cs @ concat (map (\<lambda>ts. ExportSolveRunInfo (D ts) n
              # calls (snd (terzaghiDouble X gt is Nt mesh (L ts) g load props))) (take k tss))"
  proof (induction tss arbitrary: cs)
    case Nil
    show ?case by simp
  next
    case (Cons ts tss)
    let ?run = "terzaghiDouble X gt is Nt mesh (L ts) g load props"
    let ?cs = "cs @ ExportSolveRunInfo (D ts) n # calls (snd ?run)"
    obtain e w where ew: "?run = (e, w)" by fastforce
    show ?case
    proof (cases "e = 0")
      case False
      then have "snd (mainDouble_solve X gt is m props Nt mesh ct g load (ts # tss) cs) = ?cs"
        by (simp add: step ew del: mainDouble_solve.simps)
      then show ?thesis by (intro exI[of _ 1]) simp
    next
      case True
      then have r: "snd (mainDouble_solve X gt is m props Nt mesh ct g load (ts # tss) cs)
          = snd (mainDouble_solve X gt is m props Nt mesh ct g load tss ?cs)"
        by (simp add: step ew del: mainDouble_solve.simps)
      from Cons[of ?cs] obtain k where k: "k \<le> length tss"
        "snd (mainDouble_solve X gt is m props Nt mesh ct g load tss ?cs) =
         ?cs @ concat (map (\<lambda>ts. ExportSolveRunInfo (D ts) n
              # calls (snd (terzaghiDouble X gt is Nt mesh (L ts) g load props))) (take k tss))"
        by blast
      show ?thesis using k r by (intro exI[of _ "Suc k"]) simp
    qed
  qed
  then show ?thesis unfolding L_def D_def n_def .
qed

lemma snd_checked:
  "snd (case p of (ierr, cs) \<Rightarrow> if ierr \<noteq> 0 then (ierr, cs) else (fin, cs)) = snd p"
  by (cases p) simp

lemma mainDimless_calls:
  "\<exists>ct. snd (mainDimless X gt is m (Some file) 0 fin) =
     snd (mainDimless_solve X gt is m (file\<lparr>pairName := m\<rparr>) 2 3 ct 0 (- 10000)
            [0.25, 0.10, 0.05, 0.01] [CreateSolveRunInfo gt is ''Terzaghi''])"
  unfolding mainDimless_def Let_def
  by (simp only: option.case simp_thms if_False snd_checked) (rule exI, rule refl)

lemma mainDouble_calls:
  "\<exists>ct. snd (mainDouble X gt is m (Some file) 0 fin) =
     snd (mainDouble_solve X gt is m
            (file\<lparr>pairName := m, macroPorosity := porosity file * 1 / 3,
               porosity := porosity file * 2 / 3,
               macroPermeability := permeability file * 999 / 1000,
               permeability := permeability file / 1000\<rparr>) 2 3 ct 0 (- 10000)
            [0.25, 0.10] [CreateSolveRunInfo gt is ''Terzaghi''])"
  unfolding mainDouble_def Let_def
  apply (simp only: option.case simp_thms if_False snd_checked)
  apply (simp del: mainDouble_solve.simps)
  apply (rule exI, rule refl)
  done

lemma project_runs:
  "concat (map f (cs @ concat (map (\<lambda>ts. E ts # R ts) xs)))
     = concat (map f cs) @ concat (map (\<lambda>ts. f (E ts) @ concat (map f (R ts))) xs)"
  by (induction xs) simp_all

lemma mainDimless_proceeds:
  "gridsCreated (snd (mainDimless X gt is m (Some file) 0 fin)) \<noteq> []
   \<and> operatorArguments (snd (mainDimless X gt is m (Some file) 0 fin)) \<noteq> []
   \<and> list_all (\<lambda>a. a ! 3 = shearModulus file \<and> a ! 6 = permeability file
                    \<and> a ! 7 = fluidViscosity file)
         (operatorArguments (snd (mainDimless X gt is m (Some file) 0 fin)))"
proof -
  from mainDimless_calls obtain ct where ct: "snd (mainDimless X gt is m (Some file) 0 fin) =
     snd (mainDimless_solve X gt is m (file\<lparr>pairName := m\<rparr>) 2 3 ct 0 (- 10000)
            [0.25, 0.10, 0.05, 0.01] [CreateSolveRunInfo gt is ''Terzaghi''])" by blast
  from mainDimless_solve_calls[of "[0.25, 0.10, 0.05, 0.01]" X gt "is" m "file\<lparr>pairName := m\<rparr>" 2 3
      ct 0 "- 10000" "[CreateSolveRunInfo gt is ''Terzaghi'']"]
  obtain k where k: "0 < k" "snd (mainDimless X gt is m (Some file) 0 fin) =
       [CreateSolveRunInfo gt is ''Terzaghi''] @ concat (map (\<lambda>ts. ExportSolveRunInfo
                (real_of_int (2 - 1) * (ct * ts) / real_of_int (2 - 1)) (''Terzaghi_'' @ m)
              # calls (snd (terzaghi X gt is 2 3 (real_of_int (2 - 1) * (ct * ts)) 0 (- 10000)
                     (file\<lparr>pairName := m\<rparr>))))
            (take k [0.25, 0.10, 0.05, 0.01]))"
    unfolding ct by auto
  from k(1) have ne: "take k [0.25, 0.10, 0.05, 0.01::real] \<noteq> []" by simp
  show ?thesis
    unfolding k(2) operatorArguments_def gridsCreated_def project_runs
    using ne
    by (simp add: terzaghi_setup[OF refl refl refl refl, unfolded operatorArguments_def gridsCreated_def]
          operatorOf_def gridOf_def list_all_iff)
qed

lemma mainDouble_proceeds:
  "gridsCreated (snd (mainDouble X gt is m (Some file) 0 fin)) \<noteq> []
   \<and> operatorArguments (snd (mainDouble X gt is m (Some file) 0 fin)) \<noteq> []
   \<and> list_all (\<lambda>a. a ! 3 = shearModulus file \<and> a ! 6 = permeability file / 1000
                    \<and> a ! 7 = permeability file * 999 / 1000 \<and> a ! 8 = fluidViscosity file)
         (operatorArguments (snd (mainDouble X gt is m (Some file) 0 fin)))"
proof -
  let ?props = "file\<lparr>pairName := m, macroPorosity := porosity file * 1 / 3,
               porosity := porosity file * 2 / 3,
               macroPermeability := permeability file * 999 / 1000,
               permeability := permeability file / 1000\<rparr>"
  from mainDouble_calls obtain ct where ct: "snd (mainDouble X gt is m (Some file) 0 fin) =
     snd (mainDouble_solve X gt is m ?props 2 3 ct 0 (- 10000)
            [0.25, 0.10] [CreateSolveRunInfo gt is ''Terzaghi''])" by blast
  from mainDouble_solve_calls[of "[0.25, 0.10]" X gt "is" m ?props 2 3
      ct 0 "- 10000" "[CreateSolveRunInfo gt is ''Terzaghi'']"]
  obtain k where k: "0 < k" "snd (mainDouble X gt is m (Some file) 0 fin) =
       [CreateSolveRunInfo gt is ''Terzaghi''] @ concat (map (\<lambda>ts. ExportSolveRunInfo
                (real_of_int (2 - 1) * (ct * ts) / real_of_int (2 - 1)) (''Terzaghi_'' @ m)
              # calls (snd (terzaghiDouble X gt is 2 3 (real_of_int (2 - 1) * (ct * ts)) 0 (- 10000)
                     ?props)))
            (take k [0.25, 0.10]))"
    unfolding ct by auto
  from k(1) have ne: "take k [0.25, 0.10::real] \<noteq> []" by simp
  show ?thesis
    unfolding k(2) operatorArguments_def gridsCreated_def project_runs
    using ne
    by (simp add: terzaghiDouble_setup[OF refl refl refl refl refl refl refl,
            unfolded operatorArguments_def gridsCreated_def]
          operatorOf_def gridOf_def list_all_iff)
qed

lemma mainDimless_solve_succeeds:
  assumes "\<And>Lt. fst (terzaghi X gt is Nt mesh Lt g load props) = 0"
  shows "fst (mainDimless_solve X gt is m props Nt mesh ct g load tss cs) = 0"
  by (induction tss arbitrary: cs) (simp_all add: Let_def case_prod_beta assms)

lemma trial_terzaghi_two:
  "fst (terzaghi trial gt is 2 mesh Lt g load props) = 0"
  by (simp add: terzaghi_def Let_def run_defs trial_defs timeLoop_unfold)

lemma trial_mainDimless_returns:
  "fst (mainDimless trial gt is m (Some file) 0 0) = 0"
  unfolding mainDimless_def Let_def
  by (simp add: case_prod_beta mainDimless_solve_succeeds[OF trial_terzaghi_two]
        del: mainDimless_solve.simps)

subsection \<open>Material properties are not validated\<close>

text \<open>
  C8. The claim that a bundle with a zero or negative modulus, permeability or viscosity
  is rejected before grid creation and assembly fails: with a properties file whose
  permeability is \<open>-1\<close> \<^verbatim>\<open>main\<close> of \<^verbatim>\<open>mainDimless.cpp\<close> creates the grid, assembles
  the operator with the permeability \<open>-1\<close> and returns the status zero.
\<close>

theorem invalid_properties_are_not_rejected:
  "permeability negativePermeability < 0
   \<and> fst (mainDimless trial ''staggered'' ''NA'' ''negative'' (Some negativePermeability) 0 0) = 0
   \<and> gridsCreated (snd (mainDimless trial ''staggered'' ''NA'' ''negative''
          (Some negativePermeability) 0 0)) \<noteq> []
   \<and> operatorArguments (snd (mainDimless trial ''staggered'' ''NA'' ''negative''
          (Some negativePermeability) 0 0)) \<noteq> []
   \<and> hd (operatorArguments (snd (mainDimless trial ''staggered'' ''NA'' ''negative''
          (Some negativePermeability) 0 0))) ! 6 = - 1"
proof -
  let ?cs = "snd (mainDimless trial ''staggered'' ''NA'' ''negative''
          (Some negativePermeability) 0 0)"
  from mainDimless_proceeds[of trial "''staggered''" "''NA''" "''negative''" negativePermeability 0]
  have g: "gridsCreated ?cs \<noteq> []" and ne: "operatorArguments ?cs \<noteq> []"
    and all: "list_all (\<lambda>a. a ! 6 = permeability negativePermeability) (operatorArguments ?cs)"
    by (simp_all add: list_all_iff)
  from ne all have "hd (operatorArguments ?cs) ! 6 = permeability negativePermeability"
    by (cases "operatorArguments ?cs") simp_all
  then have "hd (operatorArguments ?cs) ! 6 = - 1" by (simp add: negativePermeability_def)
  moreover have "permeability negativePermeability < 0" by (simp add: negativePermeability_def)
  ultimately show ?thesis using g ne trial_mainDimless_returns by blast
qed

text \<open>
  C8, as the programs have it: no number of the properties file is checked. For every
  file that can be opened (and \<^verbatim>\<open>PetscInitialize\<close> returning zero) both programs
  create a grid and assemble the operator, and every operator assembly receives the shear
  modulus and the viscosity as read and the permeability as read (\<^verbatim>\<open>mainDimless\<close>) or
  split into its thousandth and the rest (\<^verbatim>\<open>mainDouble\<close>), whatever their signs.
\<close>

theorem properties_reach_assembly_unchecked:
  "gridsCreated (snd (mainDimless X myGridType myInterpScheme myMedium (Some inFile) 0 fin)) \<noteq> []
   \<and> operatorArguments (snd (mainDimless X myGridType myInterpScheme myMedium (Some inFile) 0 fin)) \<noteq> []
   \<and> list_all (\<lambda>a. a ! 3 = shearModulus inFile \<and> a ! 6 = permeability inFile
                    \<and> a ! 7 = fluidViscosity inFile)
         (operatorArguments (snd (mainDimless X myGridType myInterpScheme myMedium (Some inFile) 0 fin)))
   \<and> gridsCreated (snd (mainDouble X myGridType myInterpScheme myMedium (Some inFile) 0 fin)) \<noteq> []
   \<and> operatorArguments (snd (mainDouble X myGridType myInterpScheme myMedium (Some inFile) 0 fin)) \<noteq> []
   \<and> list_all (\<lambda>a. a ! 3 = shearModulus inFile \<and> a ! 6 = permeability inFile / 1000
                    \<and> a ! 7 = permeability inFile * 999 / 1000 \<and> a ! 8 = fluidViscosity inFile)
         (operatorArguments (snd (mainDouble X myGridType myInterpScheme myMedium (Some inFile) 0 fin)))"
  using mainDimless_proceeds mainDouble_proceeds by blast

lemma runShape_all:
  assumes "runShape pre asmC macro Nt post e tr" and "partsOK pre asmC post"
    and "\<And>c. c \<in> set pre \<Longrightarrow> Q c" and "\<And>t c. c \<in> set (asmC t) \<Longrightarrow> Q c"
    and "\<And>c. fallible c \<or> c = PassingIndependentTermsArray \<or> c = PassingSolutions \<or> dataCall c
           \<Longrightarrow> Q c"
    and "c \<in> set tr"
  shows "Q c"
  using runShape_members[OF assms(1,6)] assms(2-5)
  by (auto simp: partsOK_def list_all_iff)

lemma dtOf_other:
  "fallible c \<or> c = PassingIndependentTermsArray \<or> c = PassingSolutions \<or> dataCall c
     \<Longrightarrow> dtOf c = []"
  by (cases c) (auto simp: dtOf_def)

lemma operator_has_dt:
  "operatorArguments cs \<noteq> [] \<Longrightarrow> timeStepSizes cs \<noteq> []"
  by (auto simp: operatorArguments_def timeStepSizes_def operatorOf_def dtOf_def
        split: call.splits)

lemma sealedColumn_dt:
  assumes "new_gridDesign (GP X) = gridDesign_spec members"
    and "c \<in> set (calls (snd (sealedColumn X gridType interpScheme Nt meshSize Lt g sigmab myProperties)))"
  shows "list_all (\<lambda>dt. dt = Lt / real_of_int (Nt - 1)) (dtOf c)"
  apply (rule runShape_all[OF sealedColumn_shape[OF prod.collapse[symmetric] refl refl refl refl] _ _ _ _ assms(2)])
     apply (simp add: partsOK_def list_all_iff)
    apply (auto simp: dtOf_def assms(1) gridDesign_spec_def)[1]
   apply (auto simp: dtOf_def assms(1) gridDesign_spec_def)[1]
  apply (simp add: dtOf_other)
  done

lemma terzaghi_dt:
  assumes "new_gridDesign (GP X) = gridDesign_spec members"
    and "c \<in> set (calls (snd (terzaghi X gridType interpScheme Nt meshSize Lt g sigmab myProperties)))"
  shows "list_all (\<lambda>dt. dt = Lt / real_of_int (Nt - 1)) (dtOf c)"
  apply (rule runShape_all[OF terzaghi_shape[OF prod.collapse[symmetric] refl refl refl refl] _ _ _ _ assms(2)])
     apply (simp add: partsOK_def list_all_iff)
    apply (auto simp: dtOf_def assms(1) gridDesign_spec_def)[1]
   apply (auto simp: dtOf_def assms(1) gridDesign_spec_def)[1]
  apply (simp add: dtOf_other)
  done

lemma mandel_dt:
  assumes "new_gridDesign (GP X) = gridDesign_spec members"
    and "c \<in> set (calls (snd (mandel X gridType interpScheme Nt meshSize Lt g sigmab myProperties)))"
  shows "list_all (\<lambda>dt. dt = Lt / real_of_int (Nt - 1)) (dtOf c)"
  apply (rule runShape_all[OF mandel_shape[OF prod.collapse[symmetric] refl refl refl refl] _ _ _ _ assms(2)])
     apply (simp add: partsOK_def list_all_iff)
    apply (auto simp: dtOf_def assms(1) gridDesign_spec_def)[1]
   apply (auto simp: dtOf_def assms(1) gridDesign_spec_def)[1]
  apply (simp add: dtOf_other)
  done

lemma convergence_dt:
  assumes "new_gridDesign (GP X) = gridDesign_spec members"
    and "c \<in> set (calls (snd (convergence X gridType interpScheme Nt meshSize Lt g sigmab myProperties)))"
  shows "list_all (\<lambda>dt. dt = Lt / real_of_int (Nt - 1)) (dtOf c)"
  apply (rule runShape_all[OF convergence_shape[OF prod.collapse[symmetric] refl refl refl refl] _ _ _ _ assms(2)])
     apply (simp add: partsOK_def list_all_iff)
    apply (auto simp: dtOf_def assms(1) gridDesign_spec_def)[1]
   apply (auto simp: dtOf_def assms(1) gridDesign_spec_def)[1]
  apply (simp add: dtOf_other)
  done

lemma stripfoot_dt:
  assumes "new_gridDesign (GP X) = gridDesign_spec members"
    and "c \<in> set (calls (snd (stripfoot X gridType interpScheme Nt meshSize Lt g sigmab myProperties)))"
  shows "list_all (\<lambda>dt. dt = Lt / real_of_int (Nt - 1)) (dtOf c)"
  apply (rule runShape_all[OF stripfoot_shape[OF prod.collapse[symmetric] refl refl refl refl] _ _ _ _ assms(2)])
     apply (simp add: partsOK_def list_all_iff)
    apply (auto simp: dtOf_def assms(1) gridDesign_spec_def)[1]
   apply (auto simp: dtOf_def assms(1) gridDesign_spec_def)[1]
  apply (simp add: dtOf_other)
  done

lemma terzaghiDouble_dt:
  assumes "new_gridDesign (GP X) = gridDesign_spec members"
    and "c \<in> set (calls (snd (terzaghiDouble X gridType interpScheme Nt meshSize Lt g sigmab myProperties)))"
  shows "list_all (\<lambda>dt. dt = Lt / real_of_int (Nt - 1)) (dtOf c)"
  apply (rule runShape_all[OF terzaghiDouble_shape[OF prod.collapse[symmetric] refl refl refl refl refl refl refl] _ _ _ _ assms(2)])
     apply (simp add: partsOK_def list_all_iff)
    apply (auto simp: dtOf_def assms(1) gridDesign_spec_def)[1]
   apply (auto simp: dtOf_def assms(1) gridDesign_spec_def)[1]
  apply (simp add: dtOf_other)
  done

lemma stripfootDouble_dt:
  assumes "new_gridDesign (GP X) = gridDesign_spec members"
    and "c \<in> set (calls (snd (stripfootDouble X gridType interpScheme Nt meshSize Lt g sigmab myProperties)))"
  shows "list_all (\<lambda>dt. dt = Lt / real_of_int (Nt - 1)) (dtOf c)"
  apply (rule runShape_all[OF stripfootDouble_shape[OF prod.collapse[symmetric] refl refl refl refl refl refl refl] _ _ _ _ assms(2)])
     apply (simp add: partsOK_def list_all_iff)
    apply (auto simp: dtOf_def assms(1) gridDesign_spec_def)[1]
   apply (auto simp: dtOf_def assms(1) gridDesign_spec_def)[1]
  apply (simp add: dtOf_other)
  done

lemma sealedDouble_dt:
  assumes "new_gridDesign (GP X) = gridDesign_spec members"
    and "c \<in> set (calls (snd (sealedDouble X gridType interpScheme Nt meshSize Lt g sigmab myProperties)))"
  shows "list_all (\<lambda>dt. dt = Lt / real_of_int (Nt - 1)) (dtOf c)"
  apply (rule runShape_all[OF sealedDouble_shape[OF prod.collapse[symmetric] refl refl refl refl refl refl refl] _ _ _ _ assms(2)])
     apply (simp add: partsOK_def list_all_iff)
    apply (auto simp: dtOf_def assms(1) gridDesign_spec_def)[1]
   apply (auto simp: dtOf_def assms(1) gridDesign_spec_def)[1]
  apply (simp add: dtOf_other)
  done

lemma storageDouble_dt:
  assumes "new_gridDesign (GP X) = gridDesign_spec members"
    and "c \<in> set (calls (snd (storageDouble X gridType interpScheme Nt meshSize Lt g sigmab myProperties)))"
  shows "list_all (\<lambda>dt. dt = Lt / real_of_int (Nt - 1)) (dtOf c)"
  apply (rule runShape_all[OF storageDouble_shape[OF prod.collapse[symmetric] refl refl refl refl refl refl refl] _ _ _ _ assms(2)])
     apply (simp add: partsOK_def list_all_iff)
    apply (auto simp: dtOf_def assms(1) gridDesign_spec_def)[1]
   apply (auto simp: dtOf_def assms(1) gridDesign_spec_def)[1]
  apply (simp add: dtOf_other)
  done

lemma leakingDouble_dt:
  assumes "new_gridDesign (GP X) = gridDesign_spec members"
    and "c \<in> set (calls (snd (leakingDouble X gridType interpScheme Nt meshSize Lt g sigmab myProperties)))"
  shows "list_all (\<lambda>dt. dt = Lt / real_of_int (Nt - 1)) (dtOf c)"
  apply (rule runShape_all[OF leakingDouble_shape[OF prod.collapse[symmetric] refl refl refl refl refl refl refl] _ _ _ _ assms(2)])
     apply (simp add: partsOK_def list_all_iff)
    apply (auto simp: dtOf_def assms(1) gridDesign_spec_def)[1]
   apply (auto simp: dtOf_def assms(1) gridDesign_spec_def)[1]
  apply (simp add: dtOf_other)
  done

lemma driver_dt:
  assumes "new_gridDesign (GP X) = gridDesign_spec members"
  shows "timeStepSizes (calls (snd (driver b X gridType interpScheme Nt meshSize Lt g sigmab myProperties))) \<noteq> []
    \<and> list_all (\<lambda>dt. dt = Lt / real_of_int (Nt - 1))
         (timeStepSizes (calls (snd (driver b X gridType interpScheme Nt meshSize Lt g sigmab myProperties))))"
proof (cases b)
  case SealedColumn
  have "timeStepSizes (calls (snd (sealedColumn X gridType interpScheme Nt meshSize Lt g sigmab myProperties))) \<noteq> []"
    by (rule operator_has_dt) (simp add: sealedColumn_setup(1)[OF refl refl refl refl])
  then show ?thesis unfolding SealedColumn driver.simps
    using sealedColumn_dt[OF assms] by (simp add: timeStepSizes_def list_all_iff)
next
  case Terzaghi
  have "timeStepSizes (calls (snd (terzaghi X gridType interpScheme Nt meshSize Lt g sigmab myProperties))) \<noteq> []"
    by (rule operator_has_dt) (simp add: terzaghi_setup(1)[OF refl refl refl refl])
  then show ?thesis unfolding Terzaghi driver.simps
    using terzaghi_dt[OF assms] by (simp add: timeStepSizes_def list_all_iff)
next
  case Mandel
  have "timeStepSizes (calls (snd (mandel X gridType interpScheme Nt meshSize Lt g sigmab myProperties))) \<noteq> []"
    by (rule operator_has_dt) (simp add: mandel_setup(1)[OF refl refl refl refl])
  then show ?thesis unfolding Mandel driver.simps
    using mandel_dt[OF assms] by (simp add: timeStepSizes_def list_all_iff)
next
  case Convergence
  have "timeStepSizes (calls (snd (convergence X gridType interpScheme Nt meshSize Lt g sigmab myProperties))) \<noteq> []"
    by (rule operator_has_dt) (simp add: convergence_setup(1)[OF refl refl refl refl])
  then show ?thesis unfolding Convergence driver.simps
    using convergence_dt[OF assms] by (simp add: timeStepSizes_def list_all_iff)
next
  case Stripfoot
  have "timeStepSizes (calls (snd (stripfoot X gridType interpScheme Nt meshSize Lt g sigmab myProperties))) \<noteq> []"
    by (rule operator_has_dt) (simp add: stripfoot_setup(1)[OF refl refl refl refl])
  then show ?thesis unfolding Stripfoot driver.simps
    using stripfoot_dt[OF assms] by (simp add: timeStepSizes_def list_all_iff)
next
  case TerzaghiDouble
  have "timeStepSizes (calls (snd (terzaghiDouble X gridType interpScheme Nt meshSize Lt g sigmab myProperties))) \<noteq> []"
    by (rule operator_has_dt) (simp add: terzaghiDouble_setup(1)[OF refl refl refl refl refl refl refl])
  then show ?thesis unfolding TerzaghiDouble driver.simps
    using terzaghiDouble_dt[OF assms] by (simp add: timeStepSizes_def list_all_iff)
next
  case StripfootDouble
  have "timeStepSizes (calls (snd (stripfootDouble X gridType interpScheme Nt meshSize Lt g sigmab myProperties))) \<noteq> []"
    by (rule operator_has_dt) (simp add: stripfootDouble_setup(1)[OF refl refl refl refl refl refl refl])
  then show ?thesis unfolding StripfootDouble driver.simps
    using stripfootDouble_dt[OF assms] by (simp add: timeStepSizes_def list_all_iff)
next
  case SealedDouble
  have "timeStepSizes (calls (snd (sealedDouble X gridType interpScheme Nt meshSize Lt g sigmab myProperties))) \<noteq> []"
    by (rule operator_has_dt) (simp add: sealedDouble_setup(1)[OF refl refl refl refl refl refl refl])
  then show ?thesis unfolding SealedDouble driver.simps
    using sealedDouble_dt[OF assms] by (simp add: timeStepSizes_def list_all_iff)
next
  case StorageDouble
  have "timeStepSizes (calls (snd (storageDouble X gridType interpScheme Nt meshSize Lt g sigmab myProperties))) \<noteq> []"
    by (rule operator_has_dt) (simp add: storageDouble_setup(1)[OF refl refl refl refl refl refl refl])
  then show ?thesis unfolding StorageDouble driver.simps
    using storageDouble_dt[OF assms] by (simp add: timeStepSizes_def list_all_iff)
next
  case LeakingDouble
  have "timeStepSizes (calls (snd (leakingDouble X gridType interpScheme Nt meshSize Lt g sigmab myProperties))) \<noteq> []"
    by (rule operator_has_dt) (simp add: leakingDouble_setup(1)[OF refl refl refl refl refl refl refl])
  then show ?thesis unfolding LeakingDouble driver.simps
    using leakingDouble_dt[OF assms] by (simp add: timeStepSizes_def list_all_iff)
qed

lemma main_runInfo_project:
  assumes "\<And>ts. runInfoTimeSteps (R ts) = []"
    and "\<And>ts. gridsCreated (R ts) = [(Nx, Ny, Nt, Lx, Ly, L ts)]"
  shows "runInfoTimeSteps ([CreateSolveRunInfo a b c]
            @ concat (map (\<lambda>ts. ExportSolveRunInfo (L ts / real_of_int (Nt - 1)) n # R ts) xs))
     = map (\<lambda>(Nx, Ny, Nt, Lx, Ly, Lt). Lt / real_of_int (Nt - 1))
         (gridsCreated ([CreateSolveRunInfo a b c]
            @ concat (map (\<lambda>ts. ExportSolveRunInfo (L ts / real_of_int (Nt - 1)) n # R ts) xs)))"
proof -
  have a: "\<And>ts. concat (map runInfoOf (R ts)) = []"
    using assms(1) unfolding runInfoTimeSteps_def .
  have b: "\<And>ts. concat (map gridOf (R ts)) = [(Nx, Ny, Nt, Lx, Ly, L ts)]"
    using assms(2) unfolding gridsCreated_def .
  have c: "\<And>d n. runInfoOf (ExportSolveRunInfo d n) = [d]"
    "\<And>a b c. runInfoOf (CreateSolveRunInfo a b c) = []"
    by (simp_all add: runInfoOf_def)
  have d: "\<And>d n. gridOf (ExportSolveRunInfo d n) = []"
    "\<And>a b c. gridOf (CreateSolveRunInfo a b c) = []"
    by (simp_all add: gridOf_def)
  show ?thesis
    unfolding runInfoTimeSteps_def gridsCreated_def project_runs
    by (induction xs) (simp_all add: a b c d)
qed

lemma mainDimless_runInfo:
  "runInfoTimeSteps (snd (mainDimless X myGridType myInterpScheme myMedium inFile init fin))
     = map (\<lambda>(Nx, Ny, Nt, Lx, Ly, Lt). Lt / real_of_int (Nt - 1))
         (gridsCreated (snd (mainDimless X myGridType myInterpScheme myMedium inFile init fin)))"
proof (cases inFile)
  case None
  then show ?thesis by (simp add: mainDimless_def runInfoTimeSteps_def gridsCreated_def)
next
  case (Some f)
  show ?thesis
  proof (cases "init = 0")
    case False
    with Some show ?thesis
      by (simp add: mainDimless_def Let_def runInfoTimeSteps_def gridsCreated_def
            del: mainDimless_solve.simps)
  next
    case True
    from mainDimless_calls obtain ct where
      ct: "snd (mainDimless X myGridType myInterpScheme myMedium (Some f) 0 fin) =
        snd (mainDimless_solve X myGridType myInterpScheme myMedium (f\<lparr>pairName := myMedium\<rparr>) 2 3
          ct 0 (- 10000) [0.25, 0.10, 0.05, 0.01]
          [CreateSolveRunInfo myGridType myInterpScheme ''Terzaghi''])" by blast
    from mainDimless_solve_calls[of "[0.25, 0.10, 0.05, 0.01]" X myGridType myInterpScheme
        myMedium "f\<lparr>pairName := myMedium\<rparr>" 2 3 ct 0 "- 10000"
        "[CreateSolveRunInfo myGridType myInterpScheme ''Terzaghi'']"]
    obtain k where k: "snd (mainDimless X myGridType myInterpScheme myMedium (Some f) 0 fin) =
       [CreateSolveRunInfo myGridType myInterpScheme ''Terzaghi''] @ concat (map (\<lambda>ts.
          ExportSolveRunInfo (real_of_int (2 - 1) * (ct * ts) / real_of_int (2 - 1))
            (''Terzaghi_'' @ myMedium)
          # calls (snd (terzaghi X myGridType myInterpScheme 2 3 (real_of_int (2 - 1) * (ct * ts))
                 0 (- 10000) (f\<lparr>pairName := myMedium\<rparr>))))
        (take k [0.25, 0.10, 0.05, 0.01]))"
      unfolding ct by auto
    show ?thesis unfolding Some True k
      by (rule main_runInfo_project[where Nx = 3 and Ny = "6 * 3" and Lx = 1 and Ly = 6])
         (simp_all add: driver_no_runInfo[of Terzaghi, simplified]
            terzaghi_setup(2)[OF refl refl refl refl])
  qed
qed

lemma mainDouble_runInfo:
  "runInfoTimeSteps (snd (mainDouble X myGridType myInterpScheme myMedium inFile init fin))
     = map (\<lambda>(Nx, Ny, Nt, Lx, Ly, Lt). Lt / real_of_int (Nt - 1))
         (gridsCreated (snd (mainDouble X myGridType myInterpScheme myMedium inFile init fin)))"
proof (cases inFile)
  case None
  then show ?thesis by (simp add: mainDouble_def runInfoTimeSteps_def gridsCreated_def)
next
  case (Some f)
  show ?thesis
  proof (cases "init = 0")
    case False
    with Some show ?thesis
      by (simp add: mainDouble_def Let_def runInfoTimeSteps_def gridsCreated_def
            del: mainDouble_solve.simps)
  next
    case True
    let ?props = "f\<lparr>pairName := myMedium, macroPorosity := porosity f * 1 / 3,
               porosity := porosity f * 2 / 3,
               macroPermeability := permeability f * 999 / 1000,
               permeability := permeability f / 1000\<rparr>"
    from mainDouble_calls obtain ct where
      ct: "snd (mainDouble X myGridType myInterpScheme myMedium (Some f) 0 fin) =
        snd (mainDouble_solve X myGridType myInterpScheme myMedium ?props 2 3
          ct 0 (- 10000) [0.25, 0.10]
          [CreateSolveRunInfo myGridType myInterpScheme ''Terzaghi''])" by blast
    from mainDouble_solve_calls[of "[0.25, 0.10]" X myGridType myInterpScheme
        myMedium ?props 2 3 ct 0 "- 10000"
        "[CreateSolveRunInfo myGridType myInterpScheme ''Terzaghi'']"]
    obtain k where k: "snd (mainDouble X myGridType myInterpScheme myMedium (Some f) 0 fin) =
       [CreateSolveRunInfo myGridType myInterpScheme ''Terzaghi''] @ concat (map (\<lambda>ts.
          ExportSolveRunInfo (real_of_int (2 - 1) * (ct * ts) / real_of_int (2 - 1))
            (''Terzaghi_'' @ myMedium)
          # calls (snd (terzaghiDouble X myGridType myInterpScheme 2 3
                 (real_of_int (2 - 1) * (ct * ts)) 0 (- 10000) ?props)))
        (take k [0.25, 0.10]))"
      unfolding ct by auto
    show ?thesis unfolding Some True k
      by (rule main_runInfo_project[where Nx = 3 and Ny = "6 * 3" and Lx = 1 and Ly = 6])
         (simp_all add: driver_no_runInfo[of TerzaghiDouble, simplified]
            terzaghiDouble_setup(2)[OF refl refl refl refl refl refl refl])
  qed
qed

subsection \<open>The time-step size\<close>

text \<open>
  C6. With the grid constructor of the specification and \<open>Nt \<ge> 2\<close>, every assembly call of
  every driver run, of the operator and of the right-hand side, receives the time-step
  size \<open>dt = Lt / (Nt - 1)\<close>. The time-step size that the two main functions hand to
  \<^verbatim>\<open>exportSolveRunInfo\<close> is \<open>Lt / (Nt - 1)\<close> for the \<open>Nt\<close> and \<open>Lt\<close> with which the grid of
  the same run is created.
\<close>

theorem time_step_size_of_grid:
  assumes "2 \<le> Nt" and "new_gridDesign (GP X) = gridDesign_spec members"
    and "driver b X gridType interpScheme Nt meshSize Lt g sigmab myProperties = (ierr, w)"
  shows "timeStepSizes (calls w) \<noteq> []
    \<and> list_all (\<lambda>dt. dt = Lt / real_of_int (Nt - 1)) (timeStepSizes (calls w))
    \<and> runInfoTimeSteps (snd (mainDimless X myGridType myInterpScheme myMedium inFile init fin))
        = map (\<lambda>(Nx, Ny, Nt, Lx, Ly, Lt). Lt / real_of_int (Nt - 1))
            (gridsCreated (snd (mainDimless X myGridType myInterpScheme myMedium inFile init fin)))
    \<and> runInfoTimeSteps (snd (mainDouble X myGridType myInterpScheme myMedium inFile init fin))
        = map (\<lambda>(Nx, Ny, Nt, Lx, Ly, Lt). Lt / real_of_int (Nt - 1))
            (gridsCreated (snd (mainDouble X myGridType myInterpScheme myMedium inFile init fin)))"
proof -
  from assms(3)
  have w: "w = snd (driver b X gridType interpScheme Nt meshSize Lt g sigmab myProperties)"
    by simp
  show ?thesis unfolding w
    by (intro conjI driver_dt[OF assms(2), THEN conjunct1] driver_dt[OF assms(2), THEN conjunct2]
          mainDimless_runInfo mainDouble_runInfo)
qed

theorem time_step_size_of_grid_witness:
  "(2::int) \<le> 3
   \<and> new_gridDesign (GP trial)
       = gridDesign_spec (\<lambda>Nx Ny Nt Lx Ly Lt gridType sCoordinates. trialGrid)
   \<and> timeStepSizes (calls (snd (driver SealedDouble trial ''staggered'' ''NA'' 3 1 7 0 (- 10000)
        trialProperties))) \<noteq> []
   \<and> list_all (\<lambda>dt. dt = 7 / 2)
        (timeStepSizes (calls (snd (driver SealedDouble trial ''staggered'' ''NA'' 3 1 7 0 (- 10000)
           trialProperties))))"
proof -
  let ?R = "driver SealedDouble trial ''staggered'' ''NA'' 3 1 7 0 (- 10000) trialProperties"
  have a: "(2::int) \<le> 3" by simp
  have b: "new_gridDesign (GP trial)
       = gridDesign_spec (\<lambda>Nx Ny Nt Lx Ly Lt gridType sCoordinates. trialGrid)"
    by (simp add: trial_def trialSetup_def)
  have c: "?R = (fst ?R, snd ?R)" by simp
  from time_step_size_of_grid[OF a b c] a b show ?thesis by simp
qed

lemma solve_step_unfactored:
  "solverState s = Unfactored \<Longrightarrow> solve_step triangular rhs s = Inl StateContractError"
  by (simp add: solve_step_def)

lemma serve_needs_factorization:
  assumes "serve lu triangular requests s = Inr (xs, s')" and "xs \<noteq> []"
    and "solverState s = Unfactored"
  shows "\<exists>operator rest. requests = Factorize operator # rest \<and> lu operator \<noteq> None"
proof (cases requests)
  case Nil
  with assms show ?thesis by simp
next
  case (Cons r rest)
  show ?thesis
  proof (cases r)
    case (Factorize operator)
    with Cons assms show ?thesis
      by (auto simp: factorize_def split: sum.splits option.splits)
  next
    case (SolveStep rhs)
    with Cons assms show ?thesis by (simp add: solve_step_def)
  qed
qed

subsection \<open>No solve without a factorization\<close>

text \<open>
  C7. In the solver of the specification a solve step on a solver that is still
  Unfactored returns the state-contract error and no solution; and a run of requests from
  a new solver that returns any solution began with a factorization that succeeded.
\<close>

theorem solve_without_factorize_fails:
  "(solverState s = Unfactored \<longrightarrow> solve_step triangular rhs s = Inl StateContractError)
   \<and> (serve lu triangular requests (newSolver n) = Inr (xs, s') \<and> xs \<noteq> []
        \<longrightarrow> (\<exists>operator rest. requests = Factorize operator # rest \<and> lu operator \<noteq> None))"
  using solve_step_unfactored[of s triangular rhs]
    serve_needs_factorization[of lu triangular requests "newSolver n" xs s']
  by (simp add: newSolver_def)

theorem solve_without_factorize_fails_witness:
  "solverState (newSolver 2 :: unit timeSteppingSolver) = Unfactored
   \<and> solve_step (\<lambda>f rhs. rhs) [1, 2] (newSolver 2 :: unit timeSteppingSolver)
       = Inl StateContractError
   \<and> serve (\<lambda>m. Some ()) (\<lambda>f rhs. rhs) [Factorize (), SolveStep [1, 2]] (newSolver 2)
       = Inr ([[1, 2]], \<lparr>solverState = Solving, factorization = Some (), dimension = 2,
                buffer = [0, 0]\<rparr>)
   \<and> [[1, 2 :: real]] \<noteq> []"
proof -
  have a: "solverState (newSolver 2 :: unit timeSteppingSolver) = Unfactored"
    by (simp add: newSolver_def)
  have b: "serve (\<lambda>m. Some ()) (\<lambda>f rhs. rhs) [Factorize (), SolveStep [1, 2]] (newSolver 2)
       = Inr ([[1, 2]], \<lparr>solverState = Solving, factorization = Some (), dimension = 2,
                buffer = [0, 0]\<rparr>)"
    by (simp add: newSolver_def factorize_def solve_step_def numeral_2_eq_2)
  from solve_without_factorize_fails[of "newSolver 2 :: unit timeSteppingSolver" "\<lambda>f rhs. rhs"
      "[1, 2]" "\<lambda>m. Some ()" "[Factorize (), SolveStep [1, 2]]" 2 "[[1, 2]]"
      "\<lparr>solverState = Solving, factorization = Some (), dimension = 2, buffer = [0, 0]\<rparr>"]
    a b
  show ?thesis by simp
qed

subsection \<open>Variant calls after the base assembly\<close>

lemmas is_defs = isAssemblyCoefficientsMatrix_def isAssemblyMandelCoefficientsMatrix_def
  isCoefficientsAddStripfootBC_def isCoefficientsAddMacroStripfootBC_def
  isAssemblyIndependentTermsArray_def isAssemblyMandelIndependentTermsArray_def
  isIndependentTermsAddStripfootBC_def isIndependentTermsAddMacroStripfootBC_def

lemma assemblyStep_kinds:
  "rhsAssemblyCall c \<Longrightarrow> assemblyStep c"
  "dataCall c \<Longrightarrow> \<not> assemblyStep c"
  by (cases c; simp add: assemblyStep_def)+

lemma filter_stepCalls:
  "filter assemblyStep (stepCalls macro t) = [PassingIndependentTermsArray]"
  by (cases macro) (simp_all add: stepCalls_def assemblyStep_def)

lemma variantOrder_rhsBase: "rhsBase b \<Longrightarrow> variantOrder lo lr a b"
  by (cases b) (simp_all add: variantOrder_def)

lemma loopCalls_variantOrder:
  assumes "\<forall>t. list_all rhsAssemblyCall (asmC t)
      \<and> successively (variantOrder lo lr) (asmC t @ [PassingIndependentTermsArray])
      \<and> asmC t \<noteq> [] \<and> rhsBase (hd (asmC t))"
  shows "successively (variantOrder lo lr) (filter assemblyStep (loopCalls asmC macro t n))
     \<and> (filter assemblyStep (loopCalls asmC macro t n) \<noteq> []
          \<longrightarrow> rhsBase (hd (filter assemblyStep (loopCalls asmC macro t n))))"
proof (induction n arbitrary: t)
  case 0
  show ?case by simp
next
  case (Suc n)
  let ?rest = "filter assemblyStep (loopCalls asmC macro (t + 1) n)"
  from assms have all: "\<And>c. c \<in> set (asmC t) \<Longrightarrow> rhsAssemblyCall c"
    and s: "successively (variantOrder lo lr) (asmC t @ [PassingIndependentTermsArray])"
    and ne: "asmC t \<noteq> []" and hd: "rhsBase (hd (asmC t))"
    by (auto simp: list_all_iff)
  have f: "filter assemblyStep (asmC t) = asmC t"
    using all assemblyStep_kinds(1) by (simp add: filter_id_conv)
  have eq: "filter assemblyStep (loopCalls asmC macro t (Suc n))
      = (asmC t @ [PassingIndependentTermsArray]) @ ?rest"
    by (simp add: f filter_stepCalls)
  have "successively (variantOrder lo lr) ((asmC t @ [PassingIndependentTermsArray]) @ ?rest)"
    using s Suc[of "t + 1"] variantOrder_rhsBase
    by (simp only: successively_append_iff) auto
  moreover have "rhsBase (hd ((asmC t @ [PassingIndependentTermsArray]) @ ?rest))"
    using ne hd by simp
  ultimately show ?case unfolding eq by simp
qed

lemma runShape_variantOrder:
  assumes sh: "runShape pre asmC macro Nt post e tr" and ok: "partsOK pre asmC post"
    and pre: "successively (variantOrder lo lr) (filter assemblyStep pre)"
    and asm: "\<forall>t. successively (variantOrder lo lr) (asmC t @ [PassingIndependentTermsArray])
                \<and> rhsBase (hd (asmC t))"
  shows "successively (variantOrder lo lr) (filter assemblyStep tr)"
proof -
  let ?loop = "loopCalls asmC macro 0 (nat (Nt - 1))"
  from sh obtain ys where ys: "tr = pre @ CoefficientsMatrixLUFactorization # ys"
    "prefix ys ([CreatePETScArrays, ZeroPETScArrays] @ ?loop @ post)"
    unfolding runShape_def by blast
  from ok have a: "\<forall>t. list_all rhsAssemblyCall (asmC t)
      \<and> successively (variantOrder lo lr) (asmC t @ [PassingIndependentTermsArray])
      \<and> asmC t \<noteq> [] \<and> rhsBase (hd (asmC t))"
    and post: "\<And>c. c \<in> set post \<Longrightarrow> dataCall c"
    using asm by (auto simp: partsOK_def list_all_iff)
  have fp: "filter assemblyStep post = []"
    using post assemblyStep_kinds(2) by (auto simp add: filter_empty_conv)
  have full: "filter assemblyStep ([CreatePETScArrays, ZeroPETScArrays] @ ?loop @ post)
      = filter assemblyStep ?loop"
    by (simp add: fp assemblyStep_def)
  note lp = loopCalls_variantOrder[OF a, where macro = macro and t = 0 and n = "nat (Nt - 1)"]
  have "successively (variantOrder lo lr) (filter assemblyStep pre @ filter assemblyStep ?loop)"
    using pre lp variantOrder_rhsBase
    by (simp only: successively_append_iff) auto
  moreover have "prefix (filter assemblyStep ys) (filter assemblyStep ?loop)"
    using filter_mono_prefix[OF ys(2), of assemblyStep] by (simp only: full)
  then have "prefix (filter assemblyStep pre @ filter assemblyStep ys)
      (filter assemblyStep pre @ filter assemblyStep ?loop)"
    by simp
  ultimately have "successively (variantOrder lo lr)
      (filter assemblyStep pre @ filter assemblyStep ys)"
    by (rule successively_prefix[rotated])
  then show ?thesis unfolding ys(1) by (simp add: assemblyStep_def)
qed


lemma runShape_assemblySteps_pre:
  assumes "runShape pre asmC macro Nt post e tr"
  shows "\<exists>rest. filter assemblyStep tr = filter assemblyStep pre @ rest"
proof -
  from assms obtain ys where "tr = pre @ CoefficientsMatrixLUFactorization # ys"
    unfolding runShape_def by blast
  then show ?thesis by simp
qed

lemma mandel_variants:
  "(\<exists>scalars args rest.
      assemblySteps (calls (snd (mandel X gridType interpScheme Nt meshSize Lt g forceb myProperties)))
        = AssemblyCoefficientsMatrix scalars # AssemblyMandelCoefficientsMatrix args
            # LinearSystemSolver Nt # rest)
   \<and> successively (variantOrder isAssemblyMandelCoefficientsMatrix
          isAssemblyMandelIndependentTermsArray)
        (assemblySteps (calls (snd (mandel X gridType interpScheme Nt meshSize Lt g forceb
           myProperties))))"
proof -
  note sh = mandel_shape[OF prod.collapse[symmetric] refl refl refl refl,
      where X = X and gridType = gridType and interpScheme = interpScheme and Nt = Nt
        and meshSize = meshSize and Lt = Lt and g = g and forceb = forceb
        and myProperties = myProperties]
  have "successively (variantOrder isAssemblyMandelCoefficientsMatrix
          isAssemblyMandelIndependentTermsArray)
        (filter assemblyStep (calls (snd (mandel X gridType interpScheme Nt meshSize Lt g forceb
           myProperties))))"
    apply (rule runShape_variantOrder[OF sh])
      apply (simp add: partsOK_def list_all_iff)
     apply (simp add: assemblyStep_def variantOrder_def is_defs)
    apply (simp add: variantOrder_def is_defs)
    done
  moreover from runShape_assemblySteps_pre[OF sh] have "\<exists>scalars args rest.
      filter assemblyStep (calls (snd (mandel X gridType interpScheme Nt meshSize Lt g forceb myProperties)))
        = AssemblyCoefficientsMatrix scalars # AssemblyMandelCoefficientsMatrix args
            # LinearSystemSolver Nt # rest"
    by (elim exE) (simp add: assemblyStep_def)
  ultimately show ?thesis unfolding assemblySteps_def by blast
qed

lemma stripfoot_variants:
  "(\<exists>scalars stripSize K mu_f rest.
      assemblySteps (calls (snd (stripfoot X gridType interpScheme Nt meshSize Lt g sigmab myProperties)))
        = AssemblyCoefficientsMatrix scalars # CoefficientsAddStripfootBC stripSize K mu_f
            # LinearSystemSolver Nt # rest)
   \<and> successively (variantOrder isCoefficientsAddStripfootBC isIndependentTermsAddStripfootBC)
        (assemblySteps (calls (snd (stripfoot X gridType interpScheme Nt meshSize Lt g sigmab
           myProperties))))"
proof -
  note sh = stripfoot_shape[OF prod.collapse[symmetric] refl refl refl refl,
      where X = X and gridType = gridType and interpScheme = interpScheme and Nt = Nt
        and meshSize = meshSize and Lt = Lt and g = g and sigmab = sigmab
        and myProperties = myProperties]
  have "successively (variantOrder isCoefficientsAddStripfootBC isIndependentTermsAddStripfootBC)
        (filter assemblyStep (calls (snd (stripfoot X gridType interpScheme Nt meshSize Lt g sigmab
           myProperties))))"
    apply (rule runShape_variantOrder[OF sh])
      apply (simp add: partsOK_def list_all_iff)
     apply (simp add: assemblyStep_def variantOrder_def is_defs)
    apply (simp add: variantOrder_def is_defs)
    done
  moreover from runShape_assemblySteps_pre[OF sh] have "\<exists>scalars stripSize K mu_f rest.
      filter assemblyStep (calls (snd (stripfoot X gridType interpScheme Nt meshSize Lt g sigmab myProperties)))
        = AssemblyCoefficientsMatrix scalars # CoefficientsAddStripfootBC stripSize K mu_f
            # LinearSystemSolver Nt # rest"
    by (elim exE) (simp add: assemblyStep_def)
  ultimately show ?thesis unfolding assemblySteps_def by blast
qed

lemma stripfootDouble_variants:
  "(\<exists>operator stripSize K mu_f macroK rest.
      assemblySteps (calls (snd (stripfootDouble X gridType interpScheme Nt meshSize Lt g sigmab
          myProperties)))
        = AssemblyDoublePorosityMatrix operator # CoefficientsAddStripfootBC stripSize K mu_f
            # CoefficientsAddMacroStripfootBC stripSize macroK mu_f
            # LinearSystemSolver Nt # rest)
   \<and> successively (variantOrder isCoefficientsAddMacroStripfootBC
          isIndependentTermsAddMacroStripfootBC)
        (assemblySteps (calls (snd (stripfootDouble X gridType interpScheme Nt meshSize Lt g sigmab
           myProperties))))"
proof -
  note sh = stripfootDouble_shape[OF prod.collapse[symmetric] refl refl refl refl refl refl refl,
      where X = X and gridType = gridType and interpScheme = interpScheme and Nt = Nt
        and meshSize = meshSize and Lt = Lt and g = g and sigmab = sigmab
        and myProperties = myProperties]
  have "successively (variantOrder isCoefficientsAddMacroStripfootBC
          isIndependentTermsAddMacroStripfootBC)
        (filter assemblyStep (calls (snd (stripfootDouble X gridType interpScheme Nt meshSize Lt g
           sigmab myProperties))))"
    apply (rule runShape_variantOrder[OF sh])
      apply (simp add: partsOK_def list_all_iff)
     apply (simp add: assemblyStep_def variantOrder_def is_defs)
    apply (simp add: variantOrder_def is_defs)
    done
  moreover from runShape_assemblySteps_pre[OF sh] have "\<exists>operator stripSize K mu_f macroK rest.
      filter assemblyStep (calls (snd (stripfootDouble X gridType interpScheme Nt meshSize Lt g
          sigmab myProperties)))
        = AssemblyDoublePorosityMatrix operator # CoefficientsAddStripfootBC stripSize K mu_f
            # CoefficientsAddMacroStripfootBC stripSize macroK mu_f
            # LinearSystemSolver Nt # rest"
    by (elim exE) (simp add: assemblyStep_def)
  ultimately show ?thesis unfolding assemblySteps_def by blast
qed

text \<open>
  In \<^verbatim>\<open>mandel\<close>, \<^verbatim>\<open>stripfoot\<close> and \<^verbatim>\<open>stripfootDouble\<close>, for every behaviour of the
  collaborators and in failing runs too, the assembly steps of a run begin with the base
  assembly of the operator, followed by the variant calls on the operator and then by the
  constructor of the solver, which takes the operator. In the whole sequence of assembly
  steps every variant call comes right after the base assembly it modifies (the macro
  strip-footing call right after the strip-footing call), and wherever the operator or the
  right-hand side is taken over, the assembly step before is the last variant call of the
  driver: no base assembly runs between a variant call and the use of what it modified.
\<close>

lemma variant_calls_after_base:
  "((\<exists>scalars args rest.
      assemblySteps (calls (snd (mandel X gridType interpScheme Nt meshSize Lt g forceb myProperties)))
        = AssemblyCoefficientsMatrix scalars # AssemblyMandelCoefficientsMatrix args
            # LinearSystemSolver Nt # rest)
    \<and> successively (variantOrder isAssemblyMandelCoefficientsMatrix
          isAssemblyMandelIndependentTermsArray)
        (assemblySteps (calls (snd (mandel X gridType interpScheme Nt meshSize Lt g forceb
           myProperties)))))
   \<and> ((\<exists>scalars stripSize K mu_f rest.
      assemblySteps (calls (snd (stripfoot X gridType interpScheme Nt meshSize Lt g sigmab myProperties)))
        = AssemblyCoefficientsMatrix scalars # CoefficientsAddStripfootBC stripSize K mu_f
            # LinearSystemSolver Nt # rest)
    \<and> successively (variantOrder isCoefficientsAddStripfootBC isIndependentTermsAddStripfootBC)
        (assemblySteps (calls (snd (stripfoot X gridType interpScheme Nt meshSize Lt g sigmab
           myProperties)))))
   \<and> ((\<exists>operator stripSize K mu_f macroK rest.
      assemblySteps (calls (snd (stripfootDouble X gridType interpScheme Nt meshSize Lt g sigmab
          myProperties)))
        = AssemblyDoublePorosityMatrix operator # CoefficientsAddStripfootBC stripSize K mu_f
            # CoefficientsAddMacroStripfootBC stripSize macroK mu_f
            # LinearSystemSolver Nt # rest)
    \<and> successively (variantOrder isCoefficientsAddMacroStripfootBC
          isIndependentTermsAddMacroStripfootBC)
        (assemblySteps (calls (snd (stripfootDouble X gridType interpScheme Nt meshSize Lt g sigmab
           myProperties)))))"
  by (intro conjI mandel_variants[THEN conjunct1] mandel_variants[THEN conjunct2]
      stripfoot_variants[THEN conjunct1] stripfoot_variants[THEN conjunct2]
      stripfootDouble_variants[THEN conjunct1] stripfootDouble_variants[THEN conjunct2])

text \<open>
  The assembly of the right-hand side in a run of \<^verbatim>\<open>stripfootDouble\<close> with two time steps.
\<close>

lemma stripfootDouble_rhs_steps_example:
  "fst (stripfootDouble trial ''staggered'' ''NA'' 3 1 1 0 (- 10000) trialProperties) = 0
   \<and> filter (\<lambda>c. rhsBase c \<or> rhsVariant c \<or> c = PassingIndependentTermsArray)
        (calls (snd (stripfootDouble trial ''staggered'' ''NA'' 3 1 1 0 (- 10000)
           trialProperties)))
     = [AssemblyMacroIndependentTermsArray [1, 1, 1 / 2, 1, 1 / 3, 1, 1, 1, 1, 0, 0] 0
          [1, 1, 1, 1, 1],
        IndependentTermsAddStripfootBC 1 1 (- 10000),
        IndependentTermsAddMacroStripfootBC 1 1 (- 10000),
        PassingIndependentTermsArray,
        AssemblyMacroIndependentTermsArray [1, 1, 1 / 2, 1, 1 / 3, 1, 1, 1, 1, 0, 0] 1
          [1, 1, 1, 1, 1],
        IndependentTermsAddStripfootBC 1 1 (- 10000),
        IndependentTermsAddMacroStripfootBC 1 1 (- 10000),
        PassingIndependentTermsArray]"
  by (simp add: stripfootDouble_def Let_def run_defs trial_defs timeLoop_unfold)

subsection \<open>The right-hand side is rebuilt in every time step\<close>

lemma termsOf_local_copy:
  "termsOf X form timeStep (w\<lparr>independentTermsArray := a\<rparr>)
     = (termsOf X form timeStep w)\<lparr>independentTermsArray := a\<rparr>"
  by (cases form) (simp_all add: terms_defs)

lemma solveTimeStep_local_copy:
  "solveTimeStep X macro (termsOf X form) timeStep (w\<lparr>independentTermsArray := a\<rparr>)
     = solveTimeStep X macro (termsOf X form) timeStep w"
proof -
  have "passingIndependentTermsArray X (termsOf X form timeStep (w\<lparr>independentTermsArray := a\<rparr>))
      = passingIndependentTermsArray X (termsOf X form timeStep w)"
    by (simp add: termsOf_local_copy passingIndependentTermsArray_def)
  then show ?thesis unfolding solveTimeStep_def by (simp only:)
qed



















subsection \<open>The methods applied to the solver in a run\<close>

lemma invokeAll_append:
  "invokeAll L ms s = (0, s') \<Longrightarrow> invokeAll L (ms @ ns) s = invokeAll L ns s'"
  by (induction ms arbitrary: s) (auto split: prod.splits if_splits)

lemma invokeAll_applied: "invokeAll L (applied L ms s) s = invokeAll L ms s"
  by (induction ms arbitrary: s) (auto split: prod.splits)

lemma applied_prefix: "prefix (applied L ms s) ms"
  by (induction ms arbitrary: s) (auto split: prod.splits)

lemma applied_all: "fst (invokeAll L ms s) = 0 \<Longrightarrow> applied L ms s = ms"
  by (induction ms arbitrary: s) (auto split: prod.splits if_splits)

lemma methodCall_fallible: "fallible (methodCall m)"
  by (cases m) simp_all

lemma filter_fallible_methodCalls: "filter fallible (map methodCall ms) = map methodCall ms"
  by (induction ms) (simp_all add: methodCall_fallible)

lemma termsOf_quiet:
  "myLinearSystemSolver (termsOf X form timeStep w) = myLinearSystemSolver w
   \<and> (\<exists>cs. calls (termsOf X form timeStep w) = calls w @ cs \<and> filter fallible cs = [])"
  by (cases form) (simp_all add: terms_defs)

lemmas step_defs = CHKERRQ_def petsc_def passingSolutions_def iterationMethods_def

lemma solveTimeStep_applied:
  assumes "solveTimeStep X macro assembly timeStep w = (e, w')"
    and "w1 = passingIndependentTermsArray X (assembly timeStep w)"
    and "ms = iterationMethods macro timeStep (independentTermsArray w1)"
  shows "invokeAll (LS X) ms (myLinearSystemSolver w1) = (e, myLinearSystemSolver w')
    \<and> (\<exists>cs. calls w' = calls w1 @ cs
          \<and> filter fallible cs = map methodCall (applied (LS X) ms (myLinearSystemSolver w1)))"
proof -
  note run = assms(1)[unfolded solveTimeStep_def assms(2)[symmetric]]
  show ?thesis
  proof (cases macro)
    case True
    note m = True assms(3)

      obtain e1 s1 where z1: "zeroPETScArrays (LS X) (myLinearSystemSolver w1) = (e1, s1)" by fastforce
      show ?thesis
      proof (cases "e1 = 0")
        case False
        then show ?thesis using run m z1 by (auto simp add: step_defs)
      next
        case True
        note z1 = z1[unfolded True]
        obtain e2 s2 where z2: "setRHSValue (LS X) (independentTermsArray w1) s1 = (e2, s2)" by fastforce
        show ?thesis
        proof (cases "e2 = 0")
          case False
          then show ?thesis using run m z1 z2 by (auto simp add: step_defs)
        next
          case True
          note z2 = z2[unfolded True]
          obtain e3 s3 where z3: "solveLinearSystem (LS X) s2 = (e3, s3)" by fastforce
          show ?thesis
          proof (cases "e3 = 0")
            case False
            then show ?thesis using run m z1 z2 z3 by (auto simp add: step_defs)
          next
            case True
            note z3 = z3[unfolded True]
            obtain e4 s4 where z4: "setFieldValue (LS X) (timeStep + 1) s3 = (e4, s4)" by fastforce
            show ?thesis
            proof (cases "e4 = 0")
              case False
              then show ?thesis using run m z1 z2 z3 z4 by (auto simp add: step_defs)
            next
              case True
              note z4 = z4[unfolded True]
              obtain e5 s5 where z5: "setMacroFieldValue (LS X) (timeStep + 1) s4 = (e5, s5)" by fastforce
              show ?thesis
              proof (cases "e5 = 0")
                case False
                then show ?thesis using run m z1 z2 z3 z4 z5 by (auto simp add: step_defs)
              next
                case True
                note z5 = z5[unfolded True]
                obtain e6 s6 where z6: "zeroPETScArrays (LS X) s5 = (e6, s6)" by fastforce
                show ?thesis using run m z1 z2 z3 z4 z5 z6 by (auto simp add: step_defs)
              qed
            qed
          qed
        qed
      qed
  next
    case False
    note m = False assms(3)
      obtain e1 s1 where z1: "zeroPETScArrays (LS X) (myLinearSystemSolver w1) = (e1, s1)" by fastforce
      show ?thesis
      proof (cases "e1 = 0")
        case False
        then show ?thesis using run m z1 by (auto simp add: step_defs)
      next
        case True
        note z1 = z1[unfolded True]
        obtain e2 s2 where z2: "setRHSValue (LS X) (independentTermsArray w1) s1 = (e2, s2)" by fastforce
        show ?thesis
        proof (cases "e2 = 0")
          case False
          then show ?thesis using run m z1 z2 by (auto simp add: step_defs)
        next
          case True
          note z2 = z2[unfolded True]
          obtain e3 s3 where z3: "solveLinearSystem (LS X) s2 = (e3, s3)" by fastforce
          show ?thesis
          proof (cases "e3 = 0")
            case False
            then show ?thesis using run m z1 z2 z3 by (auto simp add: step_defs)
          next
            case True
            note z3 = z3[unfolded True]
            obtain e4 s4 where z4: "setFieldValue (LS X) (timeStep + 1) s3 = (e4, s4)" by fastforce
            show ?thesis
            proof (cases "e4 = 0")
              case False
              then show ?thesis using run m z1 z2 z3 z4 by (auto simp add: step_defs)
            next
              case True
              note z4 = z4[unfolded True]
              obtain e5 s5 where z5: "zeroPETScArrays (LS X) s4 = (e5, s5)" by fastforce
              show ?thesis using run m z1 z2 z3 z4 z5 by (auto simp add: step_defs)
            qed
          qed
        qed
      qed
  qed
qed



lemma iterationMethods_facts:
  "LUFactorization \<notin> set (iterationMethods macro timeStep rhs)"
  "count_list (iterationMethods macro timeStep rhs) LinearSystemSolve = 1"
  by (simp_all add: iterationMethods_def)

lemma solveTimeStep_methods:
  assumes "solveTimeStep X macro assembly timeStep w = (e, w')"
    and quiet: "\<And>t w. myLinearSystemSolver (assembly t w) = myLinearSystemSolver w
      \<and> (\<exists>cs. calls (assembly t w) = calls w @ cs \<and> filter fallible cs = [])"
  shows "\<exists>ms. invokeAll (LS X) ms (myLinearSystemSolver w) = (e, myLinearSystemSolver w')
     \<and> LUFactorization \<notin> set ms
     \<and> (e = 0 \<longrightarrow> count_list ms LinearSystemSolve = 1)
     \<and> (\<exists>cs. calls w' = calls w @ cs \<and> filter fallible cs = map methodCall ms)"
proof -
  define w1 where "w1 = passingIndependentTermsArray X (assembly timeStep w)"
  define full where "full = iterationMethods macro timeStep (independentTermsArray w1)"
  define ms where "ms = applied (LS X) full (myLinearSystemSolver w)"
  from quiet[of timeStep w] obtain cs0 where
    s1: "myLinearSystemSolver w1 = myLinearSystemSolver w"
    and c1: "calls w1 = calls w @ cs0 @ [PassingIndependentTermsArray]"
    and f1: "filter fallible cs0 = []"
    by (auto simp: w1_def passingIndependentTermsArray_def)
  from solveTimeStep_applied[OF assms(1) w1_def full_def] obtain cs where
    i: "invokeAll (LS X) full (myLinearSystemSolver w) = (e, myLinearSystemSolver w')"
    and c: "calls w' = calls w1 @ cs" and f: "filter fallible cs = map methodCall ms"
    unfolding s1 ms_def by blast
  have "invokeAll (LS X) ms (myLinearSystemSolver w) = (e, myLinearSystemSolver w')"
    unfolding ms_def invokeAll_applied by (rule i)
  moreover have "LUFactorization \<notin> set ms"
    using set_mono_prefix[OF applied_prefix[of "LS X" full "myLinearSystemSolver w"]]
      iterationMethods_facts(1)[of macro timeStep "independentTermsArray w1"]
    unfolding ms_def full_def by blast
  moreover have "count_list ms LinearSystemSolve = 1" if "e = 0"
  proof -
    from i that have "ms = full" unfolding ms_def by (simp add: applied_all)
    then show ?thesis unfolding full_def by (simp add: iterationMethods_facts(2))
  qed
  moreover have "calls w' = calls w @ (cs0 @ [PassingIndependentTermsArray] @ cs)"
    "filter fallible (cs0 @ [PassingIndependentTermsArray] @ cs) = map methodCall ms"
    using c c1 f f1 by simp_all
  ultimately show ?thesis by blast
qed

lemma timeLoop_methods:
  assumes "timeLoop X macro assembly Nt timeStep w = (e, w')"
    and "\<And>t w. myLinearSystemSolver (assembly t w) = myLinearSystemSolver w
      \<and> (\<exists>cs. calls (assembly t w) = calls w @ cs \<and> filter fallible cs = [])"
  shows "\<exists>ms. invokeAll (LS X) ms (myLinearSystemSolver w) = (e, myLinearSystemSolver w')
     \<and> LUFactorization \<notin> set ms
     \<and> (e = 0 \<longrightarrow> count_list ms LinearSystemSolve = nat (Nt - 1 - timeStep))
     \<and> (\<exists>cs. calls w' = calls w @ cs \<and> filter fallible cs = map methodCall ms)"
  using assms
proof (induction X macro assembly Nt timeStep w rule: timeLoop.induct)
  case (1 X macro assembly Nt timeStep w)
  note quiet = "1.prems"(2)
  show ?case
  proof (cases "timeStep < Nt - 1")
    case False
    with "1.prems"(1) have "e = 0" "w' = w" by (simp_all add: timeLoop.simps)
    moreover have "invokeAll (LS X) [] (myLinearSystemSolver w) = (0, myLinearSystemSolver w)"
      by simp
    ultimately show ?thesis using False
      by (intro exI[of _ "[]"]) simp
  next
    case True
    obtain e1 w1 where b: "solveTimeStep X macro assembly timeStep w = (e1, w1)" by fastforce
    from solveTimeStep_methods[OF b quiet] obtain ms cs where ms:
      "invokeAll (LS X) ms (myLinearSystemSolver w) = (e1, myLinearSystemSolver w1)"
      "LUFactorization \<notin> set ms" "e1 = 0 \<longrightarrow> count_list ms LinearSystemSolve = 1"
      "calls w1 = calls w @ cs" "filter fallible cs = map methodCall ms"
      by blast
    show ?thesis
    proof (cases "e1 = 0")
      case False
      with True b "1.prems"(1) have "e = e1" "w' = w1" by (simp_all add: timeLoop.simps)
      with ms False show ?thesis by blast
    next
      case e1: True
      with True b "1.prems"(1) have r: "timeLoop X macro assembly Nt (timeStep + 1) w1 = (e, w')"
        by (simp add: timeLoop.simps)
      have ne: "\<not> e1 \<noteq> 0" using e1 by simp
      from "1.IH"[OF True b[symmetric] ne r quiet] obtain ns ds where ns:
        "invokeAll (LS X) ns (myLinearSystemSolver w1) = (e, myLinearSystemSolver w')"
        "LUFactorization \<notin> set ns"
        "e = 0 \<longrightarrow> count_list ns LinearSystemSolve = nat (Nt - 1 - (timeStep + 1))"
        "calls w' = calls w1 @ ds" "filter fallible ds = map methodCall ns"
        by blast
      have "invokeAll (LS X) (ms @ ns) (myLinearSystemSolver w) = (e, myLinearSystemSolver w')"
        using invokeAll_append[OF ms(1)[unfolded e1]] ns(1) by simp
      moreover have "LUFactorization \<notin> set (ms @ ns)" using ms(2) ns(2) by simp
      moreover have "e = 0 \<longrightarrow> count_list (ms @ ns) LinearSystemSolve = nat (Nt - 1 - timeStep)"
        using ms(3) ns(3) e1 True by auto
      moreover have "calls w' = calls w @ (cs @ ds)"
        "filter fallible (cs @ ds) = map methodCall (ms @ ns)"
        using ms(4,5) ns(4,5) by simp_all
      ultimately show ?thesis by blast
    qed
  qed
qed

lemma petsc_invoke:
  assumes "petsc c (invoke (LS X) m) w = (e, w')"
  shows "invoke (LS X) m (myLinearSystemSolver w) = (e, myLinearSystemSolver w')
     \<and> calls w' = calls w @ [c]"
  using assms by (auto simp: petsc_def split: prod.splits)

lemma linearSystemSolution_methods:
  assumes "linearSystemSolution X macro assembly Nt post w = (e, w')"
    and quiet: "\<And>t w. myLinearSystemSolver (assembly t w) = myLinearSystemSolver w
      \<and> (\<exists>cs. calls (assembly t w) = calls w @ cs \<and> filter fallible cs = [])"
    and post: "filter fallible post = []"
  shows "\<exists>ms. invokeAll (LS X) (LUFactorization # ms) (myLinearSystemSolver w)
         = (e, myLinearSystemSolver w')
     \<and> LUFactorization \<notin> set ms
     \<and> (e = 0 \<longrightarrow> count_list ms LinearSystemSolve = nat (Nt - 1))
     \<and> (\<exists>cs. calls w' = calls w @ cs
           \<and> filter fallible cs = map methodCall (LUFactorization # ms))"
  using assms(1) unfolding linearSystemSolution_def invoke.simps(1-3)[symmetric]
proof (cases rule: CHKERRQ_cases)
  case stop
  from petsc_invoke[OF stop(1)] stop(2) show ?thesis
    by (intro exI[of _ "[]"]) simp
next
  case (go w1)
  note c1 = petsc_invoke[OF go(1)]
  from go(2) show ?thesis
  proof (cases rule: CHKERRQ_cases)
    case stop
    from petsc_invoke[OF stop(1)] stop(2) c1 show ?thesis
      by (intro exI[of _ "[CreateArrays]"]) simp
  next
    case (go w2)
    note c2 = petsc_invoke[OF go(1)]
    from go(2) show ?thesis
    proof (cases rule: CHKERRQ_cases)
      case stop
      from petsc_invoke[OF stop(1)] stop(2) c1 c2 show ?thesis
        by (intro exI[of _ "[CreateArrays, ZeroArrays]"]) simp
    next
      case (go w3)
      note c3 = petsc_invoke[OF go(1)]
      have "\<exists>w4. timeLoop X macro assembly Nt 0 w3 = (e, w4)
          \<and> myLinearSystemSolver w' = myLinearSystemSolver w4
          \<and> (\<exists>ds. calls w' = calls w4 @ ds \<and> filter fallible ds = [])"
        using go(2) post by (auto elim!: CHKERRQ_cases)
      then obtain w4 ds where l: "timeLoop X macro assembly Nt 0 w3 = (e, w4)"
        and s4: "myLinearSystemSolver w' = myLinearSystemSolver w4"
        and d4: "calls w' = calls w4 @ ds" "filter fallible ds = []"
        by blast
      from timeLoop_methods[OF l quiet] obtain ns cs where ns:
        "invokeAll (LS X) ns (myLinearSystemSolver w3) = (e, myLinearSystemSolver w4)"
        "LUFactorization \<notin> set ns"
        "e = 0 \<longrightarrow> count_list ns LinearSystemSolve = nat (Nt - 1 - 0)"
        "calls w4 = calls w3 @ cs" "filter fallible cs = map methodCall ns"
        by blast
      have "invokeAll (LS X) (LUFactorization # [CreateArrays, ZeroArrays] @ ns)
          (myLinearSystemSolver w) = (e, myLinearSystemSolver w')"
        using c1 c2 c3 ns(1) s4 by simp
      moreover have "LUFactorization \<notin> set ([CreateArrays, ZeroArrays] @ ns)"
        using ns(2) by simp
      moreover have "e = 0 \<longrightarrow> count_list ([CreateArrays, ZeroArrays] @ ns) LinearSystemSolve
          = nat (Nt - 1)"
        using ns(3) by simp
      moreover have "calls w' = calls w @ ([CoefficientsMatrixLUFactorization,
          CreatePETScArrays, ZeroPETScArrays] @ cs @ ds)"
        using c1 c2 c3 ns(4) d4(1) by simp
      moreover have "filter fallible ([CoefficientsMatrixLUFactorization,
          CreatePETScArrays, ZeroPETScArrays] @ cs @ ds)
          = map methodCall (LUFactorization # [CreateArrays, ZeroArrays] @ ns)"
        using ns(5) d4(2) by simp
      ultimately show ?thesis by blast
    qed
  qed
qed


lemma setupCall_not_fallible: "list_all setupCall cs \<Longrightarrow> filter fallible cs = []"
proof (induction cs)
  case Nil
  show ?case by simp
next
  case (Cons c cs)
  then show ?case by (cases c) simp_all
qed

lemma dataCall_not_fallible: "list_all dataCall cs \<Longrightarrow> filter fallible cs = []"
proof (induction cs)
  case Nil
  show ?case by simp
next
  case (Cons c cs)
  then show ?case by (cases c) simp_all
qed

lemma sealedColumn_begins:
  "\<exists>scalars post w0. sealedColumn X gridType interpScheme Nt meshSize Lt g sigmab myProperties
       = linearSystemSolution X False (termsOf X (BaseTerms scalars)) Nt post w0
     \<and> list_all setupCall (calls w0) \<and> list_all dataCall post"
  unfolding sealedColumn_def Let_def termsOf.simps
  by (intro exI conjI, rule refl) (simp_all add: list_all_iff)

lemma terzaghi_begins:
  "\<exists>scalars post w0. terzaghi X gridType interpScheme Nt meshSize Lt g sigmab myProperties
       = linearSystemSolution X False (termsOf X (BaseTerms scalars)) Nt post w0
     \<and> list_all setupCall (calls w0) \<and> list_all dataCall post"
  unfolding terzaghi_def Let_def termsOf.simps
  by (intro exI conjI, rule refl) (simp_all add: list_all_iff)

lemma mandel_begins:
  "\<exists>scalars forceb0 Lx post w0. mandel X gridType interpScheme Nt meshSize Lt g sigmab myProperties
       = linearSystemSolution X False (termsOf X (MandelTerms scalars forceb0 Lx)) Nt post w0
     \<and> list_all setupCall (calls w0) \<and> list_all dataCall post"
  unfolding mandel_def Let_def termsOf.simps
  by (intro exI conjI, rule refl) (simp_all add: list_all_iff)

lemma convergence_begins:
  "\<exists>scalars post w0. convergence X gridType interpScheme Nt meshSize Lt g sigmab myProperties
       = linearSystemSolution X False (termsOf X (BaseTerms scalars)) Nt post w0
     \<and> list_all setupCall (calls w0) \<and> list_all dataCall post"
  unfolding convergence_def Let_def termsOf.simps
  by (intro exI conjI, rule refl) (simp_all add: list_all_iff)

lemma stripfoot_begins:
  "\<exists>scalars stripSize dx sigmab0 post w0. stripfoot X gridType interpScheme Nt meshSize Lt g sigmab myProperties
       = linearSystemSolution X False (termsOf X (StripfootTerms scalars stripSize dx sigmab0)) Nt post w0
     \<and> list_all setupCall (calls w0) \<and> list_all dataCall post"
  unfolding stripfoot_def Let_def termsOf.simps
  by (intro exI conjI, rule refl) (simp_all add: list_all_iff)

lemma terzaghiDouble_begins:
  "\<exists>scalars macroScalars post w0. terzaghiDouble X gridType interpScheme Nt meshSize Lt g sigmab myProperties
       = linearSystemSolution X True (termsOf X (MacroTerms scalars macroScalars)) Nt post w0
     \<and> list_all setupCall (calls w0) \<and> list_all dataCall post"
  unfolding terzaghiDouble_def Let_def termsOf.simps
  by (intro exI conjI, rule refl) (simp_all add: list_all_iff)

lemma stripfootDouble_begins:
  "\<exists>scalars macroScalars stripSize dx sigmab0 post w0. stripfootDouble X gridType interpScheme Nt meshSize Lt g sigmab myProperties
       = linearSystemSolution X True (termsOf X (MacroStripfootTerms scalars macroScalars stripSize dx sigmab0)) Nt post w0
     \<and> list_all setupCall (calls w0) \<and> list_all dataCall post"
  unfolding stripfootDouble_def Let_def termsOf.simps
  by (intro exI conjI, rule refl) (simp_all add: list_all_iff)

lemma sealedDouble_begins:
  "\<exists>scalars macroScalars post w0. sealedDouble X gridType interpScheme Nt meshSize Lt g sigmab myProperties
       = linearSystemSolution X True (termsOf X (MacroTerms scalars macroScalars)) Nt post w0
     \<and> list_all setupCall (calls w0) \<and> list_all dataCall post"
  unfolding sealedDouble_def Let_def termsOf.simps
  by (intro exI conjI, rule refl) (simp_all add: list_all_iff)

lemma storageDouble_begins:
  "\<exists>scalars macroScalars post w0. storageDouble X gridType interpScheme Nt meshSize Lt g sigmab myProperties
       = linearSystemSolution X True (termsOf X (MacroTerms scalars macroScalars)) Nt post w0
     \<and> list_all setupCall (calls w0) \<and> list_all dataCall post"
  unfolding storageDouble_def Let_def termsOf.simps
  by (intro exI conjI, rule refl) (simp_all add: list_all_iff)

lemma leakingDouble_begins:
  "\<exists>scalars macroScalars post w0. leakingDouble X gridType interpScheme Nt meshSize Lt g sigmab myProperties
       = linearSystemSolution X True (termsOf X (MacroTerms scalars macroScalars)) Nt post w0
     \<and> list_all setupCall (calls w0) \<and> list_all dataCall post"
  unfolding leakingDouble_def Let_def termsOf.simps
  by (intro exI conjI, rule refl) (simp_all add: list_all_iff)

lemma driver_begins:
  "\<exists>macro form post w0. driver b X gridType interpScheme Nt meshSize Lt g sigmab myProperties
       = linearSystemSolution X macro (termsOf X form) Nt post w0
     \<and> list_all setupCall (calls w0) \<and> list_all dataCall post"
proof (cases b)
  case SealedColumn
  from sealedColumn_begins[of X gridType interpScheme Nt meshSize Lt g sigmab myProperties]
  show ?thesis unfolding SealedColumn driver.simps by (elim exE) (intro exI, assumption)
next
  case Terzaghi
  from terzaghi_begins[of X gridType interpScheme Nt meshSize Lt g sigmab myProperties]
  show ?thesis unfolding Terzaghi driver.simps by (elim exE) (intro exI, assumption)
next
  case Mandel
  from mandel_begins[of X gridType interpScheme Nt meshSize Lt g sigmab myProperties]
  show ?thesis unfolding Mandel driver.simps by (elim exE) (intro exI, assumption)
next
  case Convergence
  from convergence_begins[of X gridType interpScheme Nt meshSize Lt g sigmab myProperties]
  show ?thesis unfolding Convergence driver.simps by (elim exE) (intro exI, assumption)
next
  case Stripfoot
  from stripfoot_begins[of X gridType interpScheme Nt meshSize Lt g sigmab myProperties]
  show ?thesis unfolding Stripfoot driver.simps by (elim exE) (intro exI, assumption)
next
  case TerzaghiDouble
  from terzaghiDouble_begins[of X gridType interpScheme Nt meshSize Lt g sigmab myProperties]
  show ?thesis unfolding TerzaghiDouble driver.simps by (elim exE) (intro exI, assumption)
next
  case StripfootDouble
  from stripfootDouble_begins[of X gridType interpScheme Nt meshSize Lt g sigmab myProperties]
  show ?thesis unfolding StripfootDouble driver.simps by (elim exE) (intro exI, assumption)
next
  case SealedDouble
  from sealedDouble_begins[of X gridType interpScheme Nt meshSize Lt g sigmab myProperties]
  show ?thesis unfolding SealedDouble driver.simps by (elim exE) (intro exI, assumption)
next
  case StorageDouble
  from storageDouble_begins[of X gridType interpScheme Nt meshSize Lt g sigmab myProperties]
  show ?thesis unfolding StorageDouble driver.simps by (elim exE) (intro exI, assumption)
next
  case LeakingDouble
  from leakingDouble_begins[of X gridType interpScheme Nt meshSize Lt g sigmab myProperties]
  show ?thesis unfolding LeakingDouble driver.simps by (elim exE) (intro exI, assumption)
qed

text \<open>
  C1. In every driver, for every behaviour of the collaborators and in failing runs too,
  the code a run returns and the solver object it leaves are those of a sequence of method
  applications on the solver object the constructors have built. The sequence begins
  with \<^verbatim>\<open>coefficientsMatrixLUFactorization\<close> and does not apply it again; it consists of
  the methods of the solver that are among the calls of the run, in their order; and when
  the run returns the code zero with \<open>Nt \<ge> 1\<close>, it applies \<^verbatim>\<open>solveLinearSystem\<close> exactly
  \<open>Nt - 1\<close> times. Among the calls of the run no call of the time loop comes before the
  factorization.
\<close>

theorem factorization_once_before_loop:
  assumes "driver b X gridType interpScheme Nt meshSize Lt g sigmab myProperties = (ierr, w)"
  shows "(\<exists>macro form post w0 ms.
        driver b X gridType interpScheme Nt meshSize Lt g sigmab myProperties
          = linearSystemSolution X macro (termsOf X form) Nt post w0
      \<and> invokeAll (LS X) (LUFactorization # ms) (myLinearSystemSolver w0)
          = (ierr, myLinearSystemSolver w)
      \<and> LUFactorization \<notin> set ms
      \<and> (ierr = 0 \<and> 1 \<le> Nt \<longrightarrow> int (count_list ms LinearSystemSolve) = Nt - 1)
      \<and> map methodCall (LUFactorization # ms) = filter fallible (calls w))
    \<and> (\<exists>pre post. calls w = pre @ CoefficientsMatrixLUFactorization # post
          \<and> CoefficientsMatrixLUFactorization \<notin> set pre
          \<and> (\<forall>c\<in>set pre. \<not> timeLoopCall c)
          \<and> CoefficientsMatrixLUFactorization \<notin> set post)"
proof -
  from driver_begins[of b X gridType interpScheme Nt meshSize Lt g sigmab myProperties]
  obtain macro form post w0 where
    d: "driver b X gridType interpScheme Nt meshSize Lt g sigmab myProperties
          = linearSystemSolution X macro (termsOf X form) Nt post w0"
    and pre: "list_all setupCall (calls w0)" and post: "list_all dataCall post"
    by blast
  from d assms have r: "linearSystemSolution X macro (termsOf X form) Nt post w0 = (ierr, w)"
    by simp
  from linearSystemSolution_methods[OF r termsOf_quiet dataCall_not_fallible[OF post]]
  obtain ms cs where ms:
    "invokeAll (LS X) (LUFactorization # ms) (myLinearSystemSolver w0)
       = (ierr, myLinearSystemSolver w)"
    "LUFactorization \<notin> set ms"
    "ierr = 0 \<longrightarrow> count_list ms LinearSystemSolve = nat (Nt - 1)"
    "calls w = calls w0 @ cs" "filter fallible cs = map methodCall (LUFactorization # ms)"
    by blast
  have "map methodCall (LUFactorization # ms) = filter fallible (calls w)"
    unfolding ms(4) using ms(5) setupCall_not_fallible[OF pre] by simp
  moreover have "ierr = 0 \<and> 1 \<le> Nt \<longrightarrow> int (count_list ms LinearSystemSolve) = Nt - 1"
    using ms(3) by auto
  ultimately have "\<exists>macro form post w0 ms.
        driver b X gridType interpScheme Nt meshSize Lt g sigmab myProperties
          = linearSystemSolution X macro (termsOf X form) Nt post w0
      \<and> invokeAll (LS X) (LUFactorization # ms) (myLinearSystemSolver w0)
          = (ierr, myLinearSystemSolver w)
      \<and> LUFactorization \<notin> set ms
      \<and> (ierr = 0 \<and> 1 \<le> Nt \<longrightarrow> int (count_list ms LinearSystemSolve) = Nt - 1)
      \<and> map methodCall (LUFactorization # ms) = filter fallible (calls w)"
    using d ms(1,2) by blast
  then show ?thesis using calls_factorized_once[OF assms, THEN conjunct1] by (rule conjI)
qed

theorem factorization_once_before_loop_witness:
  "fst (driver Terzaghi trial ''staggered'' ''NA'' 3 1 1 0 (- 10000) trialProperties) = 0
   \<and> (1::int) \<le> 3
   \<and> myLinearSystemSolver (snd (driver Terzaghi trial ''staggered'' ''NA'' 3 1 1 0 (- 10000)
        trialProperties)) = 2
   \<and> (\<exists>macro form post w0 ms.
        driver Terzaghi trial ''staggered'' ''NA'' 3 1 1 0 (- 10000) trialProperties
          = linearSystemSolution trial macro (termsOf trial form) 3 post w0
      \<and> invokeAll (LS trial) (LUFactorization # ms) (myLinearSystemSolver w0) = (0, 2)
      \<and> LUFactorization \<notin> set ms
      \<and> int (count_list ms LinearSystemSolve) = 3 - 1)"
proof -
  let ?R = "driver Terzaghi trial ''staggered'' ''NA'' 3 1 1 0 (- 10000) trialProperties"
  have e: "fst ?R = 0" by (rule trial_terzaghi_ierr)
  have s: "myLinearSystemSolver (snd ?R) = 2"
    by (simp add: terzaghi_def Let_def run_defs trial_defs timeLoop_unfold)
  from factorization_once_before_loop[of Terzaghi trial "''staggered''" "''NA''" 3 1 1 0
      "- 10000" trialProperties "fst ?R" "snd ?R", OF prod.collapse[symmetric], THEN conjunct1]
  obtain macro form post w0 ms where f:
    "?R = linearSystemSolution trial macro (termsOf trial form) 3 post w0"
    "invokeAll (LS trial) (LUFactorization # ms) (myLinearSystemSolver w0)
       = (fst ?R, myLinearSystemSolver (snd ?R))"
    "LUFactorization \<notin> set ms"
    "fst ?R = 0 \<and> (1::int) \<le> 3 \<longrightarrow> int (count_list ms LinearSystemSolve) = 3 - 1"
    by blast
  have c: "int (count_list ms LinearSystemSolve) = 3 - 1" using f(4) e by simp
  have n: "(1::int) \<le> 3" by simp
  from e n s f(1) f(2)[unfolded e s] f(3) c show ?thesis by blast
qed

subsection \<open>The buffers of the solver around a solve\<close>








subsection \<open>The rows that the variant calls leave\<close>











end
